theory Spec2Isabelle
  imports Main "HOL-Library.Word"
begin

section \<open>The X11 selection bridge of spice-vdagent (src/vdagent-x11.c)\<close>

text \<open>
  A shallow embedding of the clipboard half of \<^verbatim>\<open>src/src/vdagent-x11.c\<close>. The struct
  \<^verbatim>\<open>vdagent_x11\<close> is a record that is passed through every function; the two singly
  linked request queues are lists whose head is the C pointer \<^verbatim>\<open>x11->selection_req\<close>
  (\<^verbatim>\<open>x11->conversion_req\<close>). Every call that leaves the process (a message to the daemon
  with \<^verbatim>\<open>udscs_write\<close>, a request to the X server) is appended to the field \<open>out\<close>, in
  the order the C code issues it. What the X server or the allocator answer
  (\<^verbatim>\<open>XGetWindowProperty\<close>, \<^verbatim>\<open>malloc\<close>) is an explicit argument. Undefined behaviour of
  the C code (an index past an array, a null pointer that is followed) is a value of type
  \<open>error\<close>.

  Not modelled: the log (\<^verbatim>\<open>fprintf\<close>, \<^verbatim>\<open>SELPRINTF\<close>, \<^verbatim>\<open>VSELPRINTF\<close> and the atom names
  they look up), \<^verbatim>\<open>free\<close>/\<^verbatim>\<open>XFree\<close> of buffers that are not used afterwards, and
  \<^verbatim>\<open>vdagent_x11_set_monitor_config\<close>. \<^verbatim>\<open>vdagent_x11_do_read\<close> pops the events the X server
  has queued and hands each one to \<^verbatim>\<open>vdagent_x11_handle_event\<close>; here these events are
  inputs, so the drain at the end of an entry point is the sequence of
  \<open>vdagent_x11_handle_event\<close> steps that follows it.
\<close>

subsection \<open>Machine integers\<close>

text \<open>
  \<^verbatim>\<open>uint8_t\<close> selections are \<open>8 word\<close> and \<^verbatim>\<open>uint32_t\<close> clipboard types are \<open>32 word\<close>.
  Sizes and cursors are kept as \<open>int\<close>, with the conversions of C written out:
  \<open>to_uint32\<close> for a store into a \<^verbatim>\<open>uint32_t\<close>, \<open>to_int\<close> for a store into an \<^verbatim>\<open>int\<close>
  (32 bits, two's complement), \<open>to_ulong\<close> for \<^verbatim>\<open>unsigned long\<close> (64 bits, the LP64 ABI).
\<close>

definition to_uint32 :: "int \<Rightarrow> int" where
  "to_uint32 x = x mod 4294967296"

definition to_int :: "int \<Rightarrow> int" where
  "to_int x = (if x mod 4294967296 < 2147483648 then x mod 4294967296
               else x mod 4294967296 - 4294967296)"

definition to_ulong :: "int \<Rightarrow> int" where
  "to_ulong x = x mod 18446744073709551616"

definition sizeof_long :: int where
  "sizeof_long = 8"

definition sizeof_uint32 :: int where
  "sizeof_uint32 = 4"

subsection \<open>Constants of the headers\<close>

type_synonym Atom = nat
type_synonym Window = nat
type_synonym byte = "8 word"

text \<open>\<^verbatim>\<open>None\<close>, \<^verbatim>\<open>XA_ATOM\<close>, the \<^verbatim>\<open>PropertyNotify\<close> states and the XFixes subtypes, as
  \<^verbatim>\<open>X11/X.h\<close>, \<^verbatim>\<open>X11/Xatom.h\<close> and \<^verbatim>\<open>X11/extensions/xfixeswire.h\<close> define them.\<close>

definition X_None :: nat where
  "X_None = 0"

definition XA_ATOM :: Atom where
  "XA_ATOM = 4"

definition PropertyNewValue :: int where
  "PropertyNewValue = 0"

definition PropertyDelete :: int where
  "PropertyDelete = 1"

definition XFixesSetSelectionOwnerNotify :: int where
  "XFixesSetSelectionOwnerNotify = 0"

definition XFixesSelectionWindowDestroyNotify :: int where
  "XFixesSelectionWindowDestroyNotify = 1"

definition XFixesSelectionClientCloseNotify :: int where
  "XFixesSelectionClientCloseNotify = 2"

text \<open>Modelled from the spec: the header that defines the clipboard types and the
  selection ids (\<^verbatim>\<open>vdagentd-proto.h\<close>, which includes the spice protocol's) is not among
  the sources. The spec gives the wire values: \<^verbatim>\<open>NONE=0, UTF8_TEXT=1, IMAGE_PNG=2,
  IMAGE_BMP=3, IMAGE_TIFF=4, IMAGE_JPG=5\<close> and \<^verbatim>\<open>CLIPBOARD=0, PRIMARY=1, SECONDARY=2\<close>.\<close>

definition VD_AGENT_CLIPBOARD_NONE :: "32 word" where
  "VD_AGENT_CLIPBOARD_NONE = 0"

definition VD_AGENT_CLIPBOARD_UTF8_TEXT :: "32 word" where
  "VD_AGENT_CLIPBOARD_UTF8_TEXT = 1"

definition VD_AGENT_CLIPBOARD_IMAGE_PNG :: "32 word" where
  "VD_AGENT_CLIPBOARD_IMAGE_PNG = 2"

definition VD_AGENT_CLIPBOARD_IMAGE_BMP :: "32 word" where
  "VD_AGENT_CLIPBOARD_IMAGE_BMP = 3"

definition VD_AGENT_CLIPBOARD_IMAGE_TIFF :: "32 word" where
  "VD_AGENT_CLIPBOARD_IMAGE_TIFF = 4"

definition VD_AGENT_CLIPBOARD_IMAGE_JPG :: "32 word" where
  "VD_AGENT_CLIPBOARD_IMAGE_JPG = 5"

definition VD_AGENT_CLIPBOARD_SELECTION_CLIPBOARD :: "8 word" where
  "VD_AGENT_CLIPBOARD_SELECTION_CLIPBOARD = 0"

definition VD_AGENT_CLIPBOARD_SELECTION_PRIMARY :: "8 word" where
  "VD_AGENT_CLIPBOARD_SELECTION_PRIMARY = 1"

definition VD_AGENT_CLIPBOARD_SELECTION_SECONDARY :: "8 word" where
  "VD_AGENT_CLIPBOARD_SELECTION_SECONDARY = 2"

text \<open>Modelled from the spec: the message codes of the daemon channel (section 6 of the
  spec) are an enumeration of \<^verbatim>\<open>vdagentd-proto.h\<close>; only their identity matters here.\<close>

datatype vdagentd_msg =
    VDAGENTD_GUEST_XORG_RESOLUTION
  | VDAGENTD_CLIPBOARD_GRAB
  | VDAGENTD_CLIPBOARD_REQUEST
  | VDAGENTD_CLIPBOARD_DATA
  | VDAGENTD_CLIPBOARD_RELEASE

subsection \<open>Data\<close>

datatype owner = owner_none | owner_guest | owner_client

datatype error = Out_of_bounds | Null_deref | Uninitialized_read | Signed_overflow | Assert_failed

text \<open>The members of the \<^verbatim>\<open>XEvent\<close> union that the code reads.\<close>

record XSelectionRequestEvent =
  sr_requestor :: Window
  sr_selection :: Atom
  sr_target :: Atom
  sr_property :: Atom
  sr_time :: nat

record XSelectionEvent =
  sn_requestor :: Window
  sn_selection :: Atom
  sn_target :: Atom
  sn_property :: Atom
  sn_time :: nat

record XPropertyEvent =
  pn_window :: Window
  pn_atom :: Atom
  pn_state :: int

record XFixesSelectionNotifyEvent =
  xf_subtype :: int
  xf_window :: Window
  xf_owner :: Window
  xf_selection :: Atom

record XConfigureEvent =
  cf_window :: Window
  cf_width :: int
  cf_height :: int

datatype XEvent =
    XFixesEvent XFixesSelectionNotifyEvent
  | ConfigureNotify XConfigureEvent
  | MappingNotify
  | SelectionNotify XSelectionEvent
  | PropertyNotify XPropertyEvent
  | SelectionClear
  | SelectionRequest XSelectionRequestEvent
  | OtherEvent int

record vdagent_x11_selection_request =
  sel_event :: XSelectionRequestEvent
  sel_selection :: "8 word"

record vdagent_x11_conversion_request =
  conv_target :: Atom
  conv_selection :: "8 word"

record clipboard_format_tmpl =
  tmpl_type :: "32 word"
  atom_names :: "string list"

record clipboard_format_info =
  fmt_type :: "32 word"
  atoms :: "Atom list"

text \<open>\<^verbatim>\<open>atom_count\<close> is the number of atoms \<^verbatim>\<open>vdagent_x11_create\<close> stored in \<^verbatim>\<open>atoms\<close>.\<close>

definition atom_count :: "clipboard_format_info \<Rightarrow> int" where
  "atom_count f = int (length (atoms f))"

definition clipboard_format_templates :: "clipboard_format_tmpl list" where
  "clipboard_format_templates =
     [\<lparr>tmpl_type = VD_AGENT_CLIPBOARD_UTF8_TEXT,
        atom_names = [''UTF8_STRING'', ''text/plain;charset=UTF-8'', ''text/plain;charset=utf-8'']\<rparr>,
      \<lparr>tmpl_type = VD_AGENT_CLIPBOARD_IMAGE_PNG, atom_names = [''image/png'']\<rparr>,
      \<lparr>tmpl_type = VD_AGENT_CLIPBOARD_IMAGE_BMP,
        atom_names = [''image/bmp'', ''image/x-bmp'', ''image/x-MS-bmp'', ''image/x-win-bitmap'']\<rparr>,
      \<lparr>tmpl_type = VD_AGENT_CLIPBOARD_IMAGE_TIFF, atom_names = [''image/tiff'']\<rparr>,
      \<lparr>tmpl_type = VD_AGENT_CLIPBOARD_IMAGE_JPG, atom_names = [''image/jpeg'']\<rparr>]"

definition clipboard_format_count :: nat where
  "clipboard_format_count = length clipboard_format_templates"

text \<open>What a property holds: 8-bit items, or 32-bit items (which Xlib hands over as an
  array of \<^verbatim>\<open>long\<close>), or 16-bit items.\<close>

datatype prop_value = Data8 "byte list" | Data16 "nat list" | Data32 "nat list"

text \<open>What is handed to \<^verbatim>\<open>udscs_write\<close> as \<^verbatim>\<open>data\<close>.\<close>

datatype payload =
    No_data
  | Bytes "byte list"
  | Types "32 word list"
  | Resolution int int

datatype event_mask = PropertyChangeMask | StructureNotifyMask

text \<open>The calls that leave the process. \<open>XChangeProperty w property type format data n\<close>
  carries the \<open>n\<close> (\<^verbatim>\<open>nelements\<close>) the code passes next to the items it points at;
  the mode is always \<^verbatim>\<open>PropModeReplace\<close>. \<open>XGetWindowProperty w property delete type\<close>
  always asks for the whole property.\<close>

datatype action =
    udscs_write vdagentd_msg nat nat payload int
  | XSendEvent Window XSelectionEvent
  | XChangeProperty Window Atom Atom int prop_value int
  | XConvertSelection Atom Atom Atom Window
  | XSetSelectionOwner Atom Window
  | XSelectInput Window event_mask
  | XDeleteProperty Window Atom
  | XGetWindowProperty Window Atom bool Atom
  | XFixesSelectSelectionInput Window Atom
  | XSync

record vdagent_x11 =
  clipboard_formats :: "clipboard_format_info list"
  clipboard_atom :: Atom
  clipboard_primary_atom :: Atom
  targets_atom :: Atom
  incr_atom :: Atom
  multiple_atom :: Atom
  root_window :: Window
  selection_window :: Window
  width :: int
  height :: int
  max_prop_size :: int
  expected_targets_notifies :: "8 word \<Rightarrow> int"
  clipboard_owner :: "8 word \<Rightarrow> owner"
  clipboard_type_count :: "8 word \<Rightarrow> int"
  clipboard_agent_types :: "8 word \<Rightarrow> nat \<Rightarrow> 32 word"
  clipboard_x11_targets :: "8 word \<Rightarrow> nat \<Rightarrow> Atom"
  conversion_req :: "vdagent_x11_conversion_request list"
  expect_property_notify :: bool
  clipboard_data :: "byte list option"
  clipboard_data_size :: int
  clipboard_data_space :: int
  selection_req :: "vdagent_x11_selection_request list"
  selection_req_data :: "byte list option"
  selection_req_data_pos :: int
  selection_req_data_size :: int
  selection_req_atom :: Atom
  out :: "action list"

definition emit :: "action \<Rightarrow> vdagent_x11 \<Rightarrow> vdagent_x11" where
  "emit a x11 = x11\<lparr>out := out x11 @ [a]\<rparr>"

text \<open>What the X server and the allocator answer during one call: the reply to the one
  \<^verbatim>\<open>XGetWindowProperty\<close> a handler makes, and whether its one \<^verbatim>\<open>malloc\<close> or \<^verbatim>\<open>realloc\<close>
  succeeds.\<close>

record environment =
  gp_success :: bool
  gp_type :: Atom
  gp_value :: prop_value
  alloc_ok :: bool

definition format_of :: "prop_value \<Rightarrow> int" where
  "format_of v = (case v of Data8 _ \<Rightarrow> 8 | Data16 _ \<Rightarrow> 16 | Data32 _ \<Rightarrow> 32)"

definition nitems :: "prop_value \<Rightarrow> int" where
  "nitems v = (case v of Data8 bs \<Rightarrow> int (length bs) | Data16 xs \<Rightarrow> int (length xs)
               | Data32 xs \<Rightarrow> int (length xs))"

subsection \<open>vdagent_x11_create: the format table and max_prop_size\<close>

text \<open>Lines 201 to 210: every name of every template is interned, in order. \<open>intern\<close> is
  the X server's atom table (\<^verbatim>\<open>XInternAtom\<close>).\<close>

definition init_clipboard_formats :: "(string \<Rightarrow> Atom) \<Rightarrow> clipboard_format_info list" where
  "init_clipboard_formats intern =
     map (\<lambda>t. \<lparr>fmt_type = tmpl_type t, atoms = map intern (atom_names t)\<rparr>)
       clipboard_format_templates"

text \<open>Lines 241 to 249, from what \<^verbatim>\<open>XExtendedMaxRequestSize\<close> and \<^verbatim>\<open>XMaxRequestSize\<close>
  return.\<close>

definition init_max_prop_size :: "int \<Rightarrow> int \<Rightarrow> int" where
  "init_max_prop_size ext_max_request max_request =
     (let m0 = to_int ext_max_request;
          m1 = (if m0 \<noteq> 0 then m0 - 100 else to_int (max_request - 100))
      in if m1 > 262144 then 262144 else m1)"

record x_server =
  xs_display_ok :: bool
  xs_intern :: "string \<Rightarrow> Atom"
  xs_root_window :: Window
  xs_new_window :: Window
  xs_has_xfixes :: bool
  xs_ext_max_request :: int
  xs_max_request :: int
  xs_width :: int
  xs_height :: int

text \<open>\<^verbatim>\<open>vdagent_x11_create\<close> returns \<^verbatim>\<open>NULL\<close> when the display cannot be opened. The
  struct comes from \<^verbatim>\<open>calloc\<close>: what is not assigned is zero.\<close>

definition vdagent_x11_create :: "x_server \<Rightarrow> vdagent_x11 option" where
  "vdagent_x11_create xs =
     (if \<not> xs_display_ok xs then None
      else Some
       \<lparr>clipboard_formats = init_clipboard_formats (xs_intern xs),
        clipboard_atom = xs_intern xs ''CLIPBOARD'',
        clipboard_primary_atom = xs_intern xs ''PRIMARY'',
        targets_atom = xs_intern xs ''TARGETS'',
        incr_atom = xs_intern xs ''INCR'',
        multiple_atom = xs_intern xs ''MULTIPLE'',
        root_window = xs_root_window xs,
        selection_window = xs_new_window xs,
        width = xs_width xs,
        height = xs_height xs,
        max_prop_size = init_max_prop_size (xs_ext_max_request xs) (xs_max_request xs),
        expected_targets_notifies = (\<lambda>_. 0),
        clipboard_owner = (\<lambda>_. owner_none),
        clipboard_type_count = (\<lambda>_. 0),
        clipboard_agent_types = (\<lambda>_ _. 0),
        clipboard_x11_targets = (\<lambda>_ _. 0),
        conversion_req = [],
        expect_property_notify = False,
        clipboard_data = None,
        clipboard_data_size = 0,
        clipboard_data_space = 0,
        selection_req = [],
        selection_req_data = None,
        selection_req_data_pos = 0,
        selection_req_data_size = 0,
        selection_req_atom = X_None,
        out = (if xs_has_xfixes xs
               then [XFixesSelectSelectionInput (xs_root_window xs) (xs_intern xs ''CLIPBOARD''),
                     XFixesSelectSelectionInput (xs_root_window xs) (xs_intern xs ''PRIMARY'')]
               else [])
              @ [XSelectInput (xs_root_window xs) StructureNotifyMask,
                 udscs_write VDAGENTD_GUEST_XORG_RESOLUTION 0 0
                   (Resolution (xs_width xs) (xs_height xs)) 8]\<rparr>)"

subsection \<open>Queue heads\<close>

definition vdagent_x11_next_selection_request :: "vdagent_x11 \<Rightarrow> vdagent_x11" where
  "vdagent_x11_next_selection_request x11 = x11\<lparr>selection_req := tl (selection_req x11)\<rparr>"

definition vdagent_x11_next_conversion_request :: "vdagent_x11 \<Rightarrow> vdagent_x11" where
  "vdagent_x11_next_conversion_request x11 = x11\<lparr>conversion_req := tl (conversion_req x11)\<rparr>"

subsection \<open>vdagent_x11_target_to_type\<close>

text \<open>
  \<^verbatim>\<open>
  for (i = 0; i < clipboard_format_count; i++) {
      for (j = 0; j < x11->clipboard_formats[i].atom_count; i++) {
          if (x11->clipboard_formats[i].atoms[j] == target) {
              return x11->clipboard_formats[i].type;
          }
      }
  }
  return VD_AGENT_CLIPBOARD_NONE;
  \<close>
  The inner loop increments \<open>i\<close>. \<open>inner\<close> says which loop test is due. The inner test
  reads \<^verbatim>\<open>clipboard_formats[i]\<close> after \<open>i\<close> was incremented, without the outer test in
  between; at \<open>i = clipboard_format_count\<close> that is a read past the array.
\<close>

function target_to_type_loop ::
  "clipboard_format_info list \<Rightarrow> Atom \<Rightarrow> bool \<Rightarrow> nat \<Rightarrow> nat \<Rightarrow> error + 32 word" where
  "target_to_type_loop fs target inner i j =
     (if \<not> inner then
        (if i < length fs then target_to_type_loop fs target True i 0
         else Inr VD_AGENT_CLIPBOARD_NONE)
      else if length fs \<le> i then Inl Out_of_bounds
      else if int j < atom_count (fs ! i) then
        (if atoms (fs ! i) ! j = target then Inr (fmt_type (fs ! i))
         else target_to_type_loop fs target True (i + 1) j)
      else target_to_type_loop fs target False (i + 1) j)"
  by pat_completeness auto
termination
  by (relation "measure (\<lambda>(fs, target, inner, i, j).
        2 * (length fs - i) + (if inner then 0 else 1))") auto

declare target_to_type_loop.simps [simp del]

definition vdagent_x11_target_to_type ::
  "vdagent_x11 \<Rightarrow> 8 word \<Rightarrow> Atom \<Rightarrow> error + 32 word" where
  "vdagent_x11_target_to_type x11 selection target =
     target_to_type_loop (clipboard_formats x11) target False 0 0"

subsection \<open>Selections and their atoms\<close>

text \<open>\<open>None\<close> is the return value \<^verbatim>\<open>-1\<close>: the out parameter is left as it was.\<close>

definition vdagent_x11_get_clipboard_atom :: "vdagent_x11 \<Rightarrow> 8 word \<Rightarrow> Atom option" where
  "vdagent_x11_get_clipboard_atom x11 selection =
     (if selection = VD_AGENT_CLIPBOARD_SELECTION_CLIPBOARD then Some (clipboard_atom x11)
      else if selection = VD_AGENT_CLIPBOARD_SELECTION_PRIMARY
      then Some (clipboard_primary_atom x11)
      else None)"

definition vdagent_x11_get_clipboard_selection :: "vdagent_x11 \<Rightarrow> XEvent \<Rightarrow> 8 word option" where
  "vdagent_x11_get_clipboard_selection x11 event =
     (case (case event of
              XFixesEvent xfev \<Rightarrow> Some (xf_selection xfev)
            | SelectionNotify e \<Rightarrow> Some (sn_selection e)
            | SelectionRequest e \<Rightarrow> Some (sr_selection e)
            | _ \<Rightarrow> None) of
        None \<Rightarrow> None
      | Some atom \<Rightarrow>
          if atom = clipboard_atom x11 then Some VD_AGENT_CLIPBOARD_SELECTION_CLIPBOARD
          else if atom = clipboard_primary_atom x11
          then Some VD_AGENT_CLIPBOARD_SELECTION_PRIMARY
          else None)"

subsection \<open>vdagent_x11_set_clipboard_owner\<close>

text \<open>The \<^verbatim>\<open>SelectionNotify\<close> that \<^verbatim>\<open>vdagent_x11_send_selection_notify\<close> builds from a
  request's event, and the \<^verbatim>\<open>XSendEvent\<close> that delivers it to the requestor.\<close>

definition selection_notify_res :: "Atom \<Rightarrow> XSelectionRequestEvent \<Rightarrow> XSelectionEvent" where
  "selection_notify_res prop event =
     \<lparr>sn_requestor = sr_requestor event, sn_selection = sr_selection event,
      sn_target = sr_target event, sn_property = prop, sn_time = sr_time event\<rparr>"

definition send_notify_event :: "Atom \<Rightarrow> XSelectionRequestEvent \<Rightarrow> vdagent_x11 \<Rightarrow> vdagent_x11" where
  "send_notify_event prop event x11 =
     emit (XSendEvent (sr_requestor event) (selection_notify_res prop event)) x11"

text \<open>
  The first \<^verbatim>\<open>while\<close> loop of \<^verbatim>\<open>vdagent_x11_set_clipboard_owner\<close>. \<open>kept\<close> are the
  requests before \<^verbatim>\<open>curr_sel\<close> that stay in the list and the third argument is the list
  from \<^verbatim>\<open>next_sel\<close> on. The head pointer moves on whenever the head is unlinked, so
  \<^verbatim>\<open>curr_sel == x11->selection_req\<close> holds exactly when nothing was kept so far. The
  notify goes out with \<^verbatim>\<open>request = curr_sel\<close>, so the queue is not advanced by it.
\<close>

fun clear_selection_requests ::
  "8 word \<Rightarrow> vdagent_x11_selection_request list \<Rightarrow> vdagent_x11_selection_request list \<Rightarrow>
   vdagent_x11 \<Rightarrow> vdagent_x11" where
  "clear_selection_requests selection kept [] x11 = x11\<lparr>selection_req := kept\<rparr>"
| "clear_selection_requests selection kept (curr_sel # next_sel) x11 =
     (if sel_selection curr_sel = selection then
        (let x1 = send_notify_event X_None (sel_event curr_sel) x11;
             x2 = (if kept = []
                   then x1\<lparr>selection_req_data := None, selection_req_data_pos := 0,
                           selection_req_data_size := 0, selection_req_atom := X_None\<rparr>
                   else x1)
         in clear_selection_requests selection kept next_sel x2)
      else clear_selection_requests selection (kept @ [curr_sel]) next_sel x11)"

text \<open>The second loop, over the conversion requests.\<close>

fun clear_conversion_requests ::
  "8 word \<Rightarrow> vdagent_x11_conversion_request list \<Rightarrow> vdagent_x11_conversion_request list \<Rightarrow>
   vdagent_x11 \<Rightarrow> vdagent_x11" where
  "clear_conversion_requests selection kept [] x11 = x11\<lparr>conversion_req := kept\<rparr>"
| "clear_conversion_requests selection kept (curr_conv # next_conv) x11 =
     (if conv_selection curr_conv = selection then
        (let x1 = emit (udscs_write VDAGENTD_CLIPBOARD_DATA (unat selection)
                          (unat VD_AGENT_CLIPBOARD_NONE) No_data 0) x11;
             x2 = (if kept = []
                   then x1\<lparr>clipboard_data_size := 0, expect_property_notify := False\<rparr>
                   else x1)
         in clear_conversion_requests selection kept next_conv x2)
      else clear_conversion_requests selection (kept @ [curr_conv]) next_conv x11)"

definition vdagent_x11_set_clipboard_owner :: "vdagent_x11 \<Rightarrow> 8 word \<Rightarrow> owner \<Rightarrow> vdagent_x11" where
  "vdagent_x11_set_clipboard_owner x11 selection new_owner =
     (let x1 = clear_selection_requests selection [] (selection_req x11) x11;
          x2 = clear_conversion_requests selection [] (conversion_req x1) x1;
          x3 = (if new_owner = owner_none then
                  (let x = (if clipboard_owner x2 selection = owner_guest
                            then emit (udscs_write VDAGENTD_CLIPBOARD_RELEASE (unat selection) 0
                                         No_data 0) x2
                            else x2)
                   in x\<lparr>clipboard_type_count := (clipboard_type_count x)(selection := 0)\<rparr>)
                else x2)
      in x3\<lparr>clipboard_owner := (clipboard_owner x3)(selection := new_owner)\<rparr>)"

subsection \<open>Serving selection requests\<close>

text \<open>The three nested loops of \<^verbatim>\<open>vdagent_x11_send_targets\<close>, innermost first. The flag
  is the \<^verbatim>\<open>goto exit_loop\<close> taken when the array of 256 targets is full.\<close>

fun send_targets_k :: "Atom list \<Rightarrow> Atom list \<Rightarrow> Atom list \<times> bool" where
  "send_targets_k [] targets = (targets, False)"
| "send_targets_k (a # as) targets =
     (let targets' = targets @ [a]
      in if length targets' = 256 then (targets', True) else send_targets_k as targets')"

fun send_targets_j :: "clipboard_format_info list \<Rightarrow> 32 word \<Rightarrow> Atom list \<Rightarrow> Atom list \<times> bool" where
  "send_targets_j [] agent_type targets = (targets, False)"
| "send_targets_j (f # fs) agent_type targets =
     (if fmt_type f \<noteq> agent_type then send_targets_j fs agent_type targets
      else (case send_targets_k (atoms f) targets of
              (targets', True) \<Rightarrow> (targets', True)
            | (targets', False) \<Rightarrow> send_targets_j fs agent_type targets'))"

fun send_targets_i :: "clipboard_format_info list \<Rightarrow> 32 word list \<Rightarrow> Atom list \<Rightarrow> Atom list" where
  "send_targets_i fs [] targets = targets"
| "send_targets_i fs (t # ts) targets =
     (case send_targets_j fs t targets of
        (targets', True) \<Rightarrow> targets'
      | (targets', False) \<Rightarrow> send_targets_i fs ts targets')"

text \<open>The first \<^verbatim>\<open>clipboard_type_count[selection]\<close> entries of
  \<^verbatim>\<open>clipboard_agent_types[selection]\<close>, which the loops over \<open>i\<close> read in order.\<close>

definition agent_types_of :: "vdagent_x11 \<Rightarrow> 8 word \<Rightarrow> 32 word list" where
  "agent_types_of x11 selection =
     map (clipboard_agent_types x11 selection) [0 ..< nat (clipboard_type_count x11 selection)]"

text \<open>
  \<^verbatim>\<open>vdagent_x11_handle_selection_request\<close> looks at the head of the queue. Each refusal
  and the targets reply go through \<^verbatim>\<open>vdagent_x11_send_selection_notify\<close> with
  \<^verbatim>\<open>request = NULL\<close>, which pops the head and calls
  \<^verbatim>\<open>vdagent_x11_handle_selection_request\<close> again for the next one.
\<close>

function vdagent_x11_handle_selection_request :: "vdagent_x11 \<Rightarrow> error + vdagent_x11"
  and vdagent_x11_send_selection_notify ::
    "vdagent_x11 \<Rightarrow> Atom \<Rightarrow> vdagent_x11_selection_request option \<Rightarrow> error + vdagent_x11"
  and vdagent_x11_send_targets ::
    "vdagent_x11 \<Rightarrow> 8 word \<Rightarrow> XSelectionRequestEvent \<Rightarrow> error + vdagent_x11"
where
  "vdagent_x11_handle_selection_request x11 =
     (case selection_req x11 of
        [] \<Rightarrow> Inr x11
      | req # rest \<Rightarrow>
          if clipboard_owner x11 (sel_selection req) \<noteq> owner_client
          then vdagent_x11_send_selection_notify x11 X_None None
          else if sr_target (sel_event req) = multiple_atom x11
          then vdagent_x11_send_selection_notify x11 X_None None
          else if sr_target (sel_event req) = targets_atom x11
          then vdagent_x11_send_targets x11 (sel_selection req) (sel_event req)
          else (case vdagent_x11_target_to_type x11 (sel_selection req)
                       (sr_target (sel_event req)) of
                  Inl e \<Rightarrow> Inl e
                | Inr type \<Rightarrow>
                    if type = VD_AGENT_CLIPBOARD_NONE
                    then vdagent_x11_send_selection_notify x11 X_None None
                    else Inr (emit (udscs_write VDAGENTD_CLIPBOARD_REQUEST
                                      (unat (sel_selection req)) (unat type) No_data 0) x11)))"
| "vdagent_x11_send_selection_notify x11 prop request =
     (case request of
        Some r \<Rightarrow> Inr (send_notify_event prop (sel_event r) x11)
      | None \<Rightarrow>
          (case selection_req x11 of
             [] \<Rightarrow> Inl Null_deref
           | r # rest \<Rightarrow>
               vdagent_x11_handle_selection_request
                 (vdagent_x11_next_selection_request
                    (send_notify_event prop (sel_event r) x11))))"
| "vdagent_x11_send_targets x11 selection event =
     (let targets = send_targets_i (clipboard_formats x11) (agent_types_of x11 selection)
                      [targets_atom x11];
          prop = (if sr_property event = X_None then sr_target event else sr_property event)
      in vdagent_x11_send_selection_notify
           (emit (XChangeProperty (sr_requestor event) prop XA_ATOM 32 (Data32 targets)
                    (int (length targets))) x11)
           prop None)"
  by pat_completeness auto
termination
  by (relation "measure (\<lambda>v. case v of
          Inl x11 \<Rightarrow> 3 * length (selection_req x11) + 2
        | Inr (Inl (x11, prop, request)) \<Rightarrow> 3 * length (selection_req x11)
        | Inr (Inr (x11, selection, event)) \<Rightarrow> 3 * length (selection_req x11) + 1)")
     (auto simp: emit_def send_notify_event_def vdagent_x11_next_selection_request_def)

declare vdagent_x11_handle_selection_request.simps [simp del]
declare vdagent_x11_send_selection_notify.simps [simp del]
declare vdagent_x11_send_targets.simps [simp del]

text \<open>
  \<^verbatim>\<open>vdagent_x11_handle_property_delete_notify\<close>: one step of an INCR send.
  \<^verbatim>\<open>len\<close> is an \<^verbatim>\<open>int\<close> that receives the difference of two \<^verbatim>\<open>uint32_t\<close>;
  \<^verbatim>\<open>selection_req_data_pos += len\<close> is computed in \<^verbatim>\<open>uint32_t\<close>. The items handed to
  \<^verbatim>\<open>XChangeProperty\<close> are the \<open>len\<close> bytes from the cursor on (none when \<open>len\<close> is not
  positive).
\<close>

definition vdagent_x11_handle_property_delete_notify ::
  "vdagent_x11 \<Rightarrow> XPropertyEvent \<Rightarrow> error + vdagent_x11" where
  "vdagent_x11_handle_property_delete_notify x11 del_event =
     (case selection_req x11 of
        [] \<Rightarrow> Inl Assert_failed
      | req # rest \<Rightarrow>
          if pn_window del_event \<noteq> sr_requestor (sel_event req)
             \<or> pn_atom del_event \<noteq> selection_req_atom x11
          then Inr x11
          else
            (let len0 = to_int (to_uint32 (selection_req_data_size x11
                                            - selection_req_data_pos x11));
                 len = (if len0 > max_prop_size x11 then max_prop_size x11 else len0);
                 x1 = emit (XChangeProperty (sr_requestor (sel_event req))
                              (selection_req_atom x11) (sr_target (sel_event req)) 8
                              (Data8 (case selection_req_data x11 of
                                        None \<Rightarrow> []
                                      | Some d \<Rightarrow>
                                          take (nat len)
                                            (drop (nat (selection_req_data_pos x11)) d)))
                              len) x11;
                 x2 = x1\<lparr>selection_req_data_pos :=
                           to_uint32 (selection_req_data_pos x1 + len)\<rparr>
             in if len = 0
                then vdagent_x11_handle_selection_request
                       (vdagent_x11_next_selection_request
                          (x2\<lparr>selection_req_data := None, selection_req_data_pos := 0,
                              selection_req_data_size := 0, selection_req_atom := X_None\<rparr>))
                else Inr x2))"

text \<open>
  \<^verbatim>\<open>vdagent_x11_clipboard_data\<close>. The C function gets \<^verbatim>\<open>data\<close> and its \<^verbatim>\<open>uint32_t size\<close>;
  here \<open>size\<close> is the length of \<open>data\<close>. \<^verbatim>\<open>size > x11->max_prop_size\<close> compares a
  \<^verbatim>\<open>uint32_t\<close> with an \<^verbatim>\<open>int\<close>, that is, as unsigned.
\<close>

definition vdagent_x11_clipboard_data ::
  "vdagent_x11 \<Rightarrow> 8 word \<Rightarrow> 32 word \<Rightarrow> byte list \<Rightarrow> error + vdagent_x11" where
  "vdagent_x11_clipboard_data x11 selection type data =
     (if selection_req_data x11 \<noteq> None then Inr x11
      else case selection_req x11 of
        [] \<Rightarrow> Inr x11
      | req # rest \<Rightarrow>
          (case vdagent_x11_target_to_type x11 (sel_selection req)
                  (sr_target (sel_event req)) of
             Inl e \<Rightarrow> Inl e
           | Inr type_from_event \<Rightarrow>
               if type_from_event \<noteq> type \<or> selection \<noteq> sel_selection req
               then vdagent_x11_send_selection_notify x11 X_None None
               else
                 (let event = sel_event req;
                      size = int (length data);
                      prop = (if sr_property event = X_None then sr_target event
                              else sr_property event)
                  in if size > to_uint32 (max_prop_size x11)
                     then vdagent_x11_send_selection_notify
                            (emit (XChangeProperty (sr_requestor event) prop (incr_atom x11) 32
                                     (Data32 [length data]) 1)
                               (emit (XSelectInput (sr_requestor event) PropertyChangeMask)
                                  (x11\<lparr>selection_req_data := Some data,
                                       selection_req_data_pos := 0,
                                       selection_req_data_size := size,
                                       selection_req_atom := prop\<rparr>)))
                            prop (Some req)
                     else vdagent_x11_send_selection_notify
                            (emit (XChangeProperty (sr_requestor event) prop (sr_target event) 8
                                     (Data8 data) size) x11)
                            prop None)))"

subsection \<open>Fetching from the guest: conversion requests\<close>

text \<open>\<^verbatim>\<open>vdagent_x11_type_to_target\<close>: the loop over the recorded (type, target) pairs.\<close>

function type_to_target_loop :: "vdagent_x11 \<Rightarrow> 8 word \<Rightarrow> 32 word \<Rightarrow> nat \<Rightarrow> Atom" where
  "type_to_target_loop x11 selection type i =
     (if int i < clipboard_type_count x11 selection then
        (if clipboard_agent_types x11 selection i = type
         then clipboard_x11_targets x11 selection i
         else type_to_target_loop x11 selection type (i + 1))
      else X_None)"
  by pat_completeness auto
termination
  by (relation "measure (\<lambda>(x11, selection, type, i).
        nat (clipboard_type_count x11 selection) - i)") auto

declare type_to_target_loop.simps [simp del]

definition vdagent_x11_type_to_target :: "vdagent_x11 \<Rightarrow> 8 word \<Rightarrow> 32 word \<Rightarrow> Atom" where
  "vdagent_x11_type_to_target x11 selection type = type_to_target_loop x11 selection type 0"

text \<open>\<^verbatim>\<open>vdagent_x11_handle_conversion_request\<close> ignores what
  \<^verbatim>\<open>vdagent_x11_get_clipboard_atom\<close> returns; for a selection it does not know, \<^verbatim>\<open>clip\<close>
  is read without having been written.\<close>

definition vdagent_x11_handle_conversion_request :: "vdagent_x11 \<Rightarrow> error + vdagent_x11" where
  "vdagent_x11_handle_conversion_request x11 =
     (case conversion_req x11 of
        [] \<Rightarrow> Inr x11
      | req # rest \<Rightarrow>
          (case vdagent_x11_get_clipboard_atom x11 (conv_selection req) of
             None \<Rightarrow> Inl Uninitialized_read
           | Some clip \<Rightarrow>
               Inr (emit (XConvertSelection clip (conv_target req) clip (selection_window x11))
                      x11)))"

text \<open>\<^verbatim>\<open>*(uint32_t*)data\<close> on what \<^verbatim>\<open>XGetWindowProperty\<close> returned (little endian): the
  low half of the first \<^verbatim>\<open>long\<close>, the first two 16-bit items, or the first four bytes.\<close>

definition read_uint32 :: "prop_value \<Rightarrow> error + int" where
  "read_uint32 v =
     (case v of
        Data32 (x # _) \<Rightarrow> Inr (to_uint32 (int x))
      | Data16 (a # b # _) \<Rightarrow> Inr (int (a mod 65536) + 65536 * int (b mod 65536))
      | Data8 (b0 # b1 # b2 # b3 # _) \<Rightarrow>
          Inr (uint b0 + 256 * uint b1 + 65536 * uint b2 + 16777216 * uint b3)
      | _ \<Rightarrow> Inl Out_of_bounds)"

text \<open>The label \<^verbatim>\<open>exit\<close> of \<^verbatim>\<open>vdagent_x11_get_selection\<close>.\<close>

definition get_selection_exit ::
  "vdagent_x11 \<Rightarrow> bool \<Rightarrow> int \<Rightarrow> prop_value option \<Rightarrow>
   error + (vdagent_x11 \<times> int \<times> prop_value option)" where
  "get_selection_exit x11 incr ret_val data_ret =
     Inr (if incr then x11\<lparr>clipboard_data_size := 0, expect_property_notify := False\<rparr>
          else x11, ret_val, data_ret)"

text \<open>The block for a property of type \<^verbatim>\<open>INCR\<close> (lines 617 to 642): the start of an
  incremental receive.\<close>

definition get_selection_incr_start ::
  "vdagent_x11 \<Rightarrow> Atom \<Rightarrow> environment \<Rightarrow> error + (vdagent_x11 \<times> int \<times> prop_value option)" where
  "get_selection_incr_start x11 prop env =
     (case read_uint32 (gp_value env) of
        Inl e \<Rightarrow> Inl e
      | Inr v \<Rightarrow>
          (let prop_min_size = to_int v
           in if expect_property_notify x11 then get_selection_exit x11 False (- 1) None
              else if clipboard_data_space x11 < to_uint32 prop_min_size \<and> \<not> alloc_ok env
              then get_selection_exit (x11\<lparr>clipboard_data := None, clipboard_data_space := 0\<rparr>)
                     False (- 1) None
              else
                (let x1 = (if clipboard_data_space x11 < to_uint32 prop_min_size
                           then x11\<lparr>clipboard_data := Some [],
                                    clipboard_data_space := to_uint32 prop_min_size\<rparr>
                           else x11)
                 in Inr (emit (XDeleteProperty (selection_window x11) prop)
                           (emit (XSelectInput (selection_window x11) PropertyChangeMask)
                              (x1\<lparr>expect_property_notify := True\<rparr>)),
                         0, None))))"

text \<open>The block \<^verbatim>\<open>if (incr)\<close> (lines 670 to 692): one more chunk of an incremental
  receive, or its end. \<open>len\<close> is the byte count and \<open>bs\<close> are the bytes read.\<close>

definition get_selection_incr_chunk ::
  "vdagent_x11 \<Rightarrow> int \<Rightarrow> byte list \<Rightarrow> environment \<Rightarrow>
   error + (vdagent_x11 \<times> int \<times> prop_value option)" where
  "get_selection_incr_chunk x11 len bs env =
     (if len \<noteq> 0 then
        (if to_ulong (clipboard_data_size x11 + len) > clipboard_data_space x11
            \<and> \<not> alloc_ok env
         then get_selection_exit (x11\<lparr>clipboard_data := None, clipboard_data_space := 0\<rparr>)
                True (- 1) None
         else
           (let x1 = (if to_ulong (clipboard_data_size x11 + len) > clipboard_data_space x11
                      then x11\<lparr>clipboard_data :=
                                 Some (case clipboard_data x11 of None \<Rightarrow> [] | Some b \<Rightarrow> b),
                               clipboard_data_space :=
                                 to_uint32 (clipboard_data_size x11 + len)\<rparr>
                      else x11)
            in case clipboard_data x1 of
                 None \<Rightarrow> Inl Null_deref
               | Some b \<Rightarrow>
                   Inr (x1\<lparr>clipboard_data := Some (take (nat (clipboard_data_size x1)) b @ bs),
                           clipboard_data_size := to_uint32 (clipboard_data_size x1 + len)\<rparr>,
                        0, None)))
      else if clipboard_data_size x11 > 0
      then get_selection_exit x11 True (to_int (clipboard_data_size x11))
             (Some (Data8 (case clipboard_data x11 of
                             None \<Rightarrow> []
                           | Some b \<Rightarrow> take (nat (clipboard_data_size x11)) b)))
      else get_selection_exit x11 True (- 1) None)"

text \<open>The number of bytes of \<open>n\<close> items of the given format (\<^verbatim>\<open>unsigned long\<close>
  arithmetic).\<close>

definition byte_length :: "int \<Rightarrow> int \<Rightarrow> int" where
  "byte_length format n =
     (if format = 16 then to_ulong (n * 2)
      else if format = 32 then to_ulong (n * sizeof_long)
      else n)"

definition bytes_of :: "prop_value \<Rightarrow> byte list" where
  "bytes_of v = (case v of Data8 bs \<Rightarrow> bs | _ \<Rightarrow> [])"

text \<open>
  \<^verbatim>\<open>vdagent_x11_get_selection\<close> returns the state, \<^verbatim>\<open>ret_val\<close> and \<^verbatim>\<open>*data_ret\<close>. The
  members of \<^verbatim>\<open>event->xselection\<close> are read only when \<^verbatim>\<open>incr\<close> is 0, and every caller
  passes a \<^verbatim>\<open>SelectionNotify\<close> then.
\<close>

definition vdagent_x11_get_selection ::
  "vdagent_x11 \<Rightarrow> XEvent \<Rightarrow> 8 word \<Rightarrow> Atom \<Rightarrow> Atom \<Rightarrow> int \<Rightarrow> bool \<Rightarrow> environment \<Rightarrow>
   error + (vdagent_x11 \<times> int \<times> prop_value option)" where
  "vdagent_x11_get_selection x11 event selection type prop format incr env =
     (case (if incr then Inr True
            else case event of
                   SelectionNotify e \<Rightarrow>
                     Inr (if sn_property e = X_None then False
                          else if sn_requestor e \<noteq> selection_window x11 \<or> sn_property e \<noteq> prop
                          then False
                          else True)
                 | _ \<Rightarrow> Inl Uninitialized_read) of
        Inl e \<Rightarrow> Inl e
      | Inr False \<Rightarrow> get_selection_exit x11 incr (- 1) None
      | Inr True \<Rightarrow>
          (let x1 = emit (XGetWindowProperty (selection_window x11) prop incr type) x11
           in if \<not> gp_success env then get_selection_exit x1 incr (- 1) None
              else if \<not> incr \<and> prop \<noteq> targets_atom x1 \<and> gp_type env = incr_atom x1
              then get_selection_incr_start x1 prop env
              else
                (let x2 = (if \<not> incr \<and> prop \<noteq> targets_atom x1
                           then emit (XDeleteProperty (selection_window x1) prop) x1
                           else x1);
                     len = byte_length format (nitems (gp_value env))
                 in if gp_type env \<noteq> type then get_selection_exit x2 incr (- 1) None
                    else if format_of (gp_value env) \<noteq> format
                    then get_selection_exit x2 incr (- 1) None
                    else if incr
                    then get_selection_incr_chunk x2 len (bytes_of (gp_value env)) env
                    else if len > 0
                    then get_selection_exit x2 incr (to_int len) (Some (gp_value env))
                    else get_selection_exit x2 incr (- 1) None)))"

definition vdagent_x11_get_selection_free :: "vdagent_x11 \<Rightarrow> bool \<Rightarrow> vdagent_x11" where
  "vdagent_x11_get_selection_free x11 incr =
     (if incr \<and> clipboard_data_space x11 > 512 * 1024
      then x11\<lparr>clipboard_data := None, clipboard_data_space := 0\<rparr>
      else x11)"

text \<open>
  \<^verbatim>\<open>vdagent_x11_handle_selection_notify\<close>. \<open>check\<close> is the value of \<^verbatim>\<open>len\<close> after the
  tests on the event (0 or -1), or \<open>None\<close> for the early return of the \<^verbatim>\<open>incr\<close> case.
\<close>

definition vdagent_x11_handle_selection_notify ::
  "vdagent_x11 \<Rightarrow> XEvent \<Rightarrow> bool \<Rightarrow> environment \<Rightarrow> error + vdagent_x11" where
  "vdagent_x11_handle_selection_notify x11 event incr env =
     (case conversion_req x11 of
        [] \<Rightarrow> Inr x11
      | req # rest \<Rightarrow>
          (case vdagent_x11_get_clipboard_atom x11 (conv_selection req) of
             None \<Rightarrow> Inl Uninitialized_read
           | Some clip \<Rightarrow>
               (case (if incr then
                        (case event of
                           PropertyNotify p \<Rightarrow>
                             Inr (if pn_atom p \<noteq> clip \<or> pn_window p \<noteq> selection_window x11
                                  then None else Some (0::int))
                         | _ \<Rightarrow> Inl Uninitialized_read)
                      else
                        (case event of
                           SelectionNotify e \<Rightarrow>
                             (let len1 = (case vdagent_x11_get_clipboard_selection x11 event of
                                            None \<Rightarrow> - 1
                                          | Some selection \<Rightarrow>
                                              if selection \<noteq> conv_selection req then - 1 else 0)
                              in Inr (Some (if sn_target e \<noteq> conv_target req
                                               \<and> sn_target e \<noteq> incr_atom x11
                                            then - 1 else len1)))
                         | _ \<Rightarrow> Inl Uninitialized_read)) of
                  Inl e \<Rightarrow> Inl e
                | Inr None \<Rightarrow> Inr x11
                | Inr (Some check) \<Rightarrow>
                    (case vdagent_x11_target_to_type x11 (conv_selection req) (conv_target req) of
                       Inl e \<Rightarrow> Inl e
                     | Inr type \<Rightarrow>
                         (case (if check = 0
                                then vdagent_x11_get_selection x11 event (conv_selection req)
                                       (conv_target req) clip 8 incr env
                                else Inr (x11, check, None)) of
                            Inl e \<Rightarrow> Inl e
                          | Inr (x1, len, data) \<Rightarrow>
                              if check = 0 \<and> len = 0 then Inr x1
                              else
                                (let x2 = emit (udscs_write VDAGENTD_CLIPBOARD_DATA
                                                  (unat (conv_selection req))
                                                  (unat (if len = - 1 then VD_AGENT_CLIPBOARD_NONE
                                                         else type))
                                                  (case data of None \<Rightarrow> No_data
                                                   | Some v \<Rightarrow> Bytes (bytes_of v))
                                                  (to_uint32 (if len = - 1 then 0 else len))) x1
                                 in vdagent_x11_handle_conversion_request
                                      (vdagent_x11_next_conversion_request
                                         (vdagent_x11_get_selection_free x2 incr))))))))"

subsection \<open>The targets of a new owner\<close>

text \<open>\<^verbatim>\<open>atom_lists_overlap\<close>: the inner loop over \<^verbatim>\<open>atoms2\<close>, then the outer loop over
  \<^verbatim>\<open>atoms1\<close>. The lists are the first \<open>l1\<close> and \<open>l2\<close> entries the pointers point at.\<close>

fun atom_in_list :: "Atom \<Rightarrow> Atom list \<Rightarrow> bool" where
  "atom_in_list a [] = False"
| "atom_in_list a (b # bs) = (if a = b then True else atom_in_list a bs)"

fun atom_lists_overlap_loop :: "Atom list \<Rightarrow> Atom list \<Rightarrow> Atom" where
  "atom_lists_overlap_loop [] atoms2 = 0"
| "atom_lists_overlap_loop (a # atoms1) atoms2 =
     (if atom_in_list a atoms2 then a else atom_lists_overlap_loop atoms1 atoms2)"

definition atom_lists_overlap :: "Atom list \<Rightarrow> Atom list \<Rightarrow> int \<Rightarrow> int \<Rightarrow> Atom" where
  "atom_lists_overlap atoms1 atoms2 l1 l2 =
     atom_lists_overlap_loop (take (nat l1) atoms1) (take (nat l2) atoms2)"

text \<open>The loop of \<^verbatim>\<open>vdagent_x11_handle_targets_notify\<close> over the formats from index \<open>i\<close>
  on (lines 894 to 908), with its \<^verbatim>\<open>break\<close> when 256 types are recorded.\<close>

fun targets_notify_loop ::
  "clipboard_format_info list \<Rightarrow> Atom list \<Rightarrow> int \<Rightarrow> 8 word \<Rightarrow> vdagent_x11 \<Rightarrow> vdagent_x11" where
  "targets_notify_loop [] atoms2 len selection x11 = x11"
| "targets_notify_loop (f # fs) atoms2 len selection x11 =
     (let atom = atom_lists_overlap (atoms f) atoms2 (atom_count f) len
      in if atom \<noteq> 0 then
           (let n = nat (clipboard_type_count x11 selection);
                x1 = x11\<lparr>clipboard_agent_types :=
                           (clipboard_agent_types x11)
                             (selection := (clipboard_agent_types x11 selection)(n := fmt_type f)),
                         clipboard_x11_targets :=
                           (clipboard_x11_targets x11)
                             (selection := (clipboard_x11_targets x11 selection)(n := atom)),
                         clipboard_type_count :=
                           (clipboard_type_count x11)
                             (selection := clipboard_type_count x11 selection + 1)\<rparr>
            in if clipboard_type_count x1 selection = 256 then x1
               else targets_notify_loop fs atoms2 len selection x1)
         else targets_notify_loop fs atoms2 len selection x11)"

definition atoms_of :: "prop_value option \<Rightarrow> Atom list" where
  "atoms_of data = (case data of Some (Data32 xs) \<Rightarrow> xs | _ \<Rightarrow> [])"

text \<open>
  \<^verbatim>\<open>vdagent_x11_handle_targets_notify\<close>. \<^verbatim>\<open>len /= sizeof(Atom)\<close> divides an \<^verbatim>\<open>int\<close> by
  an \<^verbatim>\<open>unsigned long\<close>: the division is unsigned and the quotient goes back into the
  \<^verbatim>\<open>int\<close>.
\<close>

definition vdagent_x11_handle_targets_notify ::
  "vdagent_x11 \<Rightarrow> XSelectionEvent \<Rightarrow> environment \<Rightarrow> error + vdagent_x11" where
  "vdagent_x11_handle_targets_notify x11 e env =
     (case vdagent_x11_get_clipboard_selection x11 (SelectionNotify e) of
        None \<Rightarrow> Inr x11
      | Some selection \<Rightarrow>
          if expected_targets_notifies x11 selection = 0 then Inr x11
          else
            (let x1 = x11\<lparr>expected_targets_notifies :=
                            (expected_targets_notifies x11)
                              (selection := expected_targets_notifies x11 selection - 1)\<rparr>
             in if expected_targets_notifies x1 selection \<noteq> 0 then Inr x1
                else
                  (case vdagent_x11_get_selection x1 (SelectionNotify e) selection XA_ATOM
                          (targets_atom x1) 32 False env of
                     Inl err \<Rightarrow> Inl err
                   | Inr (x2, len, data) \<Rightarrow>
                       if len = 0 \<or> len = - 1 then Inr x2
                       else
                         (let len' = to_int (to_ulong len div sizeof_long);
                              x3 = targets_notify_loop (clipboard_formats x2) (atoms_of data)
                                     len' selection
                                     (x2\<lparr>clipboard_type_count :=
                                           (clipboard_type_count x2)(selection := 0)\<rparr>)
                          in if clipboard_type_count x3 selection \<noteq> 0
                             then Inr (vdagent_x11_set_clipboard_owner
                                         (emit (udscs_write VDAGENTD_CLIPBOARD_GRAB
                                                  (unat selection) 0
                                                  (Types (agent_types_of x3 selection))
                                                  (to_uint32 (clipboard_type_count x3 selection
                                                              * sizeof_uint32))) x3)
                                         selection owner_guest)
                             else Inr x3))))"

subsection \<open>The event dispatch\<close>

definition vdagent_x11_send_daemon_guest_xorg_res :: "vdagent_x11 \<Rightarrow> vdagent_x11" where
  "vdagent_x11_send_daemon_guest_xorg_res x11 =
     emit (udscs_write VDAGENTD_GUEST_XORG_RESOLUTION 0 0 (Resolution (width x11) (height x11)) 8)
       x11"

text \<open>
  \<^verbatim>\<open>vdagent_x11_handle_event\<close>. An event whose type is \<^verbatim>\<open>xfixes_event_base\<close> is an
  \<open>XFixesEvent\<close>. The counter \<^verbatim>\<open>expected_targets_notifies\<close> is an \<^verbatim>\<open>int\<close>; incrementing
  it at \<^verbatim>\<open>INT_MAX\<close> is undefined.
\<close>

definition vdagent_x11_handle_event ::
  "vdagent_x11 \<Rightarrow> XEvent \<Rightarrow> environment \<Rightarrow> error + vdagent_x11" where
  "vdagent_x11_handle_event x11 event env =
     (case event of
        XFixesEvent xfev \<Rightarrow>
          (case vdagent_x11_get_clipboard_selection x11 event of
             None \<Rightarrow> Inr x11
           | Some selection \<Rightarrow>
               if xf_subtype xfev \<noteq> XFixesSetSelectionOwnerNotify
                  \<and> xf_subtype xfev \<noteq> XFixesSelectionWindowDestroyNotify
                  \<and> xf_subtype xfev \<noteq> XFixesSelectionClientCloseNotify
               then Inr x11
               else
                 (let new_owner = (if xf_subtype xfev = XFixesSetSelectionOwnerNotify
                                   then xf_owner xfev else X_None)
                  in if new_owner = selection_window x11 then Inr x11
                     else
                       (let x1 = vdagent_x11_set_clipboard_owner x11 selection owner_none
                        in if new_owner = X_None then Inr x1
                           else if expected_targets_notifies x1 selection = 2147483647
                           then Inl Signed_overflow
                           else Inr ((emit (XConvertSelection (xf_selection xfev)
                                              (targets_atom x1) (targets_atom x1)
                                              (selection_window x1)) x1)
                                     \<lparr>expected_targets_notifies :=
                                        (expected_targets_notifies x1)
                                          (selection :=
                                             expected_targets_notifies x1 selection + 1)\<rparr>))))
      | ConfigureNotify c \<Rightarrow>
          if cf_window c \<noteq> root_window x11 then Inr x11
          else if cf_width c = width x11 \<and> cf_height c = height x11 then Inr x11
          else Inr (vdagent_x11_send_daemon_guest_xorg_res
                      (x11\<lparr>width := cf_width c, height := cf_height c\<rparr>))
      | MappingNotify \<Rightarrow> Inr x11
      | SelectionNotify e \<Rightarrow>
          if sn_target e = targets_atom x11 then vdagent_x11_handle_targets_notify x11 e env
          else vdagent_x11_handle_selection_notify x11 event False env
      | PropertyNotify p \<Rightarrow>
          (case (if expect_property_notify x11 \<and> pn_state p = PropertyNewValue
                 then vdagent_x11_handle_selection_notify x11 event True env
                 else Inr x11) of
             Inl err \<Rightarrow> Inl err
           | Inr x1 \<Rightarrow>
               if selection_req_data x1 \<noteq> None \<and> pn_state p = PropertyDelete
               then vdagent_x11_handle_property_delete_notify x1 p
               else Inr x1)
      | SelectionClear \<Rightarrow> Inr x11
      | SelectionRequest e \<Rightarrow>
          (case vdagent_x11_get_clipboard_selection x11 event of
             None \<Rightarrow> Inr x11
           | Some selection \<Rightarrow>
               if \<not> alloc_ok env then Inr x11
               else if selection_req x11 = []
               then vdagent_x11_handle_selection_request
                      (x11\<lparr>selection_req := [\<lparr>sel_event = e, sel_selection = selection\<rparr>]\<rparr>)
               else Inr (x11\<lparr>selection_req :=
                               selection_req x11 @ [\<lparr>sel_event = e, sel_selection = selection\<rparr>]\<rparr>))
      | OtherEvent t \<Rightarrow> Inr x11)"

text \<open>\<^verbatim>\<open>vdagent_x11_do_read\<close> over the events that are pending, each with what the server
  and the allocator answer while it is handled.\<close>

fun vdagent_x11_do_read :: "vdagent_x11 \<Rightarrow> (XEvent \<times> environment) list \<Rightarrow> error + vdagent_x11" where
  "vdagent_x11_do_read x11 [] = Inr x11"
| "vdagent_x11_do_read x11 ((event, env) # pending) =
     (case vdagent_x11_handle_event x11 event env of
        Inl err \<Rightarrow> Inl err
      | Inr x1 \<Rightarrow> vdagent_x11_do_read x1 pending)"

subsection \<open>The daemon's messages\<close>

text \<open>\<^verbatim>\<open>vdagent_x11_clipboard_request\<close>; \<open>alloc\<close> says whether \<^verbatim>\<open>malloc\<close> returns a
  slot.\<close>

definition vdagent_x11_clipboard_request ::
  "vdagent_x11 \<Rightarrow> 8 word \<Rightarrow> 32 word \<Rightarrow> bool \<Rightarrow> error + vdagent_x11" where
  "vdagent_x11_clipboard_request x11 selection type alloc =
     (let none = Inr (emit (udscs_write VDAGENTD_CLIPBOARD_DATA (unat selection)
                              (unat VD_AGENT_CLIPBOARD_NONE) No_data 0) x11)
      in case vdagent_x11_get_clipboard_atom x11 selection of
           None \<Rightarrow> none
         | Some clip \<Rightarrow>
             if clipboard_owner x11 selection \<noteq> owner_guest then none
             else if vdagent_x11_type_to_target x11 selection type = X_None then none
             else if \<not> alloc then Inr x11
             else if conversion_req x11 = []
             then vdagent_x11_handle_conversion_request
                    (x11\<lparr>conversion_req :=
                           [\<lparr>conv_target = vdagent_x11_type_to_target x11 selection type,
                             conv_selection = selection\<rparr>]\<rparr>)
             else Inr (x11\<lparr>conversion_req :=
                             conversion_req x11
                             @ [\<lparr>conv_target = vdagent_x11_type_to_target x11 selection type,
                                 conv_selection = selection\<rparr>]\<rparr>))"

text \<open>\<^verbatim>\<open>vdagent_x11_clipboard_grab\<close>; \<^verbatim>\<open>type_count\<close> is the length of \<open>types\<close>. The
  \<^verbatim>\<open>memcpy\<close> overwrites the first \<^verbatim>\<open>type_count\<close> entries of the row.\<close>

definition vdagent_x11_clipboard_grab ::
  "vdagent_x11 \<Rightarrow> 8 word \<Rightarrow> 32 word list \<Rightarrow> vdagent_x11" where
  "vdagent_x11_clipboard_grab x11 selection types =
     (case vdagent_x11_get_clipboard_atom x11 selection of
        None \<Rightarrow> x11
      | Some clip \<Rightarrow>
          (let type_count = (if length types > 256 then 256 else length types);
               x1 = x11\<lparr>clipboard_agent_types :=
                          (clipboard_agent_types x11)
                            (selection := (\<lambda>i. if i < type_count then types ! i
                                                else clipboard_agent_types x11 selection i)),
                        clipboard_type_count :=
                          (clipboard_type_count x11)(selection := int type_count)\<rparr>
           in vdagent_x11_set_clipboard_owner
                (emit (XSetSelectionOwner clip (selection_window x1)) x1)
                selection owner_client))"

text \<open>\<^verbatim>\<open>vdagent_x11_clipboard_release\<close>; \<open>xfixes_events\<close> are the XFixes events that
  \<^verbatim>\<open>XCheckTypedEvent\<close> finds after the \<^verbatim>\<open>XSync\<close>.\<close>

definition vdagent_x11_clipboard_release ::
  "vdagent_x11 \<Rightarrow> 8 word \<Rightarrow> (XEvent \<times> environment) list \<Rightarrow> error + vdagent_x11" where
  "vdagent_x11_clipboard_release x11 selection xfixes_events =
     (case vdagent_x11_get_clipboard_atom x11 selection of
        None \<Rightarrow> Inr x11
      | Some clip \<Rightarrow>
          if clipboard_owner x11 selection \<noteq> owner_client then Inr x11
          else vdagent_x11_do_read (emit XSync (emit (XSetSelectionOwner clip X_None) x11))
                 xfixes_events)"

section \<open>Notions of the specification\<close>

text \<open>
  The classification the specification describes (\<open>classify_target\<close> of section 4.2):
  the type of the first template, in declared order, whose atom list holds the atom, and
  \<^verbatim>\<open>NONE\<close> when no list holds it.
\<close>

definition classify_target_spec :: "clipboard_format_info list \<Rightarrow> Atom \<Rightarrow> 32 word" where
  "classify_target_spec fs target =
     (case find (\<lambda>f. target \<in> set (atoms f)) fs of
        None \<Rightarrow> VD_AGENT_CLIPBOARD_NONE
      | Some f \<Rightarrow> fmt_type f)"

text \<open>What \<^verbatim>\<open>vdagent_x11_create\<close> leaves in \<^verbatim>\<open>clipboard_formats\<close> when every
  \<^verbatim>\<open>XInternAtom\<close> returns an atom: one entry per template, each with at least one and at
  most 15 atoms, none of them \<^verbatim>\<open>None\<close>.\<close>

definition valid_formats :: "clipboard_format_info list \<Rightarrow> bool" where
  "valid_formats fs =
     (length fs = clipboard_format_count
      \<and> list_all (\<lambda>f. atoms f \<noteq> [] \<and> length (atoms f) < 16 \<and> list_all (\<lambda>a. 0 < a) (atoms f)) fs)"

text \<open>The refusals for the queued selection requests of a selection, in queue order: each
  is a \<^verbatim>\<open>SelectionNotify\<close> sent to the requestor that repeats the selection, the target and
  the time of the request and carries \<^verbatim>\<open>property = None\<close>. And the
  \<^verbatim>\<open>CLIPBOARD_DATA(selection, NONE)\<close> replies for its queued conversion requests, in queue
  order.\<close>

definition refusals :: "8 word \<Rightarrow> vdagent_x11_selection_request list \<Rightarrow> action list" where
  "refusals selection reqs =
     map (\<lambda>r. XSendEvent (sr_requestor (sel_event r))
                 \<lparr>sn_requestor = sr_requestor (sel_event r),
                  sn_selection = sr_selection (sel_event r),
                  sn_target = sr_target (sel_event r),
                  sn_property = X_None,
                  sn_time = sr_time (sel_event r)\<rparr>)
       (filter (\<lambda>r. sel_selection r = selection) reqs)"

definition none_replies :: "8 word \<Rightarrow> vdagent_x11_conversion_request list \<Rightarrow> action list" where
  "none_replies selection reqs =
     map (\<lambda>r. udscs_write VDAGENTD_CLIPBOARD_DATA (unat selection) (unat VD_AGENT_CLIPBOARD_NONE)
                 No_data 0)
       (filter (\<lambda>r. conv_selection r = selection) reqs)"

text \<open>Whether the head of a queue (the active request) belongs to the selection.\<close>

definition head_for :: "8 word \<Rightarrow> 8 word list \<Rightarrow> bool" where
  "head_for selection sels = (case sels of [] \<Rightarrow> False | s # _ \<Rightarrow> s = selection)"

text \<open>The property a reply is written to: the one the request names, or the target atom
  when the request names none.\<close>

definition reply_property :: "XSelectionRequestEvent \<Rightarrow> Atom" where
  "reply_property event =
     (if sr_property event = X_None then sr_target event else sr_property event)"

text \<open>The successive chunks of at most \<open>n\<close> bytes of a payload, the 8-bit property write
  that carries one chunk of an INCR send, and the \<^verbatim>\<open>PropertyNotify\<close> with state
  \<^verbatim>\<open>PropertyDelete\<close> by which the requestor asks for the next one.\<close>

function chunks_of :: "nat \<Rightarrow> byte list \<Rightarrow> byte list list" where
  "chunks_of n bs = (if n = 0 \<or> bs = [] then [] else take n bs # chunks_of n (drop n bs))"
  by pat_completeness auto
termination
  by (relation "measure (\<lambda>(n, bs). length bs)") auto

declare chunks_of.simps [simp del]

definition incr_write :: "XSelectionRequestEvent \<Rightarrow> Atom \<Rightarrow> byte list \<Rightarrow> action" where
  "incr_write event prop chunk =
     XChangeProperty (sr_requestor event) prop (sr_target event) 8 (Data8 chunk)
       (int (length chunk))"

definition property_delete :: "XSelectionRequestEvent \<Rightarrow> Atom \<Rightarrow> XEvent" where
  "property_delete event prop =
     PropertyNotify \<lparr>pn_window = sr_requestor event, pn_atom = prop, pn_state = PropertyDelete\<rparr>"

text \<open>The list of targets \<^verbatim>\<open>vdagent_x11_send_targets\<close> writes for a selection:
  \<^verbatim>\<open>TARGETS\<close>, then the atoms of the formats of every advertised type.\<close>

definition offered_targets :: "vdagent_x11 \<Rightarrow> 8 word \<Rightarrow> Atom list" where
  "offered_targets x11 selection =
     send_targets_i (clipboard_formats x11) (agent_types_of x11 selection) [targets_atom x11]"

subsection \<open>The catalog of a selection\<close>

text \<open>The intersection of the catalog with an announced atom list: the formats in table
  order (the declared order of the clipboard types), each with the first of its atoms that
  is announced; a format none of whose atoms is announced contributes nothing.\<close>

definition intersect_catalog ::
  "clipboard_format_info list \<Rightarrow> Atom list \<Rightarrow> (32 word \<times> Atom) list" where
  "intersect_catalog fs announced =
     concat (map (\<lambda>f. case find (\<lambda>a. a \<in> set announced) (atoms f) of
                         None \<Rightarrow> []
                       | Some a \<Rightarrow> [(fmt_type f, a)]) fs)"

text \<open>The (type, atom) pairs the bridge holds for a selection: the first
  \<^verbatim>\<open>clipboard_type_count\<close> entries of \<^verbatim>\<open>clipboard_agent_types\<close> and
  \<^verbatim>\<open>clipboard_x11_targets\<close>.\<close>

definition recorded_pairs :: "vdagent_x11 \<Rightarrow> 8 word \<Rightarrow> (32 word \<times> Atom) list" where
  "recorded_pairs x11 selection =
     map (\<lambda>i. (clipboard_agent_types x11 selection i, clipboard_x11_targets x11 selection i))
       [0 ..< nat (clipboard_type_count x11 selection)]"

subsection \<open>Intermediate states of the code\<close>

text \<open>The state in which the loop of \<^verbatim>\<open>vdagent_x11_handle_targets_notify\<close> over the
  formats starts when the reply is the expected one: the counter is consumed, the property
  is read and the type count is reset.\<close>

definition targets_reply_read :: "vdagent_x11 \<Rightarrow> 8 word \<Rightarrow> vdagent_x11" where
  "targets_reply_read x11 S =
     x11\<lparr>expected_targets_notifies := (expected_targets_notifies x11)(S := 0),
         out := out x11 @ [XGetWindowProperty (selection_window x11) (targets_atom x11) False
                             XA_ATOM],
         clipboard_type_count := (clipboard_type_count x11)(S := 0)\<rparr>"

text \<open>The two loops of \<^verbatim>\<open>vdagent_x11_set_clipboard_owner\<close> over the queues, which run
  before the owner is looked at.\<close>

definition flush_requests :: "8 word \<Rightarrow> vdagent_x11 \<Rightarrow> vdagent_x11" where
  "flush_requests S x11 =
     (let x1 = clear_selection_requests S [] (selection_req x11) x11
      in clear_conversion_requests S [] (conversion_req x1) x1)"

text \<open>The bridge in \<^verbatim>\<open>vdagent_x11_clipboard_grab\<close> at its call of
  \<^verbatim>\<open>vdagent_x11_set_clipboard_owner\<close>: the types of the message are stored (at most 256
  of them) and the selection window owns the selection.\<close>

definition grab_recorded :: "vdagent_x11 \<Rightarrow> 8 word \<Rightarrow> 32 word list \<Rightarrow> Atom \<Rightarrow> vdagent_x11" where
  "grab_recorded x11 S types clip =
     x11\<lparr>clipboard_agent_types :=
           (clipboard_agent_types x11)
             (S := (\<lambda>i. if i < (if length types > 256 then 256 else length types)
                        then types ! i else clipboard_agent_types x11 S i)),
         clipboard_type_count :=
           (clipboard_type_count x11)
             (S := int (if length types > 256 then 256 else length types)),
         out := out x11 @ [XSetSelectionOwner clip (selection_window x11)]\<rparr>"

subsection \<open>Owner changes and the replies to the targets conversions\<close>

text \<open>An event is a \<^verbatim>\<open>SelectionNotify\<close> for the target \<^verbatim>\<open>TARGETS\<close> of the selection; an
  event is the XFixes notification that a foreign window became the owner of the selection,
  on which the bridge converts \<^verbatim>\<open>TARGETS\<close> and expects one more reply.\<close>

definition is_targets_reply :: "vdagent_x11 \<Rightarrow> 8 word \<Rightarrow> XEvent \<Rightarrow> bool" where
  "is_targets_reply x11 S event =
     (case event of
        SelectionNotify e \<Rightarrow>
          sn_target e = targets_atom x11
          \<and> vdagent_x11_get_clipboard_selection x11 event = Some S
      | _ \<Rightarrow> False)"

definition is_owner_change :: "vdagent_x11 \<Rightarrow> 8 word \<Rightarrow> XEvent \<Rightarrow> bool" where
  "is_owner_change x11 S event =
     (case event of
        XFixesEvent xfev \<Rightarrow>
          xf_subtype xfev = XFixesSetSelectionOwnerNotify
          \<and> xf_owner xfev \<noteq> selection_window x11 \<and> xf_owner xfev \<noteq> X_None
          \<and> vdagent_x11_get_clipboard_selection x11 event = Some S
      | _ \<Rightarrow> False)"

text \<open>Two states of a bridge agree on what \<^verbatim>\<open>vdagent_x11_create\<close> sets up once.\<close>

definition same_atoms :: "vdagent_x11 \<Rightarrow> vdagent_x11 \<Rightarrow> bool" where
  "same_atoms x y =
     (selection_window y = selection_window x \<and> targets_atom y = targets_atom x
      \<and> clipboard_atom y = clipboard_atom x
      \<and> clipboard_primary_atom y = clipboard_primary_atom x
      \<and> clipboard_formats y = clipboard_formats x)"

section \<open>Example states\<close>

text \<open>An X server whose atom table gives the names the bridge interns the atoms 200 to
  213 (and 1 for \<^verbatim>\<open>PRIMARY\<close>, as Xatom.h does), and the bridge
  \<^verbatim>\<open>vdagent_x11_create\<close> returns on it.\<close>

definition example_atoms :: "(string \<times> Atom) list" where
  "example_atoms =
     [(''CLIPBOARD'', 200), (''PRIMARY'', 1), (''TARGETS'', 201), (''INCR'', 202),
      (''MULTIPLE'', 203), (''UTF8_STRING'', 204), (''text/plain;charset=UTF-8'', 205),
      (''text/plain;charset=utf-8'', 206), (''image/png'', 207), (''image/bmp'', 208),
      (''image/x-bmp'', 209), (''image/x-MS-bmp'', 210), (''image/x-win-bitmap'', 211),
      (''image/tiff'', 212), (''image/jpeg'', 213)]"

definition example_intern :: "string \<Rightarrow> Atom" where
  "example_intern name = (case map_of example_atoms name of Some a \<Rightarrow> a | None \<Rightarrow> 300)"

definition example_server :: x_server where
  "example_server =
     \<lparr>xs_display_ok = True, xs_intern = example_intern, xs_root_window = 10,
      xs_new_window = 11, xs_has_xfixes = True, xs_ext_max_request = 4194303,
      xs_max_request = 65535, xs_width = 1024, xs_height = 768\<rparr>"

definition example_formats :: "clipboard_format_info list" where
  "example_formats =
     [\<lparr>fmt_type = 1, atoms = [204, 205, 206]\<rparr>,
      \<lparr>fmt_type = 2, atoms = [207]\<rparr>,
      \<lparr>fmt_type = 3, atoms = [208, 209, 210, 211]\<rparr>,
      \<lparr>fmt_type = 4, atoms = [212]\<rparr>,
      \<lparr>fmt_type = 5, atoms = [213]\<rparr>]"

definition example_x11 :: vdagent_x11 where
  "example_x11 =
     \<lparr>clipboard_formats = example_formats,
      clipboard_atom = 200, clipboard_primary_atom = 1, targets_atom = 201, incr_atom = 202,
      multiple_atom = 203, root_window = 10, selection_window = 11,
      width = 1024, height = 768, max_prop_size = 262144,
      expected_targets_notifies = (\<lambda>_. 0),
      clipboard_owner = (\<lambda>_. owner_none),
      clipboard_type_count = (\<lambda>_. 0),
      clipboard_agent_types = (\<lambda>_ _. 0),
      clipboard_x11_targets = (\<lambda>_ _. 0),
      conversion_req = [], expect_property_notify = False,
      clipboard_data = None, clipboard_data_size = 0, clipboard_data_space = 0,
      selection_req = [], selection_req_data = None, selection_req_data_pos = 0,
      selection_req_data_size = 0, selection_req_atom = 0,
      out = []\<rparr>"

text \<open>A selection request of the window 77 for \<^verbatim>\<open>UTF8_STRING\<close> of the clipboard, to
  be answered in its property 500; the same for \<^verbatim>\<open>PRIMARY\<close>; and a request that names
  no property.\<close>

definition example_request :: XSelectionRequestEvent where
  "example_request =
     \<lparr>sr_requestor = 77, sr_selection = 200, sr_target = 204, sr_property = 500, sr_time = 9\<rparr>"

definition example_primary_request :: XSelectionRequestEvent where
  "example_primary_request =
     \<lparr>sr_requestor = 78, sr_selection = 1, sr_target = 204, sr_property = 501, sr_time = 9\<rparr>"

text \<open>A bridge whose clipboard is owned by a guest application that advertised
  \<^verbatim>\<open>UTF8_STRING\<close>: two fetches for the clipboard are queued around one for
  \<^verbatim>\<open>PRIMARY\<close>, the first in the middle of an INCR receive, and one selection request for
  \<^verbatim>\<open>PRIMARY\<close> is queued.\<close>

definition example_guest_busy :: vdagent_x11 where
  "example_guest_busy =
     example_x11
       \<lparr>clipboard_owner := (\<lambda>_. owner_none)(0 := owner_guest),
        clipboard_type_count := (\<lambda>_. 0)(0 := 1),
        clipboard_agent_types := (\<lambda>_ _. 0)(0 := (\<lambda>_. 0)(0 := 1)),
        clipboard_x11_targets := (\<lambda>_ _. 0)(0 := (\<lambda>_. 0)(0 := 204)),
        conversion_req := [\<lparr>conv_target = 204, conv_selection = 0\<rparr>,
                           \<lparr>conv_target = 204, conv_selection = 1\<rparr>,
                           \<lparr>conv_target = 204, conv_selection = 0\<rparr>],
        expect_property_notify := True,
        clipboard_data := Some [104, 105],
        clipboard_data_size := 2,
        clipboard_data_space := 10,
        selection_req := [\<lparr>sel_event = example_primary_request, sel_selection = 1\<rparr>]\<rparr>"

text \<open>A bridge that owns the clipboard for the client (the daemon advertised
  \<^verbatim>\<open>UTF8_TEXT\<close>): the request of window 77 is the active one, its
  \<^verbatim>\<open>CLIPBOARD_REQUEST\<close> went to the daemon and the data has not arrived yet.\<close>

definition example_client_waiting :: vdagent_x11 where
  "example_client_waiting =
     example_x11
       \<lparr>clipboard_owner := (\<lambda>_. owner_none)(0 := owner_client),
        clipboard_type_count := (\<lambda>_. 0)(0 := 1),
        clipboard_agent_types := (\<lambda>_ _. 0)(0 := (\<lambda>_. 0)(0 := 1)),
        selection_req := [\<lparr>sel_event = example_request, sel_selection = 0\<rparr>],
        out := [udscs_write VDAGENTD_CLIPBOARD_REQUEST 0 1 No_data 0]\<rparr>"

text \<open>The same bridge with \<^verbatim>\<open>max_prop_size = 8\<close>, in the middle of an INCR send of ten
  bytes: eight are written.\<close>

definition example_client_incr :: vdagent_x11 where
  "example_client_incr =
     example_client_waiting
       \<lparr>max_prop_size := 8,
        selection_req_data := Some [97, 98, 99, 100, 101, 102, 103, 104, 105, 106],
        selection_req_data_pos := 8,
        selection_req_data_size := 10,
        selection_req_atom := 500\<rparr>"

text \<open>An environment in which the allocator has memory and no property can be read,
  and one in which the allocator has no memory.\<close>

definition example_env :: environment where
  "example_env = \<lparr>gp_success = False, gp_type = 0, gp_value = Data8 [], alloc_ok = True\<rparr>"

definition example_env_no_memory :: environment where
  "example_env_no_memory =
     \<lparr>gp_success = False, gp_type = 0, gp_value = Data8 [], alloc_ok = False\<rparr>"

text \<open>A payload of \<open>2^31\<close> bytes, and the bridge \<open>example_client_waiting\<close> after this
  payload arrived for its active request: the INCR send is announced.\<close>

definition big_payload :: "byte list" where
  "big_payload = replicate 2147483648 0"

definition example_incr_big :: vdagent_x11 where
  "example_incr_big =
     example_client_waiting
       \<lparr>selection_req_data := Some big_payload, selection_req_data_pos := 0,
        selection_req_data_size := 2147483648, selection_req_atom := 500,
        out := [udscs_write VDAGENTD_CLIPBOARD_REQUEST 0 1 No_data 0,
                XSelectInput 77 PropertyChangeMask,
                XChangeProperty 77 500 202 32 (Data32 [2147483648]) 1,
                XSendEvent 77 \<lparr>sn_requestor = 77, sn_selection = 200, sn_target = 204,
                               sn_property = 500, sn_time = 9\<rparr>]\<rparr>"

text \<open>A request of window 79 for \<^verbatim>\<open>TARGETS\<close> that names no property, and a bridge that
  owns the clipboard for the client with the catalog \<^verbatim>\<open>UTF8_TEXT\<close>, \<^verbatim>\<open>IMAGE_PNG\<close>
  and this request at the head of its queue.\<close>

definition example_targets_request :: XSelectionRequestEvent where
  "example_targets_request =
     \<lparr>sr_requestor = 79, sr_selection = 200, sr_target = 201, sr_property = 0, sr_time = 9\<rparr>"

definition example_client_targets :: vdagent_x11 where
  "example_client_targets =
     example_x11
       \<lparr>clipboard_owner := (\<lambda>_. owner_none)(0 := owner_client),
        clipboard_type_count := (\<lambda>_. 0)(0 := 2),
        clipboard_agent_types := (\<lambda>_ _. 0)(0 := (\<lambda>_. 0)(0 := 1, 1 := 2)),
        selection_req := [\<lparr>sel_event = example_targets_request, sel_selection = 0\<rparr>]\<rparr>"

text \<open>A bridge that expects one reply to a \<^verbatim>\<open>TARGETS\<close> conversion for the clipboard
  while one fetch of the client for the clipboard is queued; the reply of the new owner, and
  the list of atoms the owner announces: \<^verbatim>\<open>TARGETS\<close>, two of the three text atoms, the
  PNG atom and an atom the bridge does not know. The XFixes notification that the window 55
  became the owner of the clipboard.\<close>

definition example_owner_reply :: XSelectionEvent where
  "example_owner_reply =
     \<lparr>sn_requestor = 11, sn_selection = 200, sn_target = 201, sn_property = 201, sn_time = 9\<rparr>"

definition example_targets_env :: environment where
  "example_targets_env =
     \<lparr>gp_success = True, gp_type = 4, gp_value = Data32 [201, 206, 205, 207, 999],
      alloc_ok = True\<rparr>"

definition example_expecting :: vdagent_x11 where
  "example_expecting =
     example_x11
       \<lparr>expected_targets_notifies := (\<lambda>_. 0)(0 := 1),
        conversion_req := [\<lparr>conv_target = 204, conv_selection = 0\<rparr>]\<rparr>"

definition example_owner_change :: XFixesSelectionNotifyEvent where
  "example_owner_change =
     \<lparr>xf_subtype = 0, xf_window = 11, xf_owner = 55, xf_selection = 200\<rparr>"

text \<open>A bridge that owns the clipboard for the client, in the middle of an INCR send to
  window 77 (eight of ten bytes are written), with a request for \<^verbatim>\<open>PRIMARY\<close> and a
  second request for the clipboard queued behind the active one.\<close>

definition example_client_busy :: vdagent_x11 where
  "example_client_busy =
     example_client_incr
       \<lparr>selection_req := [\<lparr>sel_event = example_request, sel_selection = 0\<rparr>,
                          \<lparr>sel_event = example_primary_request, sel_selection = 1\<rparr>,
                          \<lparr>sel_event = example_targets_request, sel_selection = 0\<rparr>]\<rparr>"

section \<open>Properties\<close>

subsection \<open>The example bridge\<close>

lemma example_formats_init: "init_clipboard_formats example_intern = example_formats"
  by (simp add: init_clipboard_formats_def clipboard_format_templates_def example_intern_def
      example_atoms_def example_formats_def VD_AGENT_CLIPBOARD_UTF8_TEXT_def
      VD_AGENT_CLIPBOARD_IMAGE_PNG_def VD_AGENT_CLIPBOARD_IMAGE_BMP_def
      VD_AGENT_CLIPBOARD_IMAGE_TIFF_def VD_AGENT_CLIPBOARD_IMAGE_JPG_def)

lemma example_max_prop_size: "init_max_prop_size 4194303 65535 = 262144"
  by (simp add: init_max_prop_size_def to_int_def)

lemma example_x11_created:
  "vdagent_x11_create example_server =
     Some (example_x11\<lparr>out := [XFixesSelectSelectionInput 10 200, XFixesSelectSelectionInput 10 1,
                               XSelectInput 10 StructureNotifyMask,
                               udscs_write VDAGENTD_GUEST_XORG_RESOLUTION 0 0
                                 (Resolution 1024 768) 8]\<rparr>)"
  by (simp add: vdagent_x11_create_def example_server_def example_formats_init
      example_max_prop_size example_x11_def X_None_def)
     (simp add: example_intern_def example_atoms_def)

lemma valid_formats_init:
  assumes "\<And>name. 0 < intern name"
  shows "valid_formats (init_clipboard_formats intern)"
  using assms
  by (simp add: valid_formats_def init_clipboard_formats_def clipboard_format_templates_def
      clipboard_format_count_def)

lemma valid_example_formats: "valid_formats example_formats"
  by (simp add: valid_formats_def example_formats_def clipboard_format_count_def
      clipboard_format_templates_def)

subsection \<open>vdagent_x11_target_to_type compares the first atom of each format only\<close>

lemma target_to_type_loop_inner:
  assumes "list_all (\<lambda>f. atoms f \<noteq> []) fs" and "i < length fs"
  shows "target_to_type_loop fs target True i 0 =
           (case find (\<lambda>f. hd (atoms f) = target) (drop i fs) of
              Some f \<Rightarrow> Inr (fmt_type f)
            | None \<Rightarrow> Inl Out_of_bounds)"
  using assms
proof (induction "length fs - i" arbitrary: i)
  case 0
  then show ?case by simp
next
  case (Suc n)
  from Suc.prems have ne: "atoms (fs ! i) \<noteq> []"
    by (simp add: list_all_length)
  then have hd0: "atoms (fs ! i) ! 0 = hd (atoms (fs ! i))"
    by (simp add: hd_conv_nth)
  have dr: "drop i fs = fs ! i # drop (Suc i) fs"
    using Suc.prems by (simp add: Cons_nth_drop_Suc)
  show ?case
  proof (cases "hd (atoms (fs ! i)) = target")
    case True
    then show ?thesis
      using Suc.prems ne hd0 dr
      by (subst target_to_type_loop.simps) (simp add: atom_count_def)
  next
    case False
    show ?thesis
    proof (cases "Suc i < length fs")
      case True
      then have "target_to_type_loop fs target True (Suc i) 0 =
                   (case find (\<lambda>f. hd (atoms f) = target) (drop (Suc i) fs) of
                      Some f \<Rightarrow> Inr (fmt_type f)
                    | None \<Rightarrow> Inl Out_of_bounds)"
        using Suc.hyps Suc.prems by (intro Suc.hyps(1)) auto
      then show ?thesis
        using Suc.prems ne hd0 dr False
        by (subst target_to_type_loop.simps) (simp add: atom_count_def)
    next
      case last: False
      then have "target_to_type_loop fs target True (Suc i) 0 = Inl Out_of_bounds"
        by (subst target_to_type_loop.simps) simp
      then show ?thesis
        using Suc.prems ne hd0 dr False last
        by (subst target_to_type_loop.simps) (simp add: atom_count_def)
    qed
  qed
qed

lemma target_to_type_first_atoms:
  assumes "valid_formats (clipboard_formats x11)"
  shows "vdagent_x11_target_to_type x11 selection target =
           (case find (\<lambda>f. hd (atoms f) = target) (clipboard_formats x11) of
              Some f \<Rightarrow> Inr (fmt_type f)
            | None \<Rightarrow> Inl Out_of_bounds)"
proof -
  from assms have len: "0 < length (clipboard_formats x11)"
    and ne: "list_all (\<lambda>f. atoms f \<noteq> []) (clipboard_formats x11)"
    by (auto simp: valid_formats_def clipboard_format_count_def clipboard_format_templates_def
        list_all_iff)
  show ?thesis
    unfolding vdagent_x11_target_to_type_def
    using len target_to_type_loop_inner [OF ne len, of target]
    by (subst target_to_type_loop.simps) simp
qed

text \<open>
  C1 (code bug). The claim: every atom of a template's list is classified as that
  template's type, and an atom of no list as \<^verbatim>\<open>NONE\<close>. On the bridge created on the
  example server, the atom of \<^verbatim>\<open>text/plain;charset=UTF-8\<close> (the second name of the
  \<^verbatim>\<open>UTF8_TEXT\<close> template) should be classified \<^verbatim>\<open>UTF8_TEXT\<close>, and the atom 300 of no
  template \<^verbatim>\<open>NONE\<close>. \<^verbatim>\<open>vdagent_x11_target_to_type\<close> returns neither: its inner loop
  increments \<open>i\<close>, so only the first atom of each format is compared and then
  \<^verbatim>\<open>clipboard_formats[5]\<close> is read, past the array.
\<close>

theorem target_to_type_misses_second_atom:
  "clipboard_formats example_x11 = init_clipboard_formats example_intern
   \<and> classify_target_spec (clipboard_formats example_x11)
       (example_intern ''text/plain;charset=UTF-8'') = VD_AGENT_CLIPBOARD_UTF8_TEXT
   \<and> vdagent_x11_target_to_type example_x11 VD_AGENT_CLIPBOARD_SELECTION_CLIPBOARD
       (example_intern ''text/plain;charset=UTF-8'') = Inl Out_of_bounds
   \<and> classify_target_spec (clipboard_formats example_x11) 300 = VD_AGENT_CLIPBOARD_NONE
   \<and> vdagent_x11_target_to_type example_x11 VD_AGENT_CLIPBOARD_SELECTION_CLIPBOARD 300
       = Inl Out_of_bounds"
proof -
  have a: "example_intern ''text/plain;charset=UTF-8'' = 205"
    by (simp add: example_intern_def example_atoms_def)
  have f: "clipboard_formats example_x11 = example_formats"
    by (simp add: example_x11_def)
  have v: "valid_formats (clipboard_formats example_x11)"
    by (simp add: f valid_example_formats)
  show ?thesis
    unfolding target_to_type_first_atoms [OF v] a f example_formats_init
    by (simp add: example_formats_def classify_target_spec_def
        VD_AGENT_CLIPBOARD_UTF8_TEXT_def VD_AGENT_CLIPBOARD_NONE_def)
qed

theorem target_to_type_misses_second_atom_witness:
  "vdagent_x11_target_to_type example_x11 VD_AGENT_CLIPBOARD_SELECTION_CLIPBOARD
     (example_intern ''text/plain;charset=UTF-8'')
   \<noteq> Inr (classify_target_spec (clipboard_formats example_x11)
             (example_intern ''text/plain;charset=UTF-8''))"
  using target_to_type_misses_second_atom by simp

subsection \<open>vdagent_x11_set_clipboard_owner\<close>

lemma clear_selection_requests_eq:
  "clear_selection_requests selection kept reqs x11 =
     x11\<lparr>selection_req := kept @ filter (\<lambda>r. sel_selection r \<noteq> selection) reqs,
         selection_req_data :=
           (if kept = [] \<and> head_for selection (map sel_selection reqs) then None
            else selection_req_data x11),
         selection_req_data_pos :=
           (if kept = [] \<and> head_for selection (map sel_selection reqs) then 0
            else selection_req_data_pos x11),
         selection_req_data_size :=
           (if kept = [] \<and> head_for selection (map sel_selection reqs) then 0
            else selection_req_data_size x11),
         selection_req_atom :=
           (if kept = [] \<and> head_for selection (map sel_selection reqs) then X_None
            else selection_req_atom x11),
         out := out x11 @ refusals selection reqs\<rparr>"
proof (induction reqs arbitrary: kept x11)
  case Nil
  then show ?case by (simp add: refusals_def head_for_def)
next
  case (Cons r reqs)
  show ?case
  proof (cases "sel_selection r = selection")
    case True
    then show ?thesis
      by (simp add: Cons.IH refusals_def head_for_def send_notify_event_def
          selection_notify_res_def emit_def Let_def)
  next
    case False
    then show ?thesis
      by (simp add: Cons.IH refusals_def head_for_def)
  qed
qed

lemma clear_conversion_requests_eq:
  "clear_conversion_requests selection kept reqs x11 =
     x11\<lparr>conversion_req := kept @ filter (\<lambda>r. conv_selection r \<noteq> selection) reqs,
         expect_property_notify :=
           (if kept = [] \<and> head_for selection (map conv_selection reqs) then False
            else expect_property_notify x11),
         clipboard_data_size :=
           (if kept = [] \<and> head_for selection (map conv_selection reqs) then 0
            else clipboard_data_size x11),
         out := out x11 @ none_replies selection reqs\<rparr>"
proof (induction reqs arbitrary: kept x11)
  case Nil
  then show ?case by (simp add: none_replies_def head_for_def)
next
  case (Cons r reqs)
  show ?case
  proof (cases "conv_selection r = selection")
    case True
    then show ?thesis
      by (simp add: Cons.IH none_replies_def head_for_def emit_def Let_def)
  next
    case False
    then show ?thesis
      by (simp add: Cons.IH none_replies_def head_for_def)
  qed
qed

text \<open>The release message \<^verbatim>\<open>vdagent_x11_set_clipboard_owner\<close> sends when a guest owner
  goes away.\<close>

lemma set_clipboard_owner_eq:
  "vdagent_x11_set_clipboard_owner x11 S new_owner =
     x11\<lparr>selection_req := filter (\<lambda>r. sel_selection r \<noteq> S) (selection_req x11),
         selection_req_data :=
           (if head_for S (map sel_selection (selection_req x11)) then None
            else selection_req_data x11),
         selection_req_data_pos :=
           (if head_for S (map sel_selection (selection_req x11)) then 0
            else selection_req_data_pos x11),
         selection_req_data_size :=
           (if head_for S (map sel_selection (selection_req x11)) then 0
            else selection_req_data_size x11),
         selection_req_atom :=
           (if head_for S (map sel_selection (selection_req x11)) then X_None
            else selection_req_atom x11),
         conversion_req := filter (\<lambda>r. conv_selection r \<noteq> S) (conversion_req x11),
         expect_property_notify :=
           (if head_for S (map conv_selection (conversion_req x11)) then False
            else expect_property_notify x11),
         clipboard_data_size :=
           (if head_for S (map conv_selection (conversion_req x11)) then 0
            else clipboard_data_size x11),
         clipboard_type_count :=
           (if new_owner = owner_none then (clipboard_type_count x11)(S := 0)
            else clipboard_type_count x11),
         clipboard_owner := (clipboard_owner x11)(S := new_owner),
         out := out x11 @ refusals S (selection_req x11) @ none_replies S (conversion_req x11)
                @ (if new_owner = owner_none \<and> clipboard_owner x11 S = owner_guest
                   then [udscs_write VDAGENTD_CLIPBOARD_RELEASE (unat S) 0 No_data 0]
                   else [])\<rparr>"
  by (simp add: vdagent_x11_set_clipboard_owner_def clear_selection_requests_eq
      clear_conversion_requests_eq emit_def Let_def)

text \<open>
  C4. Ownership-change flushing. When \<^verbatim>\<open>vdagent_x11_set_clipboard_owner\<close> takes the
  owner of selection \<open>S\<close> away from the guest or away from the client: every queued
  conversion request (inbound request) for \<open>S\<close> is answered with
  \<^verbatim>\<open>CLIPBOARD_DATA(S, NONE)\<close> and leaves the queue, and if the active one was for \<open>S\<close> the
  INCR receive state is cleared; every queued selection request (outbound request) for
  \<open>S\<close> is refused with a \<^verbatim>\<open>SelectionNotify\<close> of property \<^verbatim>\<open>None\<close> and leaves the queue,
  and if the active one was for \<open>S\<close> the INCR send buffer is dropped; the requests of
  every other selection stay queued in their order, no message is sent for them, and
  their INCR state stays as it was. (The only other message is the release sent when a
  guest owner gives way to no owner.)
\<close>

theorem set_clipboard_owner_flushes:
  assumes "clipboard_owner x11 S = owner_guest \<and> new_owner \<noteq> owner_guest
           \<or> clipboard_owner x11 S = owner_client \<and> new_owner \<noteq> owner_client"
  shows "out (vdagent_x11_set_clipboard_owner x11 S new_owner) =
           out x11 @ refusals S (selection_req x11) @ none_replies S (conversion_req x11)
           @ (if new_owner = owner_none \<and> clipboard_owner x11 S = owner_guest
              then [udscs_write VDAGENTD_CLIPBOARD_RELEASE (unat S) 0 No_data 0] else [])
         \<and> conversion_req (vdagent_x11_set_clipboard_owner x11 S new_owner) =
             filter (\<lambda>r. conv_selection r \<noteq> S) (conversion_req x11)
         \<and> selection_req (vdagent_x11_set_clipboard_owner x11 S new_owner) =
             filter (\<lambda>r. sel_selection r \<noteq> S) (selection_req x11)
         \<and> (if head_for S (map conv_selection (conversion_req x11))
            then \<not> expect_property_notify (vdagent_x11_set_clipboard_owner x11 S new_owner)
                 \<and> clipboard_data_size (vdagent_x11_set_clipboard_owner x11 S new_owner) = 0
            else expect_property_notify (vdagent_x11_set_clipboard_owner x11 S new_owner)
                   = expect_property_notify x11
                 \<and> clipboard_data_size (vdagent_x11_set_clipboard_owner x11 S new_owner)
                   = clipboard_data_size x11)
         \<and> (if head_for S (map sel_selection (selection_req x11))
            then selection_req_data (vdagent_x11_set_clipboard_owner x11 S new_owner) = None
                 \<and> selection_req_data_pos (vdagent_x11_set_clipboard_owner x11 S new_owner) = 0
                 \<and> selection_req_data_size (vdagent_x11_set_clipboard_owner x11 S new_owner) = 0
                 \<and> selection_req_atom (vdagent_x11_set_clipboard_owner x11 S new_owner) = X_None
            else selection_req_data (vdagent_x11_set_clipboard_owner x11 S new_owner)
                   = selection_req_data x11
                 \<and> selection_req_data_pos (vdagent_x11_set_clipboard_owner x11 S new_owner)
                   = selection_req_data_pos x11
                 \<and> selection_req_data_size (vdagent_x11_set_clipboard_owner x11 S new_owner)
                   = selection_req_data_size x11
                 \<and> selection_req_atom (vdagent_x11_set_clipboard_owner x11 S new_owner)
                   = selection_req_atom x11)
         \<and> clipboard_owner (vdagent_x11_set_clipboard_owner x11 S new_owner) =
             (clipboard_owner x11)(S := new_owner)"
  by (simp add: set_clipboard_owner_eq)

theorem set_clipboard_owner_flushes_witness:
  "clipboard_owner example_guest_busy 0 = owner_guest
   \<and> out (vdagent_x11_set_clipboard_owner example_guest_busy 0 owner_none) =
       [udscs_write VDAGENTD_CLIPBOARD_DATA 0 0 No_data 0,
        udscs_write VDAGENTD_CLIPBOARD_DATA 0 0 No_data 0,
        udscs_write VDAGENTD_CLIPBOARD_RELEASE 0 0 No_data 0]
   \<and> conversion_req (vdagent_x11_set_clipboard_owner example_guest_busy 0 owner_none) =
       [\<lparr>conv_target = 204, conv_selection = 1\<rparr>]
   \<and> selection_req (vdagent_x11_set_clipboard_owner example_guest_busy 0 owner_none) =
       [\<lparr>sel_event = example_primary_request, sel_selection = 1\<rparr>]
   \<and> \<not> expect_property_notify (vdagent_x11_set_clipboard_owner example_guest_busy 0 owner_none)
   \<and> clipboard_data_size (vdagent_x11_set_clipboard_owner example_guest_busy 0 owner_none) = 0
   \<and> clipboard_owner (vdagent_x11_set_clipboard_owner example_guest_busy 0 owner_none) 0 =
       owner_none
   \<and> clipboard_owner example_client_busy 0 = owner_client
   \<and> selection_req_data example_client_busy =
       Some [97, 98, 99, 100, 101, 102, 103, 104, 105, 106]
   \<and> selection_req_data_pos example_client_busy = 8
   \<and> out (vdagent_x11_set_clipboard_owner example_client_busy 0 owner_guest) =
       [udscs_write VDAGENTD_CLIPBOARD_REQUEST 0 1 No_data 0,
        XSendEvent 77 \<lparr>sn_requestor = 77, sn_selection = 200, sn_target = 204,
                       sn_property = 0, sn_time = 9\<rparr>,
        XSendEvent 79 \<lparr>sn_requestor = 79, sn_selection = 200, sn_target = 201,
                       sn_property = 0, sn_time = 9\<rparr>]
   \<and> selection_req (vdagent_x11_set_clipboard_owner example_client_busy 0 owner_guest) =
       [\<lparr>sel_event = example_primary_request, sel_selection = 1\<rparr>]
   \<and> conversion_req (vdagent_x11_set_clipboard_owner example_client_busy 0 owner_guest) = []
   \<and> selection_req_data (vdagent_x11_set_clipboard_owner example_client_busy 0 owner_guest) =
       None
   \<and> selection_req_data_pos (vdagent_x11_set_clipboard_owner example_client_busy 0 owner_guest)
       = 0
   \<and> selection_req_data_size (vdagent_x11_set_clipboard_owner example_client_busy 0 owner_guest)
       = 0
   \<and> selection_req_atom (vdagent_x11_set_clipboard_owner example_client_busy 0 owner_guest) = 0
   \<and> clipboard_owner (vdagent_x11_set_clipboard_owner example_client_busy 0 owner_guest) 0 =
       owner_guest"
proof -
  have guest: "clipboard_owner example_guest_busy 0 = owner_guest"
    by (simp add: example_guest_busy_def)
  have client: "clipboard_owner example_client_busy 0 = owner_client"
    "selection_req_data example_client_busy =
       Some [97, 98, 99, 100, 101, 102, 103, 104, 105, 106]"
    "selection_req_data_pos example_client_busy = 8"
    by (simp_all add: example_client_busy_def example_client_incr_def
        example_client_waiting_def)
  have from_guest:
    "out (vdagent_x11_set_clipboard_owner example_guest_busy 0 owner_none) =
       [udscs_write VDAGENTD_CLIPBOARD_DATA 0 0 No_data 0,
        udscs_write VDAGENTD_CLIPBOARD_DATA 0 0 No_data 0,
        udscs_write VDAGENTD_CLIPBOARD_RELEASE 0 0 No_data 0]
     \<and> conversion_req (vdagent_x11_set_clipboard_owner example_guest_busy 0 owner_none) =
         [\<lparr>conv_target = 204, conv_selection = 1\<rparr>]
     \<and> selection_req (vdagent_x11_set_clipboard_owner example_guest_busy 0 owner_none) =
         [\<lparr>sel_event = example_primary_request, sel_selection = 1\<rparr>]
     \<and> \<not> expect_property_notify
           (vdagent_x11_set_clipboard_owner example_guest_busy 0 owner_none)
     \<and> clipboard_data_size (vdagent_x11_set_clipboard_owner example_guest_busy 0 owner_none)
         = 0
     \<and> clipboard_owner (vdagent_x11_set_clipboard_owner example_guest_busy 0 owner_none) 0 =
         owner_none"
    using set_clipboard_owner_flushes [of example_guest_busy 0 owner_none]
    by (simp add: example_guest_busy_def example_x11_def refusals_def none_replies_def
        head_for_def VD_AGENT_CLIPBOARD_NONE_def)
  have from_client:
    "out (vdagent_x11_set_clipboard_owner example_client_busy 0 owner_guest) =
       [udscs_write VDAGENTD_CLIPBOARD_REQUEST 0 1 No_data 0,
        XSendEvent 77 \<lparr>sn_requestor = 77, sn_selection = 200, sn_target = 204,
                       sn_property = 0, sn_time = 9\<rparr>,
        XSendEvent 79 \<lparr>sn_requestor = 79, sn_selection = 200, sn_target = 201,
                       sn_property = 0, sn_time = 9\<rparr>]
     \<and> selection_req (vdagent_x11_set_clipboard_owner example_client_busy 0 owner_guest) =
         [\<lparr>sel_event = example_primary_request, sel_selection = 1\<rparr>]
     \<and> conversion_req (vdagent_x11_set_clipboard_owner example_client_busy 0 owner_guest) = []
     \<and> selection_req_data (vdagent_x11_set_clipboard_owner example_client_busy 0 owner_guest)
         = None
     \<and> selection_req_data_pos
         (vdagent_x11_set_clipboard_owner example_client_busy 0 owner_guest) = 0
     \<and> selection_req_data_size
         (vdagent_x11_set_clipboard_owner example_client_busy 0 owner_guest) = 0
     \<and> selection_req_atom (vdagent_x11_set_clipboard_owner example_client_busy 0 owner_guest)
         = 0
     \<and> clipboard_owner (vdagent_x11_set_clipboard_owner example_client_busy 0 owner_guest) 0 =
         owner_guest"
    using set_clipboard_owner_flushes [of example_client_busy 0 owner_guest]
    by (simp add: example_client_busy_def example_client_incr_def example_client_waiting_def
        example_x11_def example_request_def example_targets_request_def refusals_def
        none_replies_def head_for_def X_None_def)
  from guest client from_guest from_client show ?thesis
    by blast
qed

subsection \<open>Refusing and advancing\<close>

lemma send_selection_notify_request:
  "vdagent_x11_send_selection_notify x11 prop (Some r) =
     Inr (send_notify_event prop (sel_event r) x11)"
  by (simp add: vdagent_x11_send_selection_notify.simps)

lemma send_selection_notify_head:
  assumes "selection_req x11 = r # rest"
  shows "vdagent_x11_send_selection_notify x11 prop None =
           vdagent_x11_handle_selection_request
             (x11\<lparr>out := out x11 @ [XSendEvent (sr_requestor (sel_event r))
                                      (selection_notify_res prop (sel_event r))],
                  selection_req := rest\<rparr>)"
  using assms
  by (simp add: vdagent_x11_send_selection_notify.simps vdagent_x11_next_selection_request_def
      send_notify_event_def emit_def)

lemma handle_selection_request_empty:
  "selection_req x11 = [] \<Longrightarrow> vdagent_x11_handle_selection_request x11 = Inr x11"
  by (simp add: vdagent_x11_handle_selection_request.simps)

subsection \<open>Clipboard data without a matching request\<close>

text \<open>
  C5 (corrected). The claim: a \<^verbatim>\<open>CLIPBOARD_DATA\<close> that arrives with no active outbound
  request, or during an INCR send, or that does not match the active request, is discarded
  with a single \<^verbatim>\<open>SelectionNotify\<close> of property \<^verbatim>\<open>None\<close> and the queue advances.

  What \<^verbatim>\<open>vdagent_x11_clipboard_data\<close> does: with no active request, or while the data of
  the active request is still being sent via INCR, the payload is dropped and nothing
  else happens: no event is sent and the queue stays as it is. When the bridge is not in
  an INCR send and the selection or the type differ from those of the active request,
  the payload is dropped, one \<^verbatim>\<open>SelectionNotify\<close> with property \<^verbatim>\<open>None\<close> goes to the
  requestor of the active request, that request leaves the queue and the next one is
  handled.
\<close>
theorem clipboard_data_discarded:
  "(selection_req_data x11 \<noteq> None \<or> selection_req x11 = []
      \<longrightarrow> vdagent_x11_clipboard_data x11 S T data = Inr x11)
   \<and> (selection_req_data x11 = None \<and> selection_req x11 = req # rest
      \<and> vdagent_x11_target_to_type x11 (sel_selection req) (sr_target (sel_event req)) = Inr T'
      \<and> (T' \<noteq> T \<or> S \<noteq> sel_selection req)
      \<longrightarrow> vdagent_x11_clipboard_data x11 S T data =
            vdagent_x11_handle_selection_request
              (x11\<lparr>out := out x11 @ [XSendEvent (sr_requestor (sel_event req))
                                       (selection_notify_res X_None (sel_event req))],
                   selection_req := rest\<rparr>))"
proof (intro conjI impI)
  assume "selection_req_data x11 \<noteq> None \<or> selection_req x11 = []"
  then show "vdagent_x11_clipboard_data x11 S T data = Inr x11"
    by (auto simp: vdagent_x11_clipboard_data_def)
next
  assume a: "selection_req_data x11 = None \<and> selection_req x11 = req # rest
      \<and> vdagent_x11_target_to_type x11 (sel_selection req) (sr_target (sel_event req)) = Inr T'
      \<and> (T' \<noteq> T \<or> S \<noteq> sel_selection req)"
  then have q: "selection_req x11 = req # rest" by simp
  from a show "vdagent_x11_clipboard_data x11 S T data =
            vdagent_x11_handle_selection_request
              (x11\<lparr>out := out x11 @ [XSendEvent (sr_requestor (sel_event req))
                                       (selection_notify_res X_None (sel_event req))],
                   selection_req := rest\<rparr>)"
    by (auto simp: vdagent_x11_clipboard_data_def send_selection_notify_head [OF q])
qed

lemma example_waiting_target:
  "vdagent_x11_target_to_type example_client_waiting s 204 = Inr 1"
  by (simp add: target_to_type_first_atoms valid_example_formats example_client_waiting_def
      example_x11_def) (simp add: example_formats_def)

theorem clipboard_data_discarded_witness:
  "selection_req_data example_client_waiting = None
   \<and> selection_req example_client_waiting = [\<lparr>sel_event = example_request, sel_selection = 0\<rparr>]
   \<and> vdagent_x11_target_to_type example_client_waiting 0 (sr_target example_request)
       = Inr VD_AGENT_CLIPBOARD_UTF8_TEXT
   \<and> VD_AGENT_CLIPBOARD_UTF8_TEXT \<noteq> VD_AGENT_CLIPBOARD_IMAGE_PNG
   \<and> vdagent_x11_clipboard_data example_client_waiting 0 VD_AGENT_CLIPBOARD_IMAGE_PNG [1, 2, 3] =
       Inr (example_client_waiting
              \<lparr>out := [udscs_write VDAGENTD_CLIPBOARD_REQUEST 0 1 No_data 0,
                       XSendEvent 77 \<lparr>sn_requestor = 77, sn_selection = 200, sn_target = 204,
                                      sn_property = 0, sn_time = 9\<rparr>],
               selection_req := []\<rparr>)"
proof -
  have q: "selection_req example_client_waiting = [\<lparr>sel_event = example_request, sel_selection = 0\<rparr>]"
    by (simp add: example_client_waiting_def)
  have d: "selection_req_data example_client_waiting = None"
    by (simp add: example_client_waiting_def example_x11_def)
  have t: "vdagent_x11_target_to_type example_client_waiting 0 (sr_target example_request)
             = Inr VD_AGENT_CLIPBOARD_UTF8_TEXT"
    using example_waiting_target
    by (simp add: example_request_def VD_AGENT_CLIPBOARD_UTF8_TEXT_def)
  have n: "VD_AGENT_CLIPBOARD_UTF8_TEXT \<noteq> VD_AGENT_CLIPBOARD_IMAGE_PNG"
    by (simp add: VD_AGENT_CLIPBOARD_UTF8_TEXT_def VD_AGENT_CLIPBOARD_IMAGE_PNG_def)
  have o: "out example_client_waiting = [udscs_write VDAGENTD_CLIPBOARD_REQUEST 0 1 No_data 0]"
    by (simp add: example_client_waiting_def)
  have inst: "vdagent_x11_clipboard_data example_client_waiting 0 VD_AGENT_CLIPBOARD_IMAGE_PNG
                [1, 2, 3] =
              vdagent_x11_handle_selection_request
                (example_client_waiting
                   \<lparr>out := out example_client_waiting
                           @ [XSendEvent (sr_requestor example_request)
                                (selection_notify_res X_None example_request)],
                    selection_req := []\<rparr>)"
    using clipboard_data_discarded
      [of example_client_waiting 0 VD_AGENT_CLIPBOARD_IMAGE_PNG "[1, 2, 3]"
          "\<lparr>sel_event = example_request, sel_selection = 0\<rparr>" "[]"
          VD_AGENT_CLIPBOARD_UTF8_TEXT] q d t n
    by simp
  have r: "sr_requestor example_request = 77"
    and s: "selection_notify_res X_None example_request =
              \<lparr>sn_requestor = 77, sn_selection = 200, sn_target = 204, sn_property = 0,
               sn_time = 9\<rparr>"
    by (simp_all add: example_request_def selection_notify_res_def X_None_def)
  show ?thesis
    using q d t n by (simp add: inst o r s handle_selection_request_empty)
qed

text \<open>The claim fails during an INCR send: the data is dropped, no
  \<^verbatim>\<open>SelectionNotify\<close> is sent and the active request stays the head of the queue.\<close>

theorem clipboard_data_during_incr_counterexample:
  "selection_req example_client_incr = [\<lparr>sel_event = example_request, sel_selection = 0\<rparr>]
   \<and> selection_req_data example_client_incr \<noteq> None
   \<and> vdagent_x11_clipboard_data example_client_incr 0 VD_AGENT_CLIPBOARD_UTF8_TEXT [1, 2, 3]
       = Inr example_client_incr"
  by (simp add: vdagent_x11_clipboard_data_def example_client_incr_def example_client_waiting_def)


lemma clipboard_data_ignored:
  assumes "selection_req_data x11 \<noteq> None \<or> selection_req x11 = []"
  shows "vdagent_x11_clipboard_data x11 S T data = Inr x11"
  using assms by (auto simp: vdagent_x11_clipboard_data_def)

lemma clipboard_data_mismatch:
  assumes "selection_req_data x11 = None" and "selection_req x11 = req # rest"
    and "vdagent_x11_target_to_type x11 (sel_selection req) (sr_target (sel_event req)) = Inr T'"
    and "T' \<noteq> T \<or> S \<noteq> sel_selection req"
  shows "vdagent_x11_clipboard_data x11 S T data =
           vdagent_x11_handle_selection_request
             (x11\<lparr>out := out x11 @ [XSendEvent (sr_requestor (sel_event req))
                                      (selection_notify_res X_None (sel_event req))],
                  selection_req := rest\<rparr>)"
  using assms send_selection_notify_head [of x11 req rest X_None]
  by (auto simp: vdagent_x11_clipboard_data_def)

lemma example_waiting_facts:
  "selection_req example_client_waiting = [\<lparr>sel_event = example_request, sel_selection = 0\<rparr>]"
  "selection_req_data example_client_waiting = None"
  "out example_client_waiting = [udscs_write VDAGENTD_CLIPBOARD_REQUEST 0 1 No_data 0]"
  "vdagent_x11_target_to_type example_client_waiting 0 (sr_target example_request)
     = Inr VD_AGENT_CLIPBOARD_UTF8_TEXT"
  "sr_requestor example_request = 77"
  "selection_notify_res X_None example_request =
     \<lparr>sn_requestor = 77, sn_selection = 200, sn_target = 204, sn_property = 0, sn_time = 9\<rparr>"
  using example_waiting_target
  by (simp_all add: example_client_waiting_def example_x11_def example_request_def
      VD_AGENT_CLIPBOARD_UTF8_TEXT_def selection_notify_res_def X_None_def)

subsection \<open>Messages that name an unsupported selection\<close>

lemma get_clipboard_atom_unsupported:
  assumes "S \<noteq> VD_AGENT_CLIPBOARD_SELECTION_CLIPBOARD"
    and "S \<noteq> VD_AGENT_CLIPBOARD_SELECTION_PRIMARY"
  shows "vdagent_x11_get_clipboard_atom x11 S = None"
  using assms by (simp add: vdagent_x11_get_clipboard_atom_def)

text \<open>
  C8 (corrected). The claim: every daemon message that names \<^verbatim>\<open>SECONDARY\<close> or another id
  than 0 and 1 is rejected without an X11 call and without a change of state, a
  \<^verbatim>\<open>CLIPBOARD_REQUEST\<close> being answered with \<^verbatim>\<open>CLIPBOARD_DATA(selection, NONE)\<close>.

  That holds for \<^verbatim>\<open>CLIPBOARD_REQUEST\<close>, \<^verbatim>\<open>CLIPBOARD_GRAB\<close> and \<^verbatim>\<open>CLIPBOARD_RELEASE\<close>,
  which check the id with \<^verbatim>\<open>vdagent_x11_get_clipboard_atom\<close>: the request is answered
  with \<^verbatim>\<open>NONE\<close> and nothing else is done, grab and release return with the bridge as it
  was. \<^verbatim>\<open>vdagent_x11_clipboard_data\<close> does not check the id. With no active outbound
  request, or during an INCR send, the data is dropped without effect; otherwise the id
  differs from the selection of the active request (which is 0 or 1), so the data counts
  as a mismatch: the active request is refused with a \<^verbatim>\<open>SelectionNotify\<close> of property
  \<^verbatim>\<open>None\<close>, leaves the queue, and the next request is handled.
\<close>

theorem unsupported_selection_rejected:
  assumes "S \<noteq> VD_AGENT_CLIPBOARD_SELECTION_CLIPBOARD"
    and "S \<noteq> VD_AGENT_CLIPBOARD_SELECTION_PRIMARY"
  shows "vdagent_x11_clipboard_request x11 S T alloc =
           Inr (x11\<lparr>out := out x11 @ [udscs_write VDAGENTD_CLIPBOARD_DATA (unat S)
                                         (unat VD_AGENT_CLIPBOARD_NONE) No_data 0]\<rparr>)
         \<and> vdagent_x11_clipboard_grab x11 S types = x11
         \<and> vdagent_x11_clipboard_release x11 S xfixes_events = Inr x11
         \<and> (selection_req_data x11 \<noteq> None \<or> selection_req x11 = []
            \<longrightarrow> vdagent_x11_clipboard_data x11 S T data = Inr x11)
         \<and> (selection_req_data x11 = None \<and> selection_req x11 = req # rest
            \<and> (sel_selection req = VD_AGENT_CLIPBOARD_SELECTION_CLIPBOARD
               \<or> sel_selection req = VD_AGENT_CLIPBOARD_SELECTION_PRIMARY)
            \<and> vdagent_x11_target_to_type x11 (sel_selection req) (sr_target (sel_event req))
                = Inr T'
            \<longrightarrow> vdagent_x11_clipboard_data x11 S T data =
                  vdagent_x11_handle_selection_request
                    (x11\<lparr>out := out x11 @ [XSendEvent (sr_requestor (sel_event req))
                                             (selection_notify_res X_None (sel_event req))],
                         selection_req := rest\<rparr>))"
proof -
  note none = get_clipboard_atom_unsupported [OF assms]
  have 1: "vdagent_x11_clipboard_request x11 S T alloc =
           Inr (x11\<lparr>out := out x11 @ [udscs_write VDAGENTD_CLIPBOARD_DATA (unat S)
                                         (unat VD_AGENT_CLIPBOARD_NONE) No_data 0]\<rparr>)"
    by (simp add: vdagent_x11_clipboard_request_def none emit_def)
  have 2: "vdagent_x11_clipboard_grab x11 S types = x11"
    by (simp add: vdagent_x11_clipboard_grab_def none)
  have 3: "vdagent_x11_clipboard_release x11 S xfixes_events = Inr x11"
    by (simp add: vdagent_x11_clipboard_release_def none)
  have 4: "vdagent_x11_clipboard_data x11 S T data = Inr x11"
    if "selection_req_data x11 \<noteq> None \<or> selection_req x11 = []"
    using that by (rule clipboard_data_ignored)
  have 5: "vdagent_x11_clipboard_data x11 S T data =
             vdagent_x11_handle_selection_request
               (x11\<lparr>out := out x11 @ [XSendEvent (sr_requestor (sel_event req))
                                        (selection_notify_res X_None (sel_event req))],
                    selection_req := rest\<rparr>)"
    if "selection_req_data x11 = None \<and> selection_req x11 = req # rest
        \<and> (sel_selection req = VD_AGENT_CLIPBOARD_SELECTION_CLIPBOARD
           \<or> sel_selection req = VD_AGENT_CLIPBOARD_SELECTION_PRIMARY)
        \<and> vdagent_x11_target_to_type x11 (sel_selection req) (sr_target (sel_event req))
            = Inr T'"
  proof -
    from that assms have "T' \<noteq> T \<or> S \<noteq> sel_selection req" by auto
    with that show ?thesis
      by (intro clipboard_data_mismatch) auto
  qed
  from 1 2 3 4 5 show ?thesis by blast
qed

theorem unsupported_selection_rejected_witness:
  "VD_AGENT_CLIPBOARD_SELECTION_SECONDARY \<noteq> VD_AGENT_CLIPBOARD_SELECTION_CLIPBOARD
   \<and> VD_AGENT_CLIPBOARD_SELECTION_SECONDARY \<noteq> VD_AGENT_CLIPBOARD_SELECTION_PRIMARY
   \<and> vdagent_x11_clipboard_request example_client_waiting VD_AGENT_CLIPBOARD_SELECTION_SECONDARY
       VD_AGENT_CLIPBOARD_UTF8_TEXT True =
       Inr (example_client_waiting
              \<lparr>out := [udscs_write VDAGENTD_CLIPBOARD_REQUEST 0 1 No_data 0,
                       udscs_write VDAGENTD_CLIPBOARD_DATA 2 0 No_data 0]\<rparr>)
   \<and> vdagent_x11_clipboard_grab example_client_waiting VD_AGENT_CLIPBOARD_SELECTION_SECONDARY
       [VD_AGENT_CLIPBOARD_UTF8_TEXT] = example_client_waiting
   \<and> vdagent_x11_clipboard_release example_client_waiting VD_AGENT_CLIPBOARD_SELECTION_SECONDARY
       [] = Inr example_client_waiting"
proof -
  have ne: "VD_AGENT_CLIPBOARD_SELECTION_SECONDARY \<noteq> VD_AGENT_CLIPBOARD_SELECTION_CLIPBOARD"
    "VD_AGENT_CLIPBOARD_SELECTION_SECONDARY \<noteq> VD_AGENT_CLIPBOARD_SELECTION_PRIMARY"
    by (simp_all add: VD_AGENT_CLIPBOARD_SELECTION_SECONDARY_def
        VD_AGENT_CLIPBOARD_SELECTION_CLIPBOARD_def VD_AGENT_CLIPBOARD_SELECTION_PRIMARY_def)
  have u: "unat VD_AGENT_CLIPBOARD_SELECTION_SECONDARY = 2" "unat VD_AGENT_CLIPBOARD_NONE = 0"
    by (simp_all add: VD_AGENT_CLIPBOARD_SELECTION_SECONDARY_def VD_AGENT_CLIPBOARD_NONE_def)
  show ?thesis
    using unsupported_selection_rejected [OF ne, of example_client_waiting
        VD_AGENT_CLIPBOARD_UTF8_TEXT True "[VD_AGENT_CLIPBOARD_UTF8_TEXT]" "[]"]
    by (simp add: ne u example_waiting_facts)
qed

text \<open>The claim fails for \<^verbatim>\<open>CLIPBOARD_DATA\<close>: with a request of the clipboard active, data
  that names \<^verbatim>\<open>SECONDARY\<close> makes the bridge send an event to the requestor and drop the
  active request.\<close>

theorem secondary_data_counterexample:
  "vdagent_x11_clipboard_data example_client_waiting VD_AGENT_CLIPBOARD_SELECTION_SECONDARY
     VD_AGENT_CLIPBOARD_UTF8_TEXT [104, 105] =
   Inr (example_client_waiting
          \<lparr>out := [udscs_write VDAGENTD_CLIPBOARD_REQUEST 0 1 No_data 0,
                   XSendEvent 77 \<lparr>sn_requestor = 77, sn_selection = 200, sn_target = 204,
                                  sn_property = 0, sn_time = 9\<rparr>],
           selection_req := []\<rparr>)"
proof -
  have "VD_AGENT_CLIPBOARD_UTF8_TEXT \<noteq> VD_AGENT_CLIPBOARD_UTF8_TEXT
        \<or> VD_AGENT_CLIPBOARD_SELECTION_SECONDARY \<noteq> sel_selection \<lparr>sel_event = example_request, sel_selection = 0\<rparr>"
    by (simp add: VD_AGENT_CLIPBOARD_SELECTION_SECONDARY_def)
  from clipboard_data_mismatch [OF example_waiting_facts(2) example_waiting_facts(1) _ this]
  show ?thesis
    by (simp add: example_waiting_facts handle_selection_request_empty)
qed

subsection \<open>Out of memory on enqueue\<close>

lemma example_guest_target:
  "vdagent_x11_type_to_target example_guest_busy 0 VD_AGENT_CLIPBOARD_UTF8_TEXT = 204"
  by (simp add: vdagent_x11_type_to_target_def type_to_target_loop.simps example_guest_busy_def
      VD_AGENT_CLIPBOARD_UTF8_TEXT_def)

text \<open>
  C3 (corrected). The claim: when the slot for a request cannot be allocated, the request
  is dropped and the failure reply is still produced (\<^verbatim>\<open>CLIPBOARD_DATA(selection, NONE)\<close>
  for an inbound request, a \<^verbatim>\<open>SelectionNotify\<close> with property \<^verbatim>\<open>None\<close> for an X11
  selection request).

  What the code does: the request is dropped and no reply is produced. A
  \<^verbatim>\<open>CLIPBOARD_REQUEST\<close> is answered with \<^verbatim>\<open>NONE\<close> only by the checks that come before the
  allocation (unsupported selection, owner not the guest, type not advertised); once
  these pass and \<^verbatim>\<open>malloc\<close> fails the function returns with the bridge unchanged and
  nothing sent. A \<^verbatim>\<open>SelectionRequest\<close> event whose slot cannot be allocated leaves the
  bridge unchanged and nothing is sent.
\<close>

theorem out_of_memory_drops_request:
  "vdagent_x11_clipboard_request x11 S T False =
     (if vdagent_x11_get_clipboard_atom x11 S = None \<or> clipboard_owner x11 S \<noteq> owner_guest
         \<or> vdagent_x11_type_to_target x11 S T = X_None
      then Inr (x11\<lparr>out := out x11 @ [udscs_write VDAGENTD_CLIPBOARD_DATA (unat S)
                                        (unat VD_AGENT_CLIPBOARD_NONE) No_data 0]\<rparr>)
      else Inr x11)
   \<and> (\<not> alloc_ok env \<longrightarrow> vdagent_x11_handle_event x11 (SelectionRequest e) env = Inr x11)"
proof (intro conjI impI)
  show "vdagent_x11_clipboard_request x11 S T False =
     (if vdagent_x11_get_clipboard_atom x11 S = None \<or> clipboard_owner x11 S \<noteq> owner_guest
         \<or> vdagent_x11_type_to_target x11 S T = X_None
      then Inr (x11\<lparr>out := out x11 @ [udscs_write VDAGENTD_CLIPBOARD_DATA (unat S)
                                        (unat VD_AGENT_CLIPBOARD_NONE) No_data 0]\<rparr>)
      else Inr x11)"
    by (simp add: vdagent_x11_clipboard_request_def emit_def Let_def split: option.splits)
next
  assume "\<not> alloc_ok env"
  then show "vdagent_x11_handle_event x11 (SelectionRequest e) env = Inr x11"
    by (simp add: vdagent_x11_handle_event_def split: option.splits)
qed

theorem out_of_memory_drops_request_witness:
  "vdagent_x11_clipboard_request example_guest_busy 0 VD_AGENT_CLIPBOARD_UTF8_TEXT False
     = Inr example_guest_busy
   \<and> \<not> alloc_ok example_env_no_memory
   \<and> vdagent_x11_handle_event example_client_waiting (SelectionRequest example_request)
       example_env_no_memory = Inr example_client_waiting"
proof -
  have a: "vdagent_x11_get_clipboard_atom example_guest_busy 0 = Some 200"
    by (simp add: vdagent_x11_get_clipboard_atom_def VD_AGENT_CLIPBOARD_SELECTION_CLIPBOARD_def
        example_guest_busy_def example_x11_def)
  have b: "clipboard_owner example_guest_busy 0 = owner_guest"
    by (simp add: example_guest_busy_def)
  have c: "\<not> alloc_ok example_env_no_memory"
    by (simp add: example_env_no_memory_def)
  show ?thesis
    using out_of_memory_drops_request
      [of example_guest_busy 0 VD_AGENT_CLIPBOARD_UTF8_TEXT example_env_no_memory
          example_request]
      out_of_memory_drops_request
      [of example_client_waiting 0 VD_AGENT_CLIPBOARD_UTF8_TEXT example_env_no_memory
          example_request]
    by (simp add: a b c example_guest_target X_None_def)
qed

text \<open>The claim fails: neither reply is produced.\<close>

theorem out_of_memory_counterexample:
  "clipboard_owner example_guest_busy 0 = owner_guest
   \<and> vdagent_x11_type_to_target example_guest_busy 0 VD_AGENT_CLIPBOARD_UTF8_TEXT = 204
   \<and> vdagent_x11_clipboard_request example_guest_busy 0 VD_AGENT_CLIPBOARD_UTF8_TEXT False
       = Inr example_guest_busy
   \<and> vdagent_x11_get_clipboard_selection example_client_waiting (SelectionRequest example_request)
       = Some 0
   \<and> vdagent_x11_handle_event example_client_waiting (SelectionRequest example_request)
       example_env_no_memory = Inr example_client_waiting"
proof -
  have a: "vdagent_x11_get_clipboard_atom example_guest_busy 0 = Some 200"
    by (simp add: vdagent_x11_get_clipboard_atom_def VD_AGENT_CLIPBOARD_SELECTION_CLIPBOARD_def
        example_guest_busy_def example_x11_def)
  have b: "clipboard_owner example_guest_busy 0 = owner_guest"
    by (simp add: example_guest_busy_def)
  have s: "vdagent_x11_get_clipboard_selection example_client_waiting
             (SelectionRequest example_request) = Some 0"
    by (simp add: vdagent_x11_get_clipboard_selection_def example_request_def
        example_client_waiting_def example_x11_def VD_AGENT_CLIPBOARD_SELECTION_CLIPBOARD_def)
  show ?thesis
    by (simp add: vdagent_x11_clipboard_request_def vdagent_x11_handle_event_def a b s
        example_guest_target X_None_def example_env_no_memory_def Let_def)
qed


subsection \<open>Delivering clipboard data to the requestor\<close>

lemma concat_chunks_of: "0 < n \<Longrightarrow> concat (chunks_of n bs) = bs"
proof (induction n bs rule: chunks_of.induct)
  case (1 n bs)
  then show ?case
    by (subst chunks_of.simps) auto
qed

lemma chunks_of_bounds:
  assumes "0 < n" and "c \<in> set (chunks_of n bs)"
  shows "0 < length c \<and> length c \<le> n"
  using assms
proof (induction n bs rule: chunks_of.induct)
  case (1 n bs)
  show ?case
  proof (cases "bs = []")
    case True
    with "1.prems" show ?thesis by (simp add: chunks_of.simps)
  next
    case False
    with "1.prems" have "chunks_of n bs = take n bs # chunks_of n (drop n bs)"
      by (subst chunks_of.simps) simp
    with "1.prems" have "c = take n bs \<or> c \<in> set (chunks_of n (drop n bs))"
      by simp
    then show ?thesis
    proof
      assume "c = take n bs"
      with False "1.prems" show ?thesis by (cases bs) auto
    next
      assume "c \<in> set (chunks_of n (drop n bs))"
      with "1.IH" False "1.prems" show ?thesis by simp
    qed
  qed
qed

lemma do_read_append:
  "vdagent_x11_do_read x11 (as @ bs) =
     (case vdagent_x11_do_read x11 as of Inl e \<Rightarrow> Inl e | Inr x1 \<Rightarrow> vdagent_x11_do_read x1 bs)"
  by (induction as arbitrary: x11) (auto split: sum.splits)

lemma do_read_single:
  "vdagent_x11_do_read x11 [(event, env)] = vdagent_x11_handle_event x11 event env"
  by (simp split: sum.splits)

lemma to_int_small: "0 \<le> x \<Longrightarrow> x < 2147483648 \<Longrightarrow> to_int (to_uint32 x) = x"
  by (simp add: to_int_def to_uint32_def)

lemma to_uint32_small: "0 \<le> x \<Longrightarrow> x < 4294967296 \<Longrightarrow> to_uint32 x = x"
  by (simp add: to_uint32_def)

text \<open>One \<^verbatim>\<open>PropertyDelete\<close> while bytes remain: the next chunk is written and the
  cursor moves on.\<close>
lemma property_delete_chunk:
  assumes q: "selection_req x11 = req # rest"
    and d: "selection_req_data x11 = Some data"
    and sz: "selection_req_data_size x11 = int (length data)"
    and pos: "selection_req_data_pos x11 = int p"
    and p: "p < length data"
    and small: "length data < 2147483648"
    and mps: "0 < max_prop_size x11"
    and at: "selection_req_atom x11 = prop"
  shows "vdagent_x11_handle_event x11 (property_delete (sel_event req) prop) env =
           Inr (x11\<lparr>selection_req_data_pos :=
                      int (p + length (take (nat (max_prop_size x11)) (drop p data))),
                    out := out x11 @ [incr_write (sel_event req) prop
                                        (take (nat (max_prop_size x11)) (drop p data))]\<rparr>)"
proof -
  let ?m = "max_prop_size x11"
  let ?chunk = "take (nat ?m) (drop p data)"
  have len0: "to_int (to_uint32 (int (length data) - int p)) = int (length data) - int p"
    using p small by (simp add: to_int_small)
  have ev: "vdagent_x11_handle_event x11 (property_delete (sel_event req) prop) env =
              vdagent_x11_handle_property_delete_notify x11
                \<lparr>pn_window = sr_requestor (sel_event req), pn_atom = prop,
                 pn_state = PropertyDelete\<rparr>"
    by (simp add: vdagent_x11_handle_event_def property_delete_def PropertyDelete_def
        PropertyNewValue_def d)
  show ?thesis
  proof (cases "?m < int (length data) - int p")
    case True
    then have c: "length ?chunk = nat ?m"
      by simp
    have u: "to_uint32 (int p + ?m) = int p + ?m"
      using True small mps by (intro to_uint32_small) auto
    show ?thesis
      unfolding ev using True mps
      by (simp add: vdagent_x11_handle_property_delete_notify_def q d at sz pos len0 Let_def
          emit_def incr_write_def c u)
  next
    case False
    then have c: "length ?chunk = length data - p"
      by simp
    have t: "take (length data - p) (drop p data) = ?chunk"
      using False by simp
    have u: "to_uint32 (int (length data)) = int (length data)"
      using small by (intro to_uint32_small) auto
    have nz: "int (length data) - int p \<noteq> 0"
      using p by simp
    have e: "int p + (int (length data) - int p) = int (length data)"
      by simp
    show ?thesis
      unfolding ev using False p nz
      by (simp add: vdagent_x11_handle_property_delete_notify_def q d at sz pos len0 Let_def
          emit_def incr_write_def c u e nat_diff_distrib' t del: take_all)
  qed
qed


text \<open>The \<^verbatim>\<open>PropertyDelete\<close> that arrives when every byte is written: the zero-length
  write, after which the buffer is dropped and the queue advances.\<close>
lemma property_delete_last:
  assumes q: "selection_req x11 = req # rest"
    and d: "selection_req_data x11 = Some data"
    and sz: "selection_req_data_size x11 = int (length data)"
    and pos: "selection_req_data_pos x11 = int (length data)"
    and mps: "0 < max_prop_size x11"
    and at: "selection_req_atom x11 = prop"
  shows "vdagent_x11_handle_event x11 (property_delete (sel_event req) prop) env =
           vdagent_x11_handle_selection_request
             (x11\<lparr>selection_req := rest, selection_req_data := None,
                  selection_req_data_pos := 0, selection_req_data_size := 0,
                  selection_req_atom := X_None,
                  out := out x11 @ [incr_write (sel_event req) prop []]\<rparr>)"
proof -
  have ev: "vdagent_x11_handle_event x11 (property_delete (sel_event req) prop) env =
              vdagent_x11_handle_property_delete_notify x11
                \<lparr>pn_window = sr_requestor (sel_event req), pn_atom = prop,
                 pn_state = PropertyDelete\<rparr>"
    by (simp add: vdagent_x11_handle_event_def property_delete_def PropertyDelete_def
        PropertyNewValue_def d)
  have z: "to_int 0 = 0" "to_uint32 0 = 0"
    by (simp_all add: to_int_def to_uint32_def)
  have "vdagent_x11_next_selection_request
          (x11\<lparr>out := out x11 @ [incr_write (sel_event req) prop []],
               selection_req_data := None, selection_req_data_pos := 0,
               selection_req_data_size := 0, selection_req_atom := X_None\<rparr>)
        = x11\<lparr>selection_req := rest, selection_req_data := None,
                  selection_req_data_pos := 0, selection_req_data_size := 0,
                  selection_req_atom := X_None,
                  out := out x11 @ [incr_write (sel_event req) prop []]\<rparr>"
    by (simp add: vdagent_x11_next_selection_request_def q)
  then show ?thesis
    unfolding ev using mps
    by (simp add: vdagent_x11_handle_property_delete_notify_def q d at sz pos Let_def z
        emit_def incr_write_def)
qed

lemma incr_send_chunks:
  assumes q: "selection_req x11 = req # rest"
    and d: "selection_req_data x11 = Some data"
    and sz: "selection_req_data_size x11 = int (length data)"
    and pos: "selection_req_data_pos x11 = int p"
    and p: "p \<le> length data"
    and small: "length data < 2147483648"
    and mps: "0 < max_prop_size x11"
    and at: "selection_req_atom x11 = prop"
  shows "vdagent_x11_do_read x11
           (replicate (length (chunks_of (nat (max_prop_size x11)) (drop p data)))
              (property_delete (sel_event req) prop, env)) =
         Inr (x11\<lparr>selection_req_data_pos := int (length data),
                  out := out x11 @ map (incr_write (sel_event req) prop)
                                     (chunks_of (nat (max_prop_size x11)) (drop p data))\<rparr>)"
  using q d sz pos p at mps
proof (induction "length data - p" arbitrary: x11 p rule: less_induct)
  case less
  let ?m = "nat (max_prop_size x11)"
  show ?case
  proof (cases "p = length data")
    case True
    have "x11\<lparr>selection_req_data_pos := int (length data), out := out x11\<rparr> = x11"
      using less.prems(4) True by simp
    with True show ?thesis
      by (simp add: chunks_of.simps)
  next
    case False
    with less.prems have lt: "p < length data" by simp
    let ?chunk = "take ?m (drop p data)"
    let ?p' = "p + length ?chunk"
    let ?x1 = "x11\<lparr>selection_req_data_pos := int ?p',
                    out := out x11 @ [incr_write (sel_event req) prop ?chunk]\<rparr>"
    have step: "vdagent_x11_handle_event x11 (property_delete (sel_event req) prop) env = Inr ?x1"
      using less.prems lt small by (intro property_delete_chunk) auto
    have m0: "0 < ?m" using less.prems by simp
    have ch: "chunks_of ?m (drop p data) = ?chunk # chunks_of ?m (drop ?p' data)"
    proof -
      have "drop ?m (drop p data) = drop ?p' data"
        using lt by (auto simp: min_def add.commute)
      with lt m0 show ?thesis
        by (subst chunks_of.simps) simp
    qed
    have less': "length data - ?p' < length data - p"
      using lt m0 by auto
    have p'le: "?p' \<le> length data"
      using lt by auto
    have IH: "vdagent_x11_do_read ?x1
                (replicate (length (chunks_of (nat (max_prop_size ?x1)) (drop ?p' data)))
                   (property_delete (sel_event req) prop, env)) =
              Inr (?x1\<lparr>selection_req_data_pos := int (length data),
                       out := out ?x1 @ map (incr_write (sel_event req) prop)
                                (chunks_of (nat (max_prop_size ?x1)) (drop ?p' data))\<rparr>)"
      using less.prems p'le by (intro less.hyps [OF less']) auto
    show ?thesis
      using IH by (simp add: ch step)
  qed
qed


text \<open>
  The round trip for a payload of fewer than \<open>2^31\<close> bytes. A payload that fits
  \<^verbatim>\<open>max_prop_size\<close> is written in one 8-bit property of the target type, the requestor
  is notified and the queue advances (\<open>clipboard_data_single\<close>). A longer one is
  announced by a 32-bit property of type \<^verbatim>\<open>INCR\<close> that holds its length
  (\<open>clipboard_data_incr_start\<close>); then each \<^verbatim>\<open>PropertyDelete\<close> on the property writes
  the next chunk, the chunks are not empty, at most \<^verbatim>\<open>max_prop_size\<close> long and their
  concatenation is the payload, and the \<^verbatim>\<open>PropertyDelete\<close> after the last chunk writes
  zero bytes, drops the buffer and advances the queue (\<open>incr_send_roundtrip\<close>).
\<close>

lemma clipboard_data_single:
  assumes q: "selection_req x11 = req # rest"
    and idle: "selection_req_data x11 = None"
    and tt: "vdagent_x11_target_to_type x11 (sel_selection req) (sr_target (sel_event req)) = Inr T"
    and fits: "int (length data) \<le> to_uint32 (max_prop_size x11)"
  shows "vdagent_x11_clipboard_data x11 (sel_selection req) T data =
           vdagent_x11_handle_selection_request
             (x11\<lparr>out := out x11
                      @ [XChangeProperty (sr_requestor (sel_event req))
                           (reply_property (sel_event req)) (sr_target (sel_event req)) 8
                           (Data8 data) (int (length data)),
                         XSendEvent (sr_requestor (sel_event req))
                           (selection_notify_res (reply_property (sel_event req))
                              (sel_event req))],
                  selection_req := rest\<rparr>)"
proof -
  let ?x1 = "emit (XChangeProperty (sr_requestor (sel_event req))
                           (reply_property (sel_event req)) (sr_target (sel_event req)) 8
                           (Data8 data) (int (length data))) x11"
  have q1: "selection_req ?x1 = req # rest"
    by (simp add: emit_def q)
  show ?thesis
    using fits send_selection_notify_head [OF q1, of "reply_property (sel_event req)"]
    by (simp add: vdagent_x11_clipboard_data_def q idle tt Let_def reply_property_def emit_def)
qed

lemma clipboard_data_incr_start:
  assumes q: "selection_req x11 = req # rest"
    and idle: "selection_req_data x11 = None"
    and tt: "vdagent_x11_target_to_type x11 (sel_selection req) (sr_target (sel_event req)) = Inr T"
    and big: "to_uint32 (max_prop_size x11) < int (length data)"
  shows "vdagent_x11_clipboard_data x11 (sel_selection req) T data =
           Inr (x11\<lparr>selection_req_data := Some data, selection_req_data_pos := 0,
                    selection_req_data_size := int (length data),
                    selection_req_atom := reply_property (sel_event req),
                    out := out x11
                      @ [XSelectInput (sr_requestor (sel_event req)) PropertyChangeMask,
                         XChangeProperty (sr_requestor (sel_event req))
                           (reply_property (sel_event req)) (incr_atom x11) 32
                           (Data32 [length data]) 1,
                         XSendEvent (sr_requestor (sel_event req))
                           (selection_notify_res (reply_property (sel_event req))
                              (sel_event req))]\<rparr>)"
  using big
  by (simp add: vdagent_x11_clipboard_data_def q idle tt Let_def reply_property_def emit_def
      send_selection_notify_request send_notify_event_def)

lemma incr_send_roundtrip:
  assumes q: "selection_req x11 = req # rest"
    and idle: "selection_req_data x11 = None"
    and tt: "vdagent_x11_target_to_type x11 (sel_selection req) (sr_target (sel_event req)) = Inr T"
    and mps: "0 < max_prop_size x11" "max_prop_size x11 < 2147483648"
    and big: "max_prop_size x11 < int (length data)"
    and small: "length data < 2147483648"
    and x1: "vdagent_x11_clipboard_data x11 (sel_selection req) T data = Inr x1"
  shows "vdagent_x11_do_read x1
           (replicate (length (chunks_of (nat (max_prop_size x11)) data) + 1)
              (property_delete (sel_event req) (reply_property (sel_event req)), env)) =
         vdagent_x11_handle_selection_request
           (x11\<lparr>selection_req := rest, selection_req_data := None,
                selection_req_data_pos := 0, selection_req_data_size := 0,
                selection_req_atom := X_None,
                out := out x11
                  @ [XSelectInput (sr_requestor (sel_event req)) PropertyChangeMask,
                     XChangeProperty (sr_requestor (sel_event req))
                       (reply_property (sel_event req)) (incr_atom x11) 32
                       (Data32 [length data]) 1,
                     XSendEvent (sr_requestor (sel_event req))
                       (selection_notify_res (reply_property (sel_event req)) (sel_event req))]
                  @ map (incr_write (sel_event req) (reply_property (sel_event req)))
                      (chunks_of (nat (max_prop_size x11)) data @ [[]])\<rparr>)
         \<and> concat (chunks_of (nat (max_prop_size x11)) data) = data
         \<and> list_all (\<lambda>c. 0 < length c \<and> int (length c) \<le> max_prop_size x11)
             (chunks_of (nat (max_prop_size x11)) data)"
proof -
  let ?rp = "reply_property (sel_event req)"
  let ?ev = "sel_event req"
  let ?m = "nat (max_prop_size x11)"
  have u: "to_uint32 (max_prop_size x11) = max_prop_size x11"
    using mps by (intro to_uint32_small) auto
  from x1 clipboard_data_incr_start [OF q idle tt, of data] big u
  have x1_eq: "x1 = x11\<lparr>selection_req_data := Some data, selection_req_data_pos := 0,
                    selection_req_data_size := int (length data),
                    selection_req_atom := ?rp,
                    out := out x11
                      @ [XSelectInput (sr_requestor ?ev) PropertyChangeMask,
                         XChangeProperty (sr_requestor ?ev) ?rp (incr_atom x11) 32
                           (Data32 [length data]) 1,
                         XSendEvent (sr_requestor ?ev) (selection_notify_res ?rp ?ev)]\<rparr>"
    by simp
  have f: "selection_req x1 = req # rest" "selection_req_data x1 = Some data"
    "selection_req_data_size x1 = int (length data)" "selection_req_data_pos x1 = int 0"
    "selection_req_atom x1 = ?rp" "max_prop_size x1 = max_prop_size x11"
    by (simp_all add: x1_eq q)
  let ?x2 = "x1\<lparr>selection_req_data_pos := int (length data),
                 out := out x1 @ map (incr_write ?ev ?rp) (chunks_of ?m data)\<rparr>"
  have chunks: "vdagent_x11_do_read x1
                  (replicate (length (chunks_of ?m data)) (property_delete ?ev ?rp, env))
                = Inr ?x2"
    using incr_send_chunks [OF f(1) f(2) f(3) f(4) _ small _ f(5), of env] mps
    by (simp add: f)
  have last: "vdagent_x11_handle_event ?x2 (property_delete ?ev ?rp) env =
                vdagent_x11_handle_selection_request
                  (?x2\<lparr>selection_req := rest, selection_req_data := None,
                       selection_req_data_pos := 0, selection_req_data_size := 0,
                       selection_req_atom := X_None,
                       out := out ?x2 @ [incr_write ?ev ?rp []]\<rparr>)"
    using mps by (intro property_delete_last) (simp_all add: f)
  have fin: "?x2\<lparr>selection_req := rest, selection_req_data := None,
                       selection_req_data_pos := 0, selection_req_data_size := 0,
                       selection_req_atom := X_None,
                       out := out ?x2 @ [incr_write ?ev ?rp []]\<rparr>
             = x11\<lparr>selection_req := rest, selection_req_data := None,
                selection_req_data_pos := 0, selection_req_data_size := 0,
                selection_req_atom := X_None,
                out := out x11
                  @ [XSelectInput (sr_requestor ?ev) PropertyChangeMask,
                     XChangeProperty (sr_requestor ?ev) ?rp (incr_atom x11) 32
                       (Data32 [length data]) 1,
                     XSendEvent (sr_requestor ?ev) (selection_notify_res ?rp ?ev)]
                  @ map (incr_write ?ev ?rp) (chunks_of ?m data @ [[]])\<rparr>"
    by (simp add: x1_eq)
  have run: "vdagent_x11_do_read x1
           (replicate (length (chunks_of ?m data) + 1) (property_delete ?ev ?rp, env)) =
         vdagent_x11_handle_selection_request
           (x11\<lparr>selection_req := rest, selection_req_data := None,
                selection_req_data_pos := 0, selection_req_data_size := 0,
                selection_req_atom := X_None,
                out := out x11
                  @ [XSelectInput (sr_requestor ?ev) PropertyChangeMask,
                     XChangeProperty (sr_requestor ?ev) ?rp (incr_atom x11) 32
                       (Data32 [length data]) 1,
                     XSendEvent (sr_requestor ?ev) (selection_notify_res ?rp ?ev)]
                  @ map (incr_write ?ev ?rp) (chunks_of ?m data @ [[]])\<rparr>)"
  proof -
    let ?e = "(property_delete ?ev ?rp, env)"
    have "vdagent_x11_do_read x1 (replicate (length (chunks_of ?m data) + 1) ?e) =
            (case vdagent_x11_do_read x1 (replicate (length (chunks_of ?m data)) ?e) of
               Inl err \<Rightarrow> Inl err
             | Inr y \<Rightarrow> vdagent_x11_do_read y (replicate 1 ?e))"
      by (simp only: replicate_add do_read_append)
    also have "\<dots> = vdagent_x11_do_read ?x2 (replicate 1 ?e)"
      by (simp only: chunks sum.case)
    also have "\<dots> = vdagent_x11_handle_event ?x2 (property_delete ?ev ?rp) env"
      by (simp only: One_nat_def replicate.simps do_read_single)
    also note last
    also note fin
    finally show ?thesis .
  qed
  have m0: "0 < ?m" using mps by simp
  have bounds: "list_all (\<lambda>c. 0 < length c \<and> int (length c) \<le> max_prop_size x11)
             (chunks_of ?m data)"
    unfolding list_all_iff using chunks_of_bounds [OF m0] mps by fastforce
  from run concat_chunks_of [OF m0] bounds show ?thesis by simp
qed


lemma big_start:
  "vdagent_x11_clipboard_data example_client_waiting 0 VD_AGENT_CLIPBOARD_UTF8_TEXT big_payload
     = Inr example_incr_big"
proof -
  have m: "to_uint32 (max_prop_size example_client_waiting) < int (length big_payload)"
    by (simp add: example_client_waiting_def example_x11_def to_uint32_def big_payload_def)
  have rp: "reply_property example_request = 500"
    by (simp add: reply_property_def example_request_def X_None_def)
  have nr: "selection_notify_res 500 example_request =
              \<lparr>sn_requestor = 77, sn_selection = 200, sn_target = 204, sn_property = 500,
               sn_time = 9\<rparr>"
    by (simp add: selection_notify_res_def example_request_def)
  have l: "length big_payload = 2147483648"
    by (simp add: big_payload_def)
  have i: "incr_atom example_client_waiting = 202"
    by (simp add: example_client_waiting_def example_x11_def)
  from clipboard_data_incr_start
         [OF example_waiting_facts(1) example_waiting_facts(2) _ m, of VD_AGENT_CLIPBOARD_UTF8_TEXT]
       example_waiting_facts(4)
  show ?thesis
    by (simp add: rp nr l i example_waiting_facts(3,5) example_incr_big_def)
qed

text \<open>
  C2 (code bug). The claim promises the round trip for every payload. In
  \<^verbatim>\<open>vdagent_x11_handle_property_delete_notify\<close> the remaining length
  \<^verbatim>\<open>selection_req_data_size - selection_req_data_pos\<close> (two \<^verbatim>\<open>uint32_t\<close>) is stored in
  the \<^verbatim>\<open>int len\<close>. For a payload of \<open>2^31\<close> bytes the first \<^verbatim>\<open>PropertyDelete\<close> gets
  \<open>len = -2^31\<close>: it is not above \<^verbatim>\<open>max_prop_size\<close>, so \<^verbatim>\<open>XChangeProperty\<close> is called
  with \<^verbatim>\<open>nelements = -2147483648\<close> and the cursor wraps to \<open>2^31\<close>; the second
  \<^verbatim>\<open>PropertyDelete\<close> finds nothing left and ends the transfer. No byte of the payload
  reaches the requestor.
\<close>

theorem incr_send_two_gib:
  "length big_payload = 2147483648
   \<and> vdagent_x11_clipboard_data example_client_waiting 0 VD_AGENT_CLIPBOARD_UTF8_TEXT big_payload
       = Inr example_incr_big
   \<and> vdagent_x11_do_read example_incr_big
       [(property_delete example_request 500, example_env),
        (property_delete example_request 500, example_env)] =
       Inr (example_client_waiting
              \<lparr>selection_req := [],
               out := out example_incr_big
                      @ [XChangeProperty 77 500 204 8 (Data8 []) (- 2147483648),
                         XChangeProperty 77 500 204 8 (Data8 []) 0]\<rparr>)"
proof -
  have l: "length big_payload = 2147483648"
    by (simp add: big_payload_def)
  have t: "to_int (to_uint32 2147483648) = - 2147483648" "to_uint32 (- 2147483648) = 2147483648"
    "to_int 0 = 0" "to_uint32 0 = 0"
    by (simp_all add: to_int_def to_uint32_def)
  have e: "sr_requestor example_request = 77" "sr_target example_request = 204"
    by (simp_all add: example_request_def)
  let ?x2 = "example_incr_big
               \<lparr>out := out example_incr_big
                        @ [XChangeProperty 77 500 204 8 (Data8 []) (- 2147483648)],
                selection_req_data_pos := 2147483648\<rparr>"
  have s1: "vdagent_x11_handle_event example_incr_big (property_delete example_request 500)
              example_env = Inr ?x2"
    by (simp add: vdagent_x11_handle_event_def property_delete_def PropertyDelete_def
        PropertyNewValue_def vdagent_x11_handle_property_delete_notify_def Let_def emit_def
        example_incr_big_def example_client_waiting_def example_x11_def t e)
  have s2: "vdagent_x11_handle_event ?x2 (property_delete example_request 500) example_env
              = Inr (example_client_waiting
              \<lparr>selection_req := [],
               out := out example_incr_big
                      @ [XChangeProperty 77 500 204 8 (Data8 []) (- 2147483648),
                         XChangeProperty 77 500 204 8 (Data8 []) 0]\<rparr>)"
    by (simp add: vdagent_x11_handle_event_def property_delete_def PropertyDelete_def
        PropertyNewValue_def vdagent_x11_handle_property_delete_notify_def Let_def emit_def
        example_incr_big_def example_client_waiting_def example_x11_def t e
        vdagent_x11_next_selection_request_def handle_selection_request_empty X_None_def)
  show ?thesis
    by (simp add: l big_start s1 s2)
qed


theorem incr_send_two_gib_witness:
  "out (projr (vdagent_x11_do_read example_incr_big
                 [(property_delete example_request 500, example_env),
                  (property_delete example_request 500, example_env)])) =
     out example_incr_big
     @ [XChangeProperty 77 500 204 8 (Data8 []) (- 2147483648),
        XChangeProperty 77 500 204 8 (Data8 []) 0]"
  using incr_send_two_gib by simp

subsection \<open>Requests that name no property\<close>

lemma handle_selection_request_targets:
  assumes q: "selection_req x11 = req # rest"
    and own: "clipboard_owner x11 (sel_selection req) = owner_client"
    and tg: "sr_target (sel_event req) = targets_atom x11"
    and nm: "targets_atom x11 \<noteq> multiple_atom x11"
  shows "vdagent_x11_handle_selection_request x11 =
           vdagent_x11_handle_selection_request
             (x11\<lparr>out := out x11
                      @ [XChangeProperty (sr_requestor (sel_event req))
                           (reply_property (sel_event req)) XA_ATOM 32
                           (Data32 (offered_targets x11 (sel_selection req)))
                           (int (length (offered_targets x11 (sel_selection req)))),
                         XSendEvent (sr_requestor (sel_event req))
                           (selection_notify_res (reply_property (sel_event req))
                              (sel_event req))],
                  selection_req := rest\<rparr>)"
proof -
  let ?x1 = "emit (XChangeProperty (sr_requestor (sel_event req))
                           (reply_property (sel_event req)) XA_ATOM 32
                           (Data32 (offered_targets x11 (sel_selection req)))
                           (int (length (offered_targets x11 (sel_selection req))))) x11"
  have q1: "selection_req ?x1 = req # rest"
    by (simp add: emit_def q)
  have "vdagent_x11_handle_selection_request x11 =
          vdagent_x11_send_targets x11 (sel_selection req) (sel_event req)"
    using own tg nm by (subst vdagent_x11_handle_selection_request.simps) (simp add: q)
  also have "\<dots> = vdagent_x11_send_selection_notify ?x1 (reply_property (sel_event req)) None"
    by (simp add: vdagent_x11_send_targets.simps Let_def reply_property_def offered_targets_def)
  also have "\<dots> = vdagent_x11_handle_selection_request
             (x11\<lparr>out := out x11
                      @ [XChangeProperty (sr_requestor (sel_event req))
                           (reply_property (sel_event req)) XA_ATOM 32
                           (Data32 (offered_targets x11 (sel_selection req)))
                           (int (length (offered_targets x11 (sel_selection req)))),
                         XSendEvent (sr_requestor (sel_event req))
                           (selection_notify_res (reply_property (sel_event req))
                              (sel_event req))],
                  selection_req := rest\<rparr>)"
    using send_selection_notify_head [OF q1, of "reply_property (sel_event req)"]
    by (simp add: emit_def)
  finally show ?thesis .
qed

text \<open>
  C10. When the active selection request names no property (\<^verbatim>\<open>property = None\<close>), every
  successful reply is written to the property named by the request's target atom, and
  the \<^verbatim>\<open>SelectionNotify\<close> reports that atom as its property: the \<^verbatim>\<open>TARGETS\<close> reply of
  \<^verbatim>\<open>vdagent_x11_send_targets\<close>, the single property write of
  \<^verbatim>\<open>vdagent_x11_clipboard_data\<close>, and the \<^verbatim>\<open>INCR\<close> announcement, after which
  \<^verbatim>\<open>selection_req_atom\<close> (the property the chunks are written to) is the target atom
  too.
\<close>

theorem reply_property_defaults_to_target:
  assumes q: "selection_req x11 = req # rest"
    and np: "sr_property (sel_event req) = X_None"
  shows "(clipboard_owner x11 (sel_selection req) = owner_client
          \<and> sr_target (sel_event req) = targets_atom x11
          \<and> targets_atom x11 \<noteq> multiple_atom x11
          \<longrightarrow> vdagent_x11_handle_selection_request x11 =
                vdagent_x11_handle_selection_request
                  (x11\<lparr>out := out x11
                           @ [XChangeProperty (sr_requestor (sel_event req))
                                (sr_target (sel_event req)) XA_ATOM 32
                                (Data32 (offered_targets x11 (sel_selection req)))
                                (int (length (offered_targets x11 (sel_selection req)))),
                              XSendEvent (sr_requestor (sel_event req))
                                (selection_notify_res (sr_target (sel_event req))
                                   (sel_event req))],
                       selection_req := rest\<rparr>))
         \<and> (selection_req_data x11 = None
            \<and> vdagent_x11_target_to_type x11 (sel_selection req) (sr_target (sel_event req))
                = Inr T
            \<and> int (length data) \<le> to_uint32 (max_prop_size x11)
            \<longrightarrow> vdagent_x11_clipboard_data x11 (sel_selection req) T data =
                  vdagent_x11_handle_selection_request
                    (x11\<lparr>out := out x11
                             @ [XChangeProperty (sr_requestor (sel_event req))
                                  (sr_target (sel_event req)) (sr_target (sel_event req)) 8
                                  (Data8 data) (int (length data)),
                                XSendEvent (sr_requestor (sel_event req))
                                  (selection_notify_res (sr_target (sel_event req))
                                     (sel_event req))],
                         selection_req := rest\<rparr>))
         \<and> (selection_req_data x11 = None
            \<and> vdagent_x11_target_to_type x11 (sel_selection req) (sr_target (sel_event req))
                = Inr T
            \<and> to_uint32 (max_prop_size x11) < int (length data)
            \<longrightarrow> vdagent_x11_clipboard_data x11 (sel_selection req) T data =
                  Inr (x11\<lparr>selection_req_data := Some data, selection_req_data_pos := 0,
                           selection_req_data_size := int (length data),
                           selection_req_atom := sr_target (sel_event req),
                           out := out x11
                             @ [XSelectInput (sr_requestor (sel_event req)) PropertyChangeMask,
                                XChangeProperty (sr_requestor (sel_event req))
                                  (sr_target (sel_event req)) (incr_atom x11) 32
                                  (Data32 [length data]) 1,
                                XSendEvent (sr_requestor (sel_event req))
                                  (selection_notify_res (sr_target (sel_event req))
                                     (sel_event req))]\<rparr>))
         \<and> sn_property (selection_notify_res (sr_target (sel_event req)) (sel_event req))
             = sr_target (sel_event req)"
proof -
  have rp: "reply_property (sel_event req) = sr_target (sel_event req)"
    by (simp add: reply_property_def np)
  show ?thesis
    using handle_selection_request_targets [OF q, unfolded rp]
      clipboard_data_single [OF q, unfolded rp, of T data]
      clipboard_data_incr_start [OF q, unfolded rp, of T data]
    by (simp add: selection_notify_res_def)
qed

lemma upt_0_2: "[0..<2] = [0, 1]"
  by (simp add: numeral_2_eq_2)

lemma example_offered_targets:
  "offered_targets example_client_targets 0 = [201, 204, 205, 206, 207]"
proof -
  have "agent_types_of example_client_targets 0 = [1, 2]"
    by (simp add: agent_types_of_def example_client_targets_def upt_0_2)
  then show ?thesis
    by (simp add: offered_targets_def example_client_targets_def example_x11_def
        example_formats_def)
qed

theorem reply_property_defaults_to_target_witness:
  "selection_req example_client_targets
     = [\<lparr>sel_event = example_targets_request, sel_selection = 0\<rparr>]
   \<and> sr_property example_targets_request = X_None
   \<and> clipboard_owner example_client_targets 0 = owner_client
   \<and> sr_target example_targets_request = targets_atom example_client_targets
   \<and> vdagent_x11_handle_selection_request example_client_targets =
       Inr (example_client_targets
              \<lparr>out := [XChangeProperty 79 201 XA_ATOM 32 (Data32 [201, 204, 205, 206, 207]) 5,
                       XSendEvent 79 \<lparr>sn_requestor = 79, sn_selection = 200, sn_target = 201,
                                      sn_property = 201, sn_time = 9\<rparr>],
               selection_req := []\<rparr>)"
proof -
  have q: "selection_req example_client_targets
             = [\<lparr>sel_event = example_targets_request, sel_selection = 0\<rparr>]"
    by (simp add: example_client_targets_def)
  have np: "sr_property (sel_event \<lparr>sel_event = example_targets_request, sel_selection = 0\<rparr>)
              = X_None"
    by (simp add: example_targets_request_def X_None_def)
  have h: "clipboard_owner example_client_targets 0 = owner_client"
    "sr_target example_targets_request = targets_atom example_client_targets"
    "targets_atom example_client_targets \<noteq> multiple_atom example_client_targets"
    by (simp_all add: example_client_targets_def example_x11_def example_targets_request_def)
  have f: "out example_client_targets = []"
    "sr_requestor example_targets_request = 79"
    "sr_target example_targets_request = 201"
    "selection_notify_res 201 example_targets_request =
       \<lparr>sn_requestor = 79, sn_selection = 200, sn_target = 201, sn_property = 201, sn_time = 9\<rparr>"
    by (simp_all add: example_client_targets_def example_x11_def example_targets_request_def
        selection_notify_res_def)
  have "vdagent_x11_handle_selection_request example_client_targets =
          vdagent_x11_handle_selection_request
            (example_client_targets
               \<lparr>out := out example_client_targets
                       @ [XChangeProperty (sr_requestor example_targets_request)
                            (sr_target example_targets_request) XA_ATOM 32
                            (Data32 (offered_targets example_client_targets 0))
                            (int (length (offered_targets example_client_targets 0))),
                          XSendEvent (sr_requestor example_targets_request)
                            (selection_notify_res (sr_target example_targets_request)
                               example_targets_request)],
                selection_req := []\<rparr>)"
    using reply_property_defaults_to_target [OF q np, of VD_AGENT_CLIPBOARD_NONE "[]"] h
    by simp
  then have "vdagent_x11_handle_selection_request example_client_targets =
       Inr (example_client_targets
              \<lparr>out := [XChangeProperty 79 201 XA_ATOM 32 (Data32 [201, 204, 205, 206, 207]) 5,
                       XSendEvent 79 \<lparr>sn_requestor = 79, sn_selection = 200, sn_target = 201,
                                      sn_property = 201, sn_time = 9\<rparr>],
               selection_req := []\<rparr>)"
    by (simp add: f example_offered_targets handle_selection_request_empty)
  with q np h show ?thesis by simp
qed



subsection \<open>The targets of a new owner\<close>

text \<open>\<^verbatim>\<open>atom_lists_overlap\<close> returns the first atom of the format that is announced, and
  \<^verbatim>\<open>None\<close> when there is none.\<close>

lemma atom_in_list_iff: "atom_in_list a bs = (a \<in> set bs)"
  by (induction bs) auto

lemma atom_lists_overlap_loop_find:
  "atom_lists_overlap_loop as bs =
     (case find (\<lambda>a. a \<in> set bs) as of None \<Rightarrow> 0 | Some a \<Rightarrow> a)"
  by (induction as) (auto simp: atom_in_list_iff)

lemma atom_lists_overlap_find:
  "atom_lists_overlap (atoms f) announced (atom_count f) (int (length announced)) =
     (case find (\<lambda>a. a \<in> set announced) (atoms f) of None \<Rightarrow> 0 | Some a \<Rightarrow> a)"
  by (simp add: atom_lists_overlap_def atom_count_def atom_lists_overlap_loop_find)

lemma find_positive:
  assumes "list_all (\<lambda>a. 0 < a) as" and "find P as = Some a"
  shows "0 < (a::nat)"
  using assms by (induction as) (auto split: if_splits)

text \<open>The loop over the formats appends the intersection to the pairs it started with, as
  long as the 256 slots are not exhausted, and touches nothing but the three arrays.\<close>

lemma recorded_pairs_append:
  assumes "0 \<le> clipboard_type_count x11 S"
  shows "recorded_pairs
           (x11\<lparr>clipboard_agent_types :=
                  (clipboard_agent_types x11)
                    (S := (clipboard_agent_types x11 S)
                            (nat (clipboard_type_count x11 S) := t)),
                clipboard_x11_targets :=
                  (clipboard_x11_targets x11)
                    (S := (clipboard_x11_targets x11 S)
                            (nat (clipboard_type_count x11 S) := a)),
                clipboard_type_count :=
                  (clipboard_type_count x11)(S := clipboard_type_count x11 S + 1)\<rparr>) S
         = recorded_pairs x11 S @ [(t, a)]"
  using assms by (simp add: recorded_pairs_def nat_add_distrib)

lemma targets_notify_loop_pairs:
  assumes "list_all (\<lambda>f. list_all (\<lambda>a. 0 < a) (atoms f)) fs"
    and "0 \<le> clipboard_type_count x11 S"
    and "clipboard_type_count x11 S + int (length fs) < 256"
  shows "recorded_pairs (targets_notify_loop fs announced (int (length announced)) S x11) S
           = recorded_pairs x11 S @ intersect_catalog fs announced
         \<and> clipboard_type_count (targets_notify_loop fs announced (int (length announced)) S x11) S
           = clipboard_type_count x11 S + int (length (intersect_catalog fs announced))"
  using assms
proof (induction fs arbitrary: x11)
  case Nil
  then show ?case by (simp add: intersect_catalog_def)
next
  case (Cons f fs)
  show ?case
  proof (cases "find (\<lambda>a. a \<in> set announced) (atoms f)")
    case None
    with Cons show ?thesis
      by (simp add: atom_lists_overlap_find intersect_catalog_def)
  next
    case (Some a)
    with Cons.prems have pos: "0 < a"
      by (auto intro: find_positive)
    let ?x1 = "x11\<lparr>clipboard_agent_types :=
                  (clipboard_agent_types x11)
                    (S := (clipboard_agent_types x11 S)
                            (nat (clipboard_type_count x11 S) := fmt_type f)),
                clipboard_x11_targets :=
                  (clipboard_x11_targets x11)
                    (S := (clipboard_x11_targets x11 S)
                            (nat (clipboard_type_count x11 S) := a)),
                clipboard_type_count :=
                  (clipboard_type_count x11)(S := clipboard_type_count x11 S + 1)\<rparr>"
    have step: "targets_notify_loop (f # fs) announced (int (length announced)) S x11 =
                  targets_notify_loop fs announced (int (length announced)) S ?x1"
      using Some pos Cons.prems by (simp add: atom_lists_overlap_find Let_def)
    have IH: "recorded_pairs (targets_notify_loop fs announced (int (length announced)) S ?x1) S
           = recorded_pairs ?x1 S @ intersect_catalog fs announced
         \<and> clipboard_type_count (targets_notify_loop fs announced (int (length announced)) S ?x1) S
           = clipboard_type_count ?x1 S + int (length (intersect_catalog fs announced))"
      using Cons.prems by (intro Cons.IH) auto
    have ic: "intersect_catalog (f # fs) announced = (fmt_type f, a) # intersect_catalog fs announced"
      using Some by (simp add: intersect_catalog_def)
    show ?thesis
      unfolding step ic using IH recorded_pairs_append [where ?x11.0 = x11 and S = S and t = "fmt_type f" and a = a] Cons.prems(2)
      by simp
  qed
qed

lemma targets_notify_loop_frame:
  "(targets_notify_loop fs announced len S x11)
     \<lparr>clipboard_agent_types := A, clipboard_x11_targets := B, clipboard_type_count := C\<rparr>
   = x11\<lparr>clipboard_agent_types := A, clipboard_x11_targets := B, clipboard_type_count := C\<rparr>"
proof (induction fs arbitrary: x11)
  case Nil
  then show ?case by simp
next
  case (Cons f fs)
  let ?atom = "atom_lists_overlap (atoms f) announced (atom_count f) len"
  let ?x1 = "x11\<lparr>clipboard_agent_types :=
                  (clipboard_agent_types x11)
                    (S := (clipboard_agent_types x11 S)
                            (nat (clipboard_type_count x11 S) := fmt_type f)),
                clipboard_x11_targets :=
                  (clipboard_x11_targets x11)
                    (S := (clipboard_x11_targets x11 S)
                            (nat (clipboard_type_count x11 S) := ?atom)),
                clipboard_type_count :=
                  (clipboard_type_count x11)(S := clipboard_type_count x11 S + 1)\<rparr>"
  consider (skip) "?atom = 0" | (full) "?atom \<noteq> 0" "clipboard_type_count x11 S + 1 = 256"
    | (more) "?atom \<noteq> 0" "clipboard_type_count x11 S + 1 \<noteq> 256"
    by blast
  then show ?case
  proof cases
    case skip
    then have "targets_notify_loop (f # fs) announced len S x11 =
                 targets_notify_loop fs announced len S x11"
      by simp
    then show ?thesis
      using Cons.IH [of x11] by simp
  next
    case full
    then have "targets_notify_loop (f # fs) announced len S x11 = ?x1"
      by (simp add: Let_def)
    then show ?thesis by simp
  next
    case more
    then have e: "targets_notify_loop (f # fs) announced len S x11 =
                 targets_notify_loop fs announced len S ?x1"
      by (simp add: Let_def)
    show ?thesis
      unfolding e using Cons.IH [of ?x1] by simp
  qed
qed

lemma targets_notify_loop_fields:
  "out (targets_notify_loop fs announced len S x11) = out x11"
  "selection_req (targets_notify_loop fs announced len S x11) = selection_req x11"
  "conversion_req (targets_notify_loop fs announced len S x11) = conversion_req x11"
  "clipboard_owner (targets_notify_loop fs announced len S x11) = clipboard_owner x11"
  "expected_targets_notifies (targets_notify_loop fs announced len S x11)
     = expected_targets_notifies x11"
  using targets_notify_loop_frame [where fs = fs and announced = announced and len = len
      and S = S and ?x11.0 = x11, THEN arg_cong [where f = out]]
    targets_notify_loop_frame [where fs = fs and announced = announced and len = len
      and S = S and ?x11.0 = x11, THEN arg_cong [where f = selection_req]]
    targets_notify_loop_frame [where fs = fs and announced = announced and len = len
      and S = S and ?x11.0 = x11, THEN arg_cong [where f = conversion_req]]
    targets_notify_loop_frame [where fs = fs and announced = announced and len = len
      and S = S and ?x11.0 = x11, THEN arg_cong [where f = clipboard_owner]]
    targets_notify_loop_frame [where fs = fs and announced = announced and len = len
      and S = S and ?x11.0 = x11, THEN arg_cong [where f = expected_targets_notifies]]
  by simp_all

lemma length_intersect_catalog: "length (intersect_catalog fs announced) \<le> length fs"
  by (induction fs) (auto simp: intersect_catalog_def split: option.splits)

text \<open>Reading the property of a reply that carries a non-empty list of atoms, and the
  handler on a reply that is the expected one.\<close>

lemma get_selection_targets:
  assumes "sn_property e = targets_atom x11" and "sn_requestor e = selection_window x11"
    and "targets_atom x11 \<noteq> X_None"
    and "gp_success env" and "gp_type env = XA_ATOM" and "gp_value env = Data32 announced"
    and "announced \<noteq> []" and "int (length announced) * sizeof_long < 2147483648"
  shows "vdagent_x11_get_selection x11 (SelectionNotify e) S XA_ATOM (targets_atom x11) 32 False
           env =
         Inr (emit (XGetWindowProperty (selection_window x11) (targets_atom x11) False XA_ATOM)
                x11,
              int (length announced) * sizeof_long, Some (Data32 announced))"
proof -
  have b: "byte_length 32 (nitems (Data32 announced)) = int (length announced) * sizeof_long"
    using assms by (simp add: byte_length_def nitems_def to_ulong_def sizeof_long_def)
  have p: "0 < int (length announced) * sizeof_long"
    using assms by (simp add: sizeof_long_def)
  have t: "to_int (int (length announced) * sizeof_long) = int (length announced) * sizeof_long"
    using assms p by (simp add: to_int_def)
  show ?thesis
    using assms p
    by (simp add: vdagent_x11_get_selection_def get_selection_exit_def emit_def Let_def
        format_of_def b t)
qed

lemma handle_targets_notify_honored:
  assumes sel: "vdagent_x11_get_clipboard_selection x11 (SelectionNotify e) = Some S"
    and last: "expected_targets_notifies x11 S = 1"
    and ev: "sn_property e = targets_atom x11" "sn_requestor e = selection_window x11"
      "targets_atom x11 \<noteq> X_None"
    and reply: "gp_success env" "gp_type env = XA_ATOM" "gp_value env = Data32 announced"
      "announced \<noteq> []" "int (length announced) * sizeof_long < 2147483648"
    and x3: "x3 = targets_notify_loop (clipboard_formats x11) announced (int (length announced))
                    S (targets_reply_read x11 S)"
  shows "vdagent_x11_handle_targets_notify x11 e env =
           Inr (if clipboard_type_count x3 S \<noteq> 0
                then vdagent_x11_set_clipboard_owner
                       (emit (udscs_write VDAGENTD_CLIPBOARD_GRAB (unat S) 0
                                (Types (agent_types_of x3 S))
                                (to_uint32 (clipboard_type_count x3 S * sizeof_uint32))) x3)
                       S owner_guest
                else x3)"
proof -
  let ?x1 = "x11\<lparr>expected_targets_notifies := (expected_targets_notifies x11)(S := 0)\<rparr>"
  have "vdagent_x11_get_selection ?x1 (SelectionNotify e) S XA_ATOM (targets_atom ?x1) 32
             False env =
           Inr (emit (XGetWindowProperty (selection_window ?x1) (targets_atom ?x1) False XA_ATOM)
                  ?x1,
                int (length announced) * sizeof_long, Some (Data32 announced))"
    using ev reply by (intro get_selection_targets) simp_all
  then have g: "vdagent_x11_get_selection ?x1 (SelectionNotify e) S XA_ATOM (targets_atom x11) 32
             False env =
           Inr (x11\<lparr>expected_targets_notifies := (expected_targets_notifies x11)(S := 0),
                    out := out x11 @ [XGetWindowProperty (selection_window x11)
                                        (targets_atom x11) False XA_ATOM]\<rparr>,
                int (length announced) * sizeof_long, Some (Data32 announced))"
    by (simp add: emit_def)
  have p: "0 < int (length announced) * 8"
    using reply by simp
  have l: "to_int (to_ulong (int (length announced) * 8) div 8) = int (length announced)"
    using reply p by (simp add: to_int_def to_ulong_def sizeof_long_def)
  have m1: "int (length announced) * 8 \<noteq> - 1"
    using p by linarith
  show ?thesis
    using reply(4) m1
    by (simp add: vdagent_x11_handle_targets_notify_def sel last Let_def
        g [unfolded sizeof_long_def] l atoms_of_def x3 targets_reply_read_def sizeof_long_def)
qed

lemma recorded_pairs_set_owner:
  "new_owner \<noteq> owner_none \<Longrightarrow>
   recorded_pairs (vdagent_x11_set_clipboard_owner x11 S new_owner) S' = recorded_pairs x11 S'"
  by (simp add: set_clipboard_owner_eq recorded_pairs_def)

lemma recorded_pairs_out: "recorded_pairs (x11\<lparr>out := v\<rparr>) S = recorded_pairs x11 S"
  by (simp add: recorded_pairs_def)

lemma agent_types_of_recorded: "agent_types_of x11 S = map fst (recorded_pairs x11 S)"
  by (simp add: agent_types_of_def recorded_pairs_def comp_def)

lemma valid_formats_loop:
  assumes "valid_formats fs"
  shows "list_all (\<lambda>f. list_all (\<lambda>a. 0 < a) (atoms f)) fs" and "int (length fs) < 256"
  using assms
  by (auto simp: valid_formats_def list_all_iff clipboard_format_count_def
      clipboard_format_templates_def)

lemma targets_reply_loop:
  assumes fmts: "valid_formats (clipboard_formats x11)"
    and x3: "x3 = targets_notify_loop (clipboard_formats x11) announced (int (length announced))
                    S (targets_reply_read x11 S)"
  shows "recorded_pairs x3 S = intersect_catalog (clipboard_formats x11) announced"
    and "clipboard_type_count x3 S
           = int (length (intersect_catalog (clipboard_formats x11) announced))"
    and "out x3 = out x11 @ [XGetWindowProperty (selection_window x11) (targets_atom x11) False
                               XA_ATOM]"
    and "selection_req x3 = selection_req x11"
    and "conversion_req x3 = conversion_req x11"
    and "clipboard_owner x3 = clipboard_owner x11"
proof -
  have c0: "clipboard_type_count (targets_reply_read x11 S) S = 0"
    and r0: "recorded_pairs (targets_reply_read x11 S) S = []"
    by (simp_all add: targets_reply_read_def recorded_pairs_def)
  from targets_notify_loop_pairs
         [OF valid_formats_loop(1) [OF fmts], of "targets_reply_read x11 S" S announced]
       valid_formats_loop(2) [OF fmts]
  show "recorded_pairs x3 S = intersect_catalog (clipboard_formats x11) announced"
    and "clipboard_type_count x3 S
           = int (length (intersect_catalog (clipboard_formats x11) announced))"
    by (simp_all add: c0 r0 x3)
  show "out x3 = out x11 @ [XGetWindowProperty (selection_window x11) (targets_atom x11) False
                               XA_ATOM]"
    and "selection_req x3 = selection_req x11"
    and "conversion_req x3 = conversion_req x11"
    and "clipboard_owner x3 = clipboard_owner x11"
    by (simp_all add: x3 targets_notify_loop_fields targets_reply_read_def)
qed

lemma targets_reply_loop_counter:
  assumes "x3 = targets_notify_loop (clipboard_formats x11) announced (int (length announced))
                  S (targets_reply_read x11 S)"
  shows "expected_targets_notifies x3 S = 0"
  by (simp add: assms targets_notify_loop_fields targets_reply_read_def)

lemma example_expecting_facts:
  "vdagent_x11_get_clipboard_selection example_expecting (SelectionNotify example_owner_reply)
     = Some 0"
  "expected_targets_notifies example_expecting 0 = 1"
  "sn_property example_owner_reply = targets_atom example_expecting"
  "sn_requestor example_owner_reply = selection_window example_expecting"
  "targets_atom example_expecting \<noteq> X_None"
  "gp_success example_targets_env"
  "gp_type example_targets_env = XA_ATOM"
  "gp_value example_targets_env = Data32 [201, 206, 205, 207, 999]"
  "[201, 206, 205, 207, 999] \<noteq> ([] :: nat list)"
  "int (length [201, 206, 205, 207, 999 :: nat]) * sizeof_long < 2147483648"
  "valid_formats (clipboard_formats example_expecting)"
  by (simp_all add: vdagent_x11_get_clipboard_selection_def example_expecting_def example_x11_def
      example_owner_reply_def example_targets_env_def X_None_def XA_ATOM_def sizeof_long_def
      VD_AGENT_CLIPBOARD_SELECTION_CLIPBOARD_def valid_example_formats)

lemma example_intersection:
  "intersect_catalog (clipboard_formats example_expecting) [201, 206, 205, 207, 999]
     = [(1, 205), (2, 207)]"
  by (simp add: intersect_catalog_def example_expecting_def example_x11_def example_formats_def)

text \<open>
  C6. Targets phase. Let a \<^verbatim>\<open>SelectionNotify\<close> for \<^verbatim>\<open>TARGETS\<close> of selection \<open>S\<close> be
  honored: it is the one reply still expected, it names the \<^verbatim>\<open>TARGETS\<close> property of the
  selection window, and the property holds a non-empty list of atoms (of a byte length that
  fits an \<^verbatim>\<open>int\<close>). Then the handler returns, and the (type, atom) pairs recorded for \<open>S\<close>
  are the intersection of the announced list with the catalog, in the order of the format
  table with the first announced atom of each format. If the intersection is empty, nothing
  but the read of the property happens: no grab, no release, the owner is unchanged. If it
  is not empty, one \<^verbatim>\<open>CLIPBOARD_GRAB\<close> carrying exactly the matched types is sent to the
  daemon (followed by the replies to the requests queued for \<open>S\<close>), and the owner of \<open>S\<close>
  becomes the guest.
\<close>

theorem targets_reply_recorded_and_grabbed:
  assumes sel: "vdagent_x11_get_clipboard_selection x11 (SelectionNotify e) = Some S"
    and last: "expected_targets_notifies x11 S = 1"
    and ev: "sn_property e = targets_atom x11" "sn_requestor e = selection_window x11"
      "targets_atom x11 \<noteq> X_None"
    and reply: "gp_success env" "gp_type env = XA_ATOM" "gp_value env = Data32 announced"
      "announced \<noteq> []" "int (length announced) * sizeof_long < 2147483648"
    and fmts: "valid_formats (clipboard_formats x11)"
  shows "case vdagent_x11_handle_targets_notify x11 e env of
           Inl err \<Rightarrow> False
         | Inr y \<Rightarrow>
             recorded_pairs y S = intersect_catalog (clipboard_formats x11) announced
             \<and> (if intersect_catalog (clipboard_formats x11) announced = []
                then out y = out x11 @ [XGetWindowProperty (selection_window x11)
                                          (targets_atom x11) False XA_ATOM]
                     \<and> clipboard_owner y = clipboard_owner x11
                else out y = out x11
                       @ [XGetWindowProperty (selection_window x11) (targets_atom x11) False
                            XA_ATOM,
                          udscs_write VDAGENTD_CLIPBOARD_GRAB (unat S) 0
                            (Types (map fst (intersect_catalog (clipboard_formats x11)
                                               announced)))
                            (int (length (intersect_catalog (clipboard_formats x11) announced))
                             * sizeof_uint32)]
                       @ refusals S (selection_req x11) @ none_replies S (conversion_req x11)
                     \<and> clipboard_owner y = (clipboard_owner x11)(S := owner_guest))"
proof -
  define x3 where "x3 = targets_notify_loop (clipboard_formats x11) announced
                          (int (length announced)) S (targets_reply_read x11 S)"
  let ?m = "intersect_catalog (clipboard_formats x11) announced"
  note loop = targets_reply_loop [OF fmts x3_def]
  note res = handle_targets_notify_honored [OF sel last ev reply x3_def]
  have small: "to_uint32 (int (length ?m) * sizeof_uint32) = int (length ?m) * sizeof_uint32"
    using length_intersect_catalog [of "clipboard_formats x11" announced]
      valid_formats_loop(2) [OF fmts]
    by (intro to_uint32_small) (auto simp: sizeof_uint32_def)
  show ?thesis
  proof (cases "?m = []")
    case True
    then show ?thesis
      by (simp add: res loop)
  next
    case False
    then show ?thesis
      by (simp add: res loop recorded_pairs_set_owner agent_types_of_recorded small)
         (simp add: set_clipboard_owner_eq emit_def loop recorded_pairs_out)
  qed
qed

theorem targets_reply_recorded_and_grabbed_witness:
  "expected_targets_notifies example_expecting 0 = 1
   \<and> gp_value example_targets_env = Data32 [201, 206, 205, 207, 999]
   \<and> (case vdagent_x11_handle_targets_notify example_expecting example_owner_reply
              example_targets_env of
         Inl err \<Rightarrow> False
       | Inr y \<Rightarrow>
           recorded_pairs y 0 = [(1, 205), (2, 207)]
           \<and> out y = [XGetWindowProperty 11 201 False 4,
                      udscs_write VDAGENTD_CLIPBOARD_GRAB 0 0 (Types [1, 2]) 8,
                      udscs_write VDAGENTD_CLIPBOARD_DATA 0 0 No_data 0]
           \<and> clipboard_owner y 0 = owner_guest)"
proof -
  have o: "out example_expecting = []" "selection_window example_expecting = 11"
    "targets_atom example_expecting = 201" "selection_req example_expecting = []"
    "conversion_req example_expecting = [\<lparr>conv_target = 204, conv_selection = 0\<rparr>]"
    by (simp_all add: example_expecting_def example_x11_def)
  show ?thesis
    using targets_reply_recorded_and_grabbed [OF example_expecting_facts]
    by (simp add: example_expecting_facts(2,8) example_intersection o XA_ATOM_def
        sizeof_uint32_def refusals_def none_replies_def VD_AGENT_CLIPBOARD_NONE_def
        split: sum.splits)
qed

subsection \<open>Every change of owner flushes the queues\<close>

lemma flush_requests_eq:
  "flush_requests S x11 =
     x11\<lparr>selection_req := filter (\<lambda>r. sel_selection r \<noteq> S) (selection_req x11),
         selection_req_data :=
           (if head_for S (map sel_selection (selection_req x11)) then None
            else selection_req_data x11),
         selection_req_data_pos :=
           (if head_for S (map sel_selection (selection_req x11)) then 0
            else selection_req_data_pos x11),
         selection_req_data_size :=
           (if head_for S (map sel_selection (selection_req x11)) then 0
            else selection_req_data_size x11),
         selection_req_atom :=
           (if head_for S (map sel_selection (selection_req x11)) then X_None
            else selection_req_atom x11),
         conversion_req := filter (\<lambda>r. conv_selection r \<noteq> S) (conversion_req x11),
         expect_property_notify :=
           (if head_for S (map conv_selection (conversion_req x11)) then False
            else expect_property_notify x11),
         clipboard_data_size :=
           (if head_for S (map conv_selection (conversion_req x11)) then 0
            else clipboard_data_size x11),
         out := out x11 @ refusals S (selection_req x11) @ none_replies S (conversion_req x11)\<rparr>"
  by (simp add: flush_requests_def clear_selection_requests_eq clear_conversion_requests_eq
      Let_def)

lemma set_clipboard_owner_after_flush:
  assumes "new_owner \<noteq> owner_none"
  shows "vdagent_x11_set_clipboard_owner x11 S new_owner =
           (flush_requests S x11)\<lparr>clipboard_owner := (clipboard_owner x11)(S := new_owner)\<rparr>"
  using assms by (simp add: set_clipboard_owner_eq flush_requests_eq)

text \<open>
  C9. Setting the owner of selection \<open>S\<close> flushes the queues of \<open>S\<close> on every call, whoever
  the previous owner was (no hypothesis is made on \<^verbatim>\<open>clipboard_owner\<close>). A
  \<^verbatim>\<open>CLIPBOARD_GRAB\<close> of the daemon for a supported selection: after the types are stored
  and the selection is taken, every queued selection request for \<open>S\<close> is refused with a
  \<^verbatim>\<open>SelectionNotify\<close> of property \<^verbatim>\<open>None\<close>, every queued conversion request for \<open>S\<close> is
  answered with \<^verbatim>\<open>CLIPBOARD_DATA(S, NONE)\<close>, both leave their queue, the owner is still the
  previous one, and only then is it set to the client. A targets reply that is honored and
  matches a format: after the grab is sent, the same refusals and replies are sent, the
  requests for \<open>S\<close> leave the queues, and the owner is the guest.
\<close>

theorem owner_change_flushes_on_every_call:
  "(vdagent_x11_get_clipboard_atom x11 S = Some clip
      \<longrightarrow> vdagent_x11_clipboard_grab x11 S types =
            (flush_requests S (grab_recorded x11 S types clip))
              \<lparr>clipboard_owner := (clipboard_owner x11)(S := owner_client)\<rparr>
          \<and> out (flush_requests S (grab_recorded x11 S types clip)) =
              out x11 @ [XSetSelectionOwner clip (selection_window x11)]
              @ refusals S (selection_req x11) @ none_replies S (conversion_req x11)
          \<and> selection_req (flush_requests S (grab_recorded x11 S types clip)) =
              filter (\<lambda>r. sel_selection r \<noteq> S) (selection_req x11)
          \<and> conversion_req (flush_requests S (grab_recorded x11 S types clip)) =
              filter (\<lambda>r. conv_selection r \<noteq> S) (conversion_req x11)
          \<and> clipboard_owner (flush_requests S (grab_recorded x11 S types clip)) =
              clipboard_owner x11)
   \<and> (vdagent_x11_get_clipboard_selection x11 (SelectionNotify e) = Some S
      \<and> expected_targets_notifies x11 S = 1
      \<and> sn_property e = targets_atom x11 \<and> sn_requestor e = selection_window x11
      \<and> targets_atom x11 \<noteq> X_None
      \<and> gp_success env \<and> gp_type env = XA_ATOM \<and> gp_value env = Data32 announced
      \<and> announced \<noteq> [] \<and> int (length announced) * sizeof_long < 2147483648
      \<and> valid_formats (clipboard_formats x11)
      \<and> intersect_catalog (clipboard_formats x11) announced \<noteq> []
      \<longrightarrow> (case vdagent_x11_handle_targets_notify x11 e env of
             Inl err \<Rightarrow> False
           | Inr y \<Rightarrow>
               out y = out x11
                 @ [XGetWindowProperty (selection_window x11) (targets_atom x11) False XA_ATOM,
                    udscs_write VDAGENTD_CLIPBOARD_GRAB (unat S) 0
                      (Types (map fst (intersect_catalog (clipboard_formats x11) announced)))
                      (int (length (intersect_catalog (clipboard_formats x11) announced))
                       * sizeof_uint32)]
                 @ refusals S (selection_req x11) @ none_replies S (conversion_req x11)
               \<and> selection_req y = filter (\<lambda>r. sel_selection r \<noteq> S) (selection_req x11)
               \<and> conversion_req y = filter (\<lambda>r. conv_selection r \<noteq> S) (conversion_req x11)
               \<and> clipboard_owner y = (clipboard_owner x11)(S := owner_guest)))"
proof (intro conjI impI)
  assume a: "vdagent_x11_get_clipboard_atom x11 S = Some clip"
  have "vdagent_x11_clipboard_grab x11 S types =
          vdagent_x11_set_clipboard_owner (grab_recorded x11 S types clip) S owner_client"
    by (simp add: vdagent_x11_clipboard_grab_def a Let_def emit_def grab_recorded_def)
  then show "vdagent_x11_clipboard_grab x11 S types =
            (flush_requests S (grab_recorded x11 S types clip))
              \<lparr>clipboard_owner := (clipboard_owner x11)(S := owner_client)\<rparr>"
    by (simp add: set_clipboard_owner_after_flush) (simp add: grab_recorded_def)
  show "out (flush_requests S (grab_recorded x11 S types clip)) =
              out x11 @ [XSetSelectionOwner clip (selection_window x11)]
              @ refusals S (selection_req x11) @ none_replies S (conversion_req x11)"
    and "selection_req (flush_requests S (grab_recorded x11 S types clip)) =
              filter (\<lambda>r. sel_selection r \<noteq> S) (selection_req x11)"
    and "conversion_req (flush_requests S (grab_recorded x11 S types clip)) =
              filter (\<lambda>r. conv_selection r \<noteq> S) (conversion_req x11)"
    and "clipboard_owner (flush_requests S (grab_recorded x11 S types clip)) =
              clipboard_owner x11"
    by (simp_all add: flush_requests_eq grab_recorded_def)
next
  assume h: "vdagent_x11_get_clipboard_selection x11 (SelectionNotify e) = Some S
      \<and> expected_targets_notifies x11 S = 1
      \<and> sn_property e = targets_atom x11 \<and> sn_requestor e = selection_window x11
      \<and> targets_atom x11 \<noteq> X_None
      \<and> gp_success env \<and> gp_type env = XA_ATOM \<and> gp_value env = Data32 announced
      \<and> announced \<noteq> [] \<and> int (length announced) * sizeof_long < 2147483648
      \<and> valid_formats (clipboard_formats x11)
      \<and> intersect_catalog (clipboard_formats x11) announced \<noteq> []"
  define x3 where "x3 = targets_notify_loop (clipboard_formats x11) announced
                          (int (length announced)) S (targets_reply_read x11 S)"
  let ?m = "intersect_catalog (clipboard_formats x11) announced"
  from h have fmts: "valid_formats (clipboard_formats x11)" and ne: "?m \<noteq> []"
    by simp_all
  note loop = targets_reply_loop [OF fmts x3_def]
  have res: "vdagent_x11_handle_targets_notify x11 e env =
           Inr (if clipboard_type_count x3 S \<noteq> 0
                then vdagent_x11_set_clipboard_owner
                       (emit (udscs_write VDAGENTD_CLIPBOARD_GRAB (unat S) 0
                                (Types (agent_types_of x3 S))
                                (to_uint32 (clipboard_type_count x3 S * sizeof_uint32))) x3)
                       S owner_guest
                else x3)"
  proof (rule handle_targets_notify_honored [OF _ _ _ _ _ _ _ _ _ _ x3_def])
    from h show "vdagent_x11_get_clipboard_selection x11 (SelectionNotify e) = Some S"
      and "expected_targets_notifies x11 S = 1"
      and "sn_property e = targets_atom x11" and "sn_requestor e = selection_window x11"
      and "targets_atom x11 \<noteq> X_None"
      and "gp_success env" and "gp_type env = XA_ATOM" and "gp_value env = Data32 announced"
      and "announced \<noteq> []" and "int (length announced) * sizeof_long < 2147483648"
      by blast+
  qed
  have small: "to_uint32 (int (length ?m) * sizeof_uint32) = int (length ?m) * sizeof_uint32"
    using length_intersect_catalog [of "clipboard_formats x11" announced]
      valid_formats_loop(2) [OF fmts]
    by (intro to_uint32_small) (auto simp: sizeof_uint32_def)
  show "case vdagent_x11_handle_targets_notify x11 e env of
             Inl err \<Rightarrow> False
           | Inr y \<Rightarrow>
               out y = out x11
                 @ [XGetWindowProperty (selection_window x11) (targets_atom x11) False XA_ATOM,
                    udscs_write VDAGENTD_CLIPBOARD_GRAB (unat S) 0
                      (Types (map fst (intersect_catalog (clipboard_formats x11) announced)))
                      (int (length (intersect_catalog (clipboard_formats x11) announced))
                       * sizeof_uint32)]
                 @ refusals S (selection_req x11) @ none_replies S (conversion_req x11)
               \<and> selection_req y = filter (\<lambda>r. sel_selection r \<noteq> S) (selection_req x11)
               \<and> conversion_req y = filter (\<lambda>r. conv_selection r \<noteq> S) (conversion_req x11)
               \<and> clipboard_owner y = (clipboard_owner x11)(S := owner_guest)"
    using ne
    by (simp add: res loop agent_types_of_recorded small)
       (simp add: set_clipboard_owner_eq emit_def loop)
qed

theorem owner_change_flushes_on_every_call_witness:
  "vdagent_x11_get_clipboard_atom example_client_waiting 0 = Some 200
   \<and> clipboard_owner example_client_waiting 0 = owner_client
   \<and> out (vdagent_x11_clipboard_grab example_client_waiting 0 [VD_AGENT_CLIPBOARD_UTF8_TEXT]) =
       [udscs_write VDAGENTD_CLIPBOARD_REQUEST 0 1 No_data 0,
        XSetSelectionOwner 200 11,
        XSendEvent 77 \<lparr>sn_requestor = 77, sn_selection = 200, sn_target = 204,
                       sn_property = 0, sn_time = 9\<rparr>]
   \<and> selection_req (vdagent_x11_clipboard_grab example_client_waiting 0
                       [VD_AGENT_CLIPBOARD_UTF8_TEXT]) = []
   \<and> clipboard_owner (vdagent_x11_clipboard_grab example_client_waiting 0
                         [VD_AGENT_CLIPBOARD_UTF8_TEXT]) 0 = owner_client
   \<and> conversion_req example_expecting = [\<lparr>conv_target = 204, conv_selection = 0\<rparr>]
   \<and> (case vdagent_x11_handle_targets_notify example_expecting example_owner_reply
              example_targets_env of
         Inl err \<Rightarrow> False
       | Inr y \<Rightarrow>
           out y = [XGetWindowProperty 11 201 False 4,
                    udscs_write VDAGENTD_CLIPBOARD_GRAB 0 0 (Types [1, 2]) 8,
                    udscs_write VDAGENTD_CLIPBOARD_DATA 0 0 No_data 0]
           \<and> conversion_req y = []
           \<and> clipboard_owner y 0 = owner_guest)"
proof -
  have a: "vdagent_x11_get_clipboard_atom example_client_waiting 0 = Some 200"
    and b: "clipboard_owner example_client_waiting 0 = owner_client"
    and c: "selection_window example_client_waiting = 11"
      "conversion_req example_client_waiting = []"
    by (simp_all add: vdagent_x11_get_clipboard_atom_def example_client_waiting_def
        example_x11_def VD_AGENT_CLIPBOARD_SELECTION_CLIPBOARD_def)
  from owner_change_flushes_on_every_call
         [of example_client_waiting 0 200 "[VD_AGENT_CLIPBOARD_UTF8_TEXT]"] a
  have g: "vdagent_x11_clipboard_grab example_client_waiting 0 [VD_AGENT_CLIPBOARD_UTF8_TEXT] =
            (flush_requests 0 (grab_recorded example_client_waiting 0
                                 [VD_AGENT_CLIPBOARD_UTF8_TEXT] 200))
              \<lparr>clipboard_owner := (clipboard_owner example_client_waiting)(0 := owner_client)\<rparr>"
    and o: "out (flush_requests 0 (grab_recorded example_client_waiting 0
                                     [VD_AGENT_CLIPBOARD_UTF8_TEXT] 200)) =
              out example_client_waiting
              @ [XSetSelectionOwner 200 (selection_window example_client_waiting)]
              @ refusals 0 (selection_req example_client_waiting)
              @ none_replies 0 (conversion_req example_client_waiting)"
    and q: "selection_req (flush_requests 0 (grab_recorded example_client_waiting 0
                                     [VD_AGENT_CLIPBOARD_UTF8_TEXT] 200)) =
              filter (\<lambda>r. sel_selection r \<noteq> 0) (selection_req example_client_waiting)"
    by blast+
  have d: "out example_expecting = []" "selection_window example_expecting = 11"
    "targets_atom example_expecting = 201" "selection_req example_expecting = []"
    "conversion_req example_expecting = [\<lparr>conv_target = 204, conv_selection = 0\<rparr>]"
    by (simp_all add: example_expecting_def example_x11_def)
  from owner_change_flushes_on_every_call
         [where ?x11.0 = example_expecting and S = 0 and e = example_owner_reply
            and env = example_targets_env and announced = "[201, 206, 205, 207, 999]",
          THEN conjunct2]
       example_expecting_facts
  have t: "case vdagent_x11_handle_targets_notify example_expecting example_owner_reply
              example_targets_env of
         Inl err \<Rightarrow> False
       | Inr y \<Rightarrow>
           out y = [XGetWindowProperty 11 201 False 4,
                    udscs_write VDAGENTD_CLIPBOARD_GRAB 0 0 (Types [1, 2]) 8,
                    udscs_write VDAGENTD_CLIPBOARD_DATA 0 0 No_data 0]
           \<and> conversion_req y = []
           \<and> clipboard_owner y 0 = owner_guest"
    by (simp add: example_intersection d XA_ATOM_def sizeof_uint32_def refusals_def
        none_replies_def VD_AGENT_CLIPBOARD_NONE_def split: sum.splits)
  show ?thesis
    unfolding g using o q t
    by (simp add: a b c d example_waiting_facts refusals_def none_replies_def
        example_request_def X_None_def)
qed

subsection \<open>Stale replies to the targets conversions\<close>

text \<open>A reply that is not the last one expected only decrements the counter.\<close>

lemma stale_targets_reply:
  assumes "is_targets_reply x11 S event" and "1 < expected_targets_notifies x11 S"
  shows "vdagent_x11_handle_event x11 event env =
           Inr (x11\<lparr>expected_targets_notifies :=
                      (expected_targets_notifies x11)
                        (S := expected_targets_notifies x11 S - 1)\<rparr>)"
  using assms
  by (auto simp: is_targets_reply_def vdagent_x11_handle_event_def
      vdagent_x11_handle_targets_notify_def Let_def split: XEvent.splits)

lemma get_clipboard_selection_counter:
  "vdagent_x11_get_clipboard_selection (x11\<lparr>expected_targets_notifies := c\<rparr>) event =
     vdagent_x11_get_clipboard_selection x11 event"
  by (cases event) (simp_all add: vdagent_x11_get_clipboard_selection_def)

lemma is_targets_reply_counter:
  "is_targets_reply (x11\<lparr>expected_targets_notifies := c\<rparr>) S event = is_targets_reply x11 S event"
  by (simp add: is_targets_reply_def vdagent_x11_get_clipboard_selection_def
      split: XEvent.splits)

lemma stale_targets_replies:
  assumes "list_all (\<lambda>r. is_targets_reply x11 S (fst r)) stale"
    and "expected_targets_notifies x11 S = int (length stale) + 1"
  shows "vdagent_x11_do_read x11 stale =
           Inr (x11\<lparr>expected_targets_notifies := (expected_targets_notifies x11)(S := 1)\<rparr>)"
  using assms
proof (induction stale arbitrary: x11)
  case Nil
  then have "(expected_targets_notifies x11)(S := 1) = expected_targets_notifies x11"
    by (simp add: fun_upd_idem_iff)
  then show ?case by simp
next
  case (Cons r stale)
  obtain event env where r: "r = (event, env)" by (cases r)
  let ?x1 = "x11\<lparr>expected_targets_notifies :=
                  (expected_targets_notifies x11)(S := expected_targets_notifies x11 S - 1)\<rparr>"
  have step: "vdagent_x11_handle_event x11 event env = Inr ?x1"
    using Cons.prems r by (intro stale_targets_reply) auto
  have "vdagent_x11_do_read ?x1 stale =
          Inr (?x1\<lparr>expected_targets_notifies := (expected_targets_notifies ?x1)(S := 1)\<rparr>)"
    using Cons.prems by (intro Cons.IH) (auto simp: is_targets_reply_counter)
  also have "?x1\<lparr>expected_targets_notifies := (expected_targets_notifies ?x1)(S := 1)\<rparr>
             = x11\<lparr>expected_targets_notifies := (expected_targets_notifies x11)(S := 1)\<rparr>"
    by simp
  finally show ?case
    by (simp only: r vdagent_x11_do_read.simps step sum.case)
qed

lemma stale_then_honored:
  assumes stale: "list_all (\<lambda>r. is_targets_reply x11 S (fst r)) stale"
    and counter: "expected_targets_notifies x11 S = int (length stale) + 1"
    and sel: "vdagent_x11_get_clipboard_selection x11 (SelectionNotify e) = Some S"
    and ev: "sn_target e = targets_atom x11" "sn_property e = targets_atom x11"
      "sn_requestor e = selection_window x11" "targets_atom x11 \<noteq> X_None"
    and reply: "gp_success env" "gp_type env = XA_ATOM" "gp_value env = Data32 announced"
      "announced \<noteq> []" "int (length announced) * sizeof_long < 2147483648"
    and fmts: "valid_formats (clipboard_formats x11)"
  shows "vdagent_x11_do_read x11 stale =
           Inr (x11\<lparr>expected_targets_notifies := (expected_targets_notifies x11)(S := 1)\<rparr>)
         \<and> (case vdagent_x11_do_read x11 (stale @ [(SelectionNotify e, env)]) of
              Inl err \<Rightarrow> False
            | Inr y \<Rightarrow>
                expected_targets_notifies y S = 0
                \<and> take (Suc (length (out x11))) (out y) =
                    out x11 @ [XGetWindowProperty (selection_window x11) (targets_atom x11) False
                                 XA_ATOM]
                \<and> recorded_pairs y S = intersect_catalog (clipboard_formats x11) announced)"
proof -
  let ?x1 = "x11\<lparr>expected_targets_notifies := (expected_targets_notifies x11)(S := 1)\<rparr>"
  let ?m = "intersect_catalog (clipboard_formats x11) announced"
  have dropped: "vdagent_x11_do_read x11 stale = Inr ?x1"
    using stale counter by (rule stale_targets_replies)
  define x3 where "x3 = targets_notify_loop (clipboard_formats ?x1) announced
                          (int (length announced)) S (targets_reply_read ?x1 S)"
  have fmts1: "valid_formats (clipboard_formats ?x1)"
    using fmts by simp
  note loop = targets_reply_loop [OF fmts1 x3_def] targets_reply_loop_counter [OF x3_def]
  have sel1: "vdagent_x11_get_clipboard_selection ?x1 (SelectionNotify e) = Some S"
    using sel by (simp only: get_clipboard_selection_counter)
  have res: "vdagent_x11_handle_targets_notify ?x1 e env =
           Inr (if clipboard_type_count x3 S \<noteq> 0
                then vdagent_x11_set_clipboard_owner
                       (emit (udscs_write VDAGENTD_CLIPBOARD_GRAB (unat S) 0
                                (Types (agent_types_of x3 S))
                                (to_uint32 (clipboard_type_count x3 S * sizeof_uint32))) x3)
                       S owner_guest
                else x3)"
    using ev reply by (intro handle_targets_notify_honored [OF sel1 _ _ _ _ _ _ _ _ _ x3_def])
      simp_all
  have last: "vdagent_x11_do_read x11 (stale @ [(SelectionNotify e, env)]) =
                vdagent_x11_handle_targets_notify ?x1 e env"
    using ev(1) by (simp add: do_read_append dropped vdagent_x11_handle_event_def
        split: sum.splits)
  have honored: "case vdagent_x11_handle_targets_notify ?x1 e env of
              Inl err \<Rightarrow> False
            | Inr y \<Rightarrow>
                expected_targets_notifies y S = 0
                \<and> take (Suc (length (out x11))) (out y) =
                    out x11 @ [XGetWindowProperty (selection_window x11) (targets_atom x11) False
                                 XA_ATOM]
                \<and> recorded_pairs y S = ?m"
  proof (cases "?m = []")
    case True
    then show ?thesis
      using loop by (simp add: res)
  next
    case False
    then show ?thesis
      using loop
      by (simp add: res recorded_pairs_set_owner)
         (simp add: set_clipboard_owner_eq emit_def recorded_pairs_out)
  qed
  show ?thesis
    unfolding last using dropped honored by simp
qed

text \<open>Every notification of a foreign owner lets the bridge expect one more reply.\<close>

lemma same_atoms_selection:
  "same_atoms x y \<Longrightarrow>
   vdagent_x11_get_clipboard_selection y event = vdagent_x11_get_clipboard_selection x event"
  by (cases event) (simp_all add: vdagent_x11_get_clipboard_selection_def same_atoms_def)

lemma same_atoms_owner_change:
  "same_atoms x y \<Longrightarrow> is_owner_change y S event = is_owner_change x S event"
  by (cases event) (simp_all add: is_owner_change_def same_atoms_selection, simp add: same_atoms_def)

lemma same_atoms_targets_reply:
  "same_atoms x y \<Longrightarrow> is_targets_reply y S event = is_targets_reply x S event"
  by (cases event) (simp_all add: is_targets_reply_def same_atoms_selection, simp add: same_atoms_def)

lemma owner_change_step:
  assumes "is_owner_change x11 S event" and "expected_targets_notifies x11 S < 2147483647"
  shows "\<exists>y. vdagent_x11_handle_event x11 event env = Inr y
              \<and> expected_targets_notifies y S = expected_targets_notifies x11 S + 1
              \<and> same_atoms x11 y"
  using assms
  by (cases event)
     (simp_all add: is_owner_change_def vdagent_x11_handle_event_def Let_def
        set_clipboard_owner_eq emit_def same_atoms_def)

lemma owner_changes_counted:
  assumes "list_all (\<lambda>r. is_owner_change x11 S (fst r)) changes"
    and "expected_targets_notifies x11 S + int (length changes) \<le> 2147483647"
  shows "\<exists>y. vdagent_x11_do_read x11 changes = Inr y
              \<and> expected_targets_notifies y S =
                  expected_targets_notifies x11 S + int (length changes)
              \<and> same_atoms x11 y"
  using assms
proof (induction changes arbitrary: x11)
  case Nil
  then show ?case by (simp add: same_atoms_def)
next
  case (Cons r changes)
  obtain event env where r: "r = (event, env)" by (cases r)
  from Cons.prems r obtain x1 where
    step: "vdagent_x11_handle_event x11 event env = Inr x1"
    and c1: "expected_targets_notifies x1 S = expected_targets_notifies x11 S + 1"
    and s1: "same_atoms x11 x1"
    using owner_change_step [of x11 S event env] by auto
  have "\<exists>y. vdagent_x11_do_read x1 changes = Inr y
              \<and> expected_targets_notifies y S =
                  expected_targets_notifies x1 S + int (length changes)
              \<and> same_atoms x1 y"
    using Cons.prems c1 by (intro Cons.IH) (auto simp: same_atoms_owner_change [OF s1])
  then obtain y where "vdagent_x11_do_read x1 changes = Inr y"
    and "expected_targets_notifies y S = expected_targets_notifies x1 S + int (length changes)"
    and "same_atoms x1 y"
    by blast
  with step c1 s1 show ?case
    by (simp add: r same_atoms_def)
qed

lemma example_staleness_facts:
  "expected_targets_notifies example_x11 0 = 0"
  "list_all (\<lambda>r. is_owner_change example_x11 0 (fst r))
     [(XFixesEvent example_owner_change, example_env),
      (XFixesEvent example_owner_change, example_env),
      (XFixesEvent example_owner_change, example_env)]"
  "length [(XFixesEvent example_owner_change, example_env),
           (XFixesEvent example_owner_change, example_env),
           (XFixesEvent example_owner_change, example_env)] =
     Suc (length [(SelectionNotify example_owner_reply, example_env),
                  (SelectionNotify example_owner_reply, example_env)])"
  "int (length [(XFixesEvent example_owner_change, example_env),
                (XFixesEvent example_owner_change, example_env),
                (XFixesEvent example_owner_change, example_env)]) \<le> 2147483647"
  "list_all (\<lambda>r. is_targets_reply example_x11 0 (fst r))
     [(SelectionNotify example_owner_reply, example_env),
      (SelectionNotify example_owner_reply, example_env)]"
  "vdagent_x11_get_clipboard_selection example_x11 (SelectionNotify example_owner_reply)
     = Some 0"
  "sn_target example_owner_reply = targets_atom example_x11"
  "sn_property example_owner_reply = targets_atom example_x11"
  "sn_requestor example_owner_reply = selection_window example_x11"
  "targets_atom example_x11 \<noteq> X_None"
  "valid_formats (clipboard_formats example_x11)"
  by (simp_all add: is_targets_reply_def is_owner_change_def valid_example_formats
      vdagent_x11_get_clipboard_selection_def example_x11_def example_owner_change_def
      example_owner_reply_def X_None_def XFixesSetSelectionOwnerNotify_def
      VD_AGENT_CLIPBOARD_SELECTION_CLIPBOARD_def)

text \<open>
  C7. Targets-notify staleness. Let the counter of selection \<open>S\<close> be 0 and let \<open>N\<close>
  notifications of a foreign owner of \<open>S\<close> be handled before any reply arrives. Then the
  counter is \<open>N\<close>. The first \<open>N - 1\<close> \<^verbatim>\<open>SelectionNotify\<close> events for \<^verbatim>\<open>TARGETS\<close> of \<open>S\<close>,
  whatever they carry, only bring the counter down to 1: the property is not read, the
  catalog and every other field stay as they were. The \<open>N\<close>-th reply, when it names the
  \<^verbatim>\<open>TARGETS\<close> property of the selection window and the property holds a non-empty list of
  atoms, is the one that is read: the counter becomes 0, the first thing the bridge does is
  to read the property, and the pairs recorded for \<open>S\<close> become the intersection of the
  announced list with the catalog.
\<close>

theorem targets_notify_staleness:
  assumes start: "expected_targets_notifies x11 S = 0"
    and changes: "list_all (\<lambda>r. is_owner_change x11 S (fst r)) changes"
      "length changes = Suc (length stale)" "int (length changes) \<le> 2147483647"
    and stale: "list_all (\<lambda>r. is_targets_reply x11 S (fst r)) stale"
    and sel: "vdagent_x11_get_clipboard_selection x11 (SelectionNotify e) = Some S"
    and ev: "sn_target e = targets_atom x11" "sn_property e = targets_atom x11"
      "sn_requestor e = selection_window x11" "targets_atom x11 \<noteq> X_None"
    and reply: "gp_success env" "gp_type env = XA_ATOM" "gp_value env = Data32 announced"
      "announced \<noteq> []" "int (length announced) * sizeof_long < 2147483648"
    and fmts: "valid_formats (clipboard_formats x11)"
  shows "case vdagent_x11_do_read x11 changes of
           Inl err \<Rightarrow> False
         | Inr y \<Rightarrow>
             expected_targets_notifies y S = int (length changes)
             \<and> vdagent_x11_do_read y stale =
                 Inr (y\<lparr>expected_targets_notifies := (expected_targets_notifies y)(S := 1)\<rparr>)
             \<and> (case vdagent_x11_do_read y (stale @ [(SelectionNotify e, env)]) of
                  Inl err \<Rightarrow> False
                | Inr z \<Rightarrow>
                    expected_targets_notifies z S = 0
                    \<and> take (Suc (length (out y))) (out z) =
                        out y @ [XGetWindowProperty (selection_window x11) (targets_atom x11)
                                   False XA_ATOM]
                    \<and> recorded_pairs z S = intersect_catalog (clipboard_formats x11) announced)"
proof -
  from owner_changes_counted [OF changes(1)] start changes(3)
  obtain y where y: "vdagent_x11_do_read x11 changes = Inr y"
    and c: "expected_targets_notifies y S = int (length changes)"
    and s: "same_atoms x11 y"
    by auto
  have f: "selection_window y = selection_window x11" "targets_atom y = targets_atom x11"
    "clipboard_formats y = clipboard_formats x11"
    using s by (simp_all add: same_atoms_def)
  have stale_y: "list_all (\<lambda>r. is_targets_reply y S (fst r)) stale"
    using stale by (simp add: same_atoms_targets_reply [OF s])
  have counter_y: "expected_targets_notifies y S = int (length stale) + 1"
    using c changes(2) by simp
  have sel_y: "vdagent_x11_get_clipboard_selection y (SelectionNotify e) = Some S"
    using sel by (simp add: same_atoms_selection [OF s])
  have main: "vdagent_x11_do_read y stale =
           Inr (y\<lparr>expected_targets_notifies := (expected_targets_notifies y)(S := 1)\<rparr>)
         \<and> (case vdagent_x11_do_read y (stale @ [(SelectionNotify e, env)]) of
              Inl err \<Rightarrow> False
            | Inr z \<Rightarrow>
                expected_targets_notifies z S = 0
                \<and> take (Suc (length (out y))) (out z) =
                    out y @ [XGetWindowProperty (selection_window y) (targets_atom y) False
                                 XA_ATOM]
                \<and> recorded_pairs z S = intersect_catalog (clipboard_formats y) announced)"
    using stale_y counter_y sel_y ev reply fmts
    by (intro stale_then_honored) (simp_all add: f)
  show ?thesis
    unfolding y sum.case using c main [unfolded f] by blast
qed

theorem targets_notify_staleness_witness:
  "expected_targets_notifies example_x11 0 = 0
   \<and> (case vdagent_x11_do_read example_x11
              [(XFixesEvent example_owner_change, example_env),
               (XFixesEvent example_owner_change, example_env),
               (XFixesEvent example_owner_change, example_env)] of
         Inl err \<Rightarrow> False
       | Inr y \<Rightarrow>
           expected_targets_notifies y 0 = 3
           \<and> vdagent_x11_do_read y
                [(SelectionNotify example_owner_reply, example_env),
                 (SelectionNotify example_owner_reply, example_env)] =
               Inr (y\<lparr>expected_targets_notifies := (expected_targets_notifies y)(0 := 1)\<rparr>)
           \<and> (case vdagent_x11_do_read y
                      [(SelectionNotify example_owner_reply, example_env),
                       (SelectionNotify example_owner_reply, example_env),
                       (SelectionNotify example_owner_reply, example_targets_env)] of
                 Inl err \<Rightarrow> False
               | Inr z \<Rightarrow>
                   expected_targets_notifies z 0 = 0
                   \<and> take (Suc (length (out y))) (out z) =
                       out y @ [XGetWindowProperty 11 201 False 4]
                   \<and> recorded_pairs z 0 = [(1, 205), (2, 207)]))"
proof -
  have o: "selection_window example_x11 = 11" "targets_atom example_x11 = 201"
    "clipboard_formats example_x11 = clipboard_formats example_expecting"
    by (simp_all add: example_expecting_def example_x11_def)
  show ?thesis
    using targets_notify_staleness [OF example_staleness_facts(1-10)
        example_expecting_facts(6-10) example_staleness_facts(11)]
    by (auto simp add: example_intersection o XA_ATOM_def example_staleness_facts(1)
        simp del: vdagent_x11_do_read.simps split: sum.splits)
qed

end
